theory Spec2Isabelle
  imports Main "HOL-Library.AList"
begin

section \<open>Strings of the engine\<close>

text \<open>
  A Python \<open>str\<close> is a sequence of Unicode code points, and the engine's literals are
  mostly Chinese, so a string is a list of code points (\<open>len\<close> is \<open>length\<close>).
  ASCII literals are written with \<open>asc\<close>; the other literals of
  \<^verbatim>\<open>dynamic_prompt_test.py\<close> are listed code point by code point.
\<close>

type_synonym ustr = "nat list"

definition asc :: "string \<Rightarrow> ustr" where
  "asc s = map of_char s"

definition init_prompt_0 :: ustr where
  "init_prompt_0 =
   [0xA, 0x8BF7, 0x4E3A]"

definition init_prompt_1 :: ustr where
  "init_prompt_1 =
   [0x548C]"

definition init_prompt_2 :: ustr where
  "init_prompt_2 =
   [0x521B, 0x5EFA, 0x6218, 0x6597, 0x521D, 0x59CB, 0x8BBE, 0x5B9A, 0xFF0C, 0x5305, 0x62EC,
    0xFF1A, 0xA, 0x31, 0x2E, 0x20, 0x53CC, 0x65B9, 0x5C5E, 0x6027, 0xFF08, 0x48, 0x50, 0x20,
    0x38, 0x30, 0x30, 0x2D, 0x32, 0x30, 0x30, 0x30, 0x2C, 0x20, 0x43, 0x4F, 0x4E, 0x43, 0x20,
    0x31, 0x30, 0x30, 0x2C, 0x20, 0x41, 0x54, 0x4B, 0x20, 0x31, 0x2D, 0x35, 0x661F, 0x2C, 0x20,
    0x53, 0x50, 0x44, 0x20, 0x31, 0x2D, 0x31, 0x30, 0xFF09, 0xA, 0x32, 0x2E, 0x20, 0x5404,
    0x34, 0x4E2A, 0x6280, 0x80FD, 0xFF08, 0x5FC5, 0x987B, 0x5305, 0x542B, 0x31, 0x4E2A, 0x6062,
    0x590D, 0x43, 0x4F, 0x4E, 0x43, 0x6280, 0x80FD, 0xFF09, 0xA, 0x33, 0x2E, 0x20, 0x6709,
    0x521B, 0x610F, 0x7684, 0x5F00, 0x6218, 0x539F, 0x56E0, 0xA, 0x34, 0x2E, 0x20, 0x7B80,
    0x77ED, 0x7684, 0x5F00, 0x573A, 0x5267, 0x60C5, 0xA, 0xA, 0x8BF7, 0x4E25, 0x683C, 0x4F7F,
    0x7528, 0x4EE5, 0x4E0B, 0x4A, 0x53, 0x4F, 0x4E, 0x683C, 0x5F0F, 0xFF0C, 0x4E0D, 0x8981,
    0x6DFB, 0x52A0, 0x4EFB, 0x4F55, 0x989D, 0x5916, 0x6587, 0x672C, 0xFF0C, 0x4E0D, 0x8981,
    0x4F7F, 0x7528, 0x6D, 0x61, 0x72, 0x6B, 0x64, 0x6F, 0x77, 0x6E, 0xFF1A, 0xA, 0x7B, 0xA,
    0x20, 0x20, 0x20, 0x20, 0x22, 0x70, 0x6C, 0x61, 0x79, 0x65, 0x72, 0x22, 0x3A, 0x20, 0x7B,
    0xA, 0x20, 0x20, 0x20, 0x20, 0x20, 0x20, 0x20, 0x20, 0x22, 0x6E, 0x61, 0x6D, 0x65, 0x22,
    0x3A, 0x20, 0x22, 0x89D2, 0x8272, 0x540D, 0x79F0, 0x22, 0x2C, 0xA, 0x20, 0x20, 0x20, 0x20,
    0x20, 0x20, 0x20, 0x20, 0x22, 0x68, 0x70, 0x22, 0x3A, 0x20, 0x6570, 0x503C, 0x2C, 0xA,
    0x20, 0x20, 0x20, 0x20, 0x20, 0x20, 0x20, 0x20, 0x22, 0x6D, 0x61, 0x78, 0x5F, 0x68, 0x70,
    0x22, 0x3A, 0x20, 0x6570, 0x503C, 0x2C, 0xA, 0x20, 0x20, 0x20, 0x20, 0x20, 0x20, 0x20,
    0x20, 0x22, 0x63, 0x6F, 0x6E, 0x63, 0x22, 0x3A, 0x20, 0x6570, 0x503C, 0x2C, 0xA, 0x20,
    0x20, 0x20, 0x20, 0x20, 0x20, 0x20, 0x20, 0x22, 0x61, 0x74, 0x6B, 0x22, 0x3A, 0x20, 0x6570,
    0x503C, 0x2C, 0xA, 0x20, 0x20, 0x20, 0x20, 0x20, 0x20, 0x20, 0x20, 0x22, 0x73, 0x70, 0x64,
    0x22, 0x3A, 0x20, 0x6570, 0x503C, 0x2C, 0xA, 0x20, 0x20, 0x20, 0x20, 0x20, 0x20, 0x20,
    0x20, 0x22, 0x73, 0x6B, 0x69, 0x6C, 0x6C, 0x73, 0x22, 0x3A, 0x20, 0x5B, 0xA, 0x20, 0x20,
    0x20, 0x20, 0x20, 0x20, 0x20, 0x20, 0x20, 0x20, 0x20, 0x20, 0x7B, 0x22, 0x6E, 0x61, 0x6D,
    0x65, 0x22, 0x3A, 0x20, 0x22, 0x6280, 0x80FD, 0x31, 0x22, 0x2C, 0x20, 0x22, 0x63, 0x6F,
    0x73, 0x74, 0x22, 0x3A, 0x20, 0x6D88, 0x8017, 0x503C, 0x2C, 0x20, 0x22, 0x65, 0x66, 0x66,
    0x65, 0x63, 0x74, 0x22, 0x3A, 0x20, 0x22, 0x6548, 0x679C, 0x63CF, 0x8FF0, 0x22, 0x7D, 0x2C,
    0xA, 0x20, 0x20, 0x20, 0x20, 0x20, 0x20, 0x20, 0x20, 0x20, 0x20, 0x20, 0x20, 0x7B, 0x22,
    0x6E, 0x61, 0x6D, 0x65, 0x22, 0x3A, 0x20, 0x22, 0x6280, 0x80FD, 0x32, 0x22, 0x2C, 0x20,
    0x22, 0x63, 0x6F, 0x73, 0x74, 0x22, 0x3A, 0x20, 0x6D88, 0x8017, 0x503C, 0x2C, 0x20, 0x22,
    0x65, 0x66, 0x66, 0x65, 0x63, 0x74, 0x22, 0x3A, 0x20, 0x22, 0x6548, 0x679C, 0x63CF, 0x8FF0,
    0x22, 0x7D, 0x2C, 0xA, 0x20, 0x20, 0x20, 0x20, 0x20, 0x20, 0x20, 0x20, 0x20, 0x20, 0x20,
    0x20, 0x7B, 0x22, 0x6E, 0x61, 0x6D, 0x65, 0x22, 0x3A, 0x20, 0x22, 0x6280, 0x80FD, 0x33,
    0x22, 0x2C, 0x20, 0x22, 0x63, 0x6F, 0x73, 0x74, 0x22, 0x3A, 0x20, 0x6D88, 0x8017, 0x503C,
    0x2C, 0x20, 0x22, 0x65, 0x66, 0x66, 0x65, 0x63, 0x74, 0x22, 0x3A, 0x20, 0x22, 0x6548,
    0x679C, 0x63CF, 0x8FF0, 0x22, 0x7D, 0x2C, 0xA, 0x20, 0x20, 0x20, 0x20, 0x20, 0x20, 0x20,
    0x20, 0x20, 0x20, 0x20, 0x20, 0x7B, 0x22, 0x6E, 0x61, 0x6D, 0x65, 0x22, 0x3A, 0x20, 0x22,
    0x6280, 0x80FD, 0x34, 0x22, 0x2C, 0x20, 0x22, 0x63, 0x6F, 0x73, 0x74, 0x22, 0x3A, 0x20,
    0x6D88, 0x8017, 0x503C, 0x2C, 0x20, 0x22, 0x65, 0x66, 0x66, 0x65, 0x63, 0x74, 0x22, 0x3A,
    0x20, 0x22, 0x6548, 0x679C, 0x63CF, 0x8FF0, 0x22, 0x7D, 0xA, 0x20, 0x20, 0x20, 0x20, 0x20,
    0x20, 0x20, 0x20, 0x5D, 0xA, 0x20, 0x20, 0x20, 0x20, 0x7D, 0x2C, 0xA, 0x20, 0x20, 0x20,
    0x20, 0x22, 0x65, 0x6E, 0x65, 0x6D, 0x79, 0x22, 0x3A, 0x20, 0x7B, 0xA, 0x20, 0x20, 0x20,
    0x20, 0x20, 0x20, 0x20, 0x20, 0x22, 0x6E, 0x61, 0x6D, 0x65, 0x22, 0x3A, 0x20, 0x22, 0x89D2,
    0x8272, 0x540D, 0x79F0, 0x22, 0x2C, 0xA, 0x20, 0x20, 0x20, 0x20, 0x20, 0x20, 0x20, 0x20,
    0x22, 0x68, 0x70, 0x22, 0x3A, 0x20, 0x6570, 0x503C, 0x2C, 0xA, 0x20, 0x20, 0x20, 0x20,
    0x20, 0x20, 0x20, 0x20, 0x22, 0x6D, 0x61, 0x78, 0x5F, 0x68, 0x70, 0x22, 0x3A, 0x20, 0x6570,
    0x503C, 0x2C, 0xA, 0x20, 0x20, 0x20, 0x20, 0x20, 0x20, 0x20, 0x20, 0x22, 0x63, 0x6F, 0x6E,
    0x63, 0x22, 0x3A, 0x20, 0x6570, 0x503C, 0x2C, 0xA, 0x20, 0x20, 0x20, 0x20, 0x20, 0x20,
    0x20, 0x20, 0x22, 0x61, 0x74, 0x6B, 0x22, 0x3A, 0x20, 0x6570, 0x503C, 0x2C, 0xA, 0x20,
    0x20, 0x20, 0x20, 0x20, 0x20, 0x20, 0x20, 0x22, 0x73, 0x70, 0x64, 0x22, 0x3A, 0x20, 0x6570,
    0x503C, 0x2C, 0xA, 0x20, 0x20, 0x20, 0x20, 0x20, 0x20, 0x20, 0x20, 0x22, 0x73, 0x6B, 0x69,
    0x6C, 0x6C, 0x73, 0x22, 0x3A, 0x20, 0x5B, 0xA, 0x20, 0x20, 0x20, 0x20, 0x20, 0x20, 0x20,
    0x20, 0x20, 0x20, 0x20, 0x20, 0x7B, 0x22, 0x6E, 0x61, 0x6D, 0x65, 0x22, 0x3A, 0x20, 0x22,
    0x6280, 0x80FD, 0x31, 0x22, 0x2C, 0x20, 0x22, 0x63, 0x6F, 0x73, 0x74, 0x22, 0x3A, 0x20,
    0x6D88, 0x8017, 0x503C, 0x2C, 0x20, 0x22, 0x65, 0x66, 0x66, 0x65, 0x63, 0x74, 0x22, 0x3A,
    0x20, 0x22, 0x6548, 0x679C, 0x63CF, 0x8FF0, 0x22, 0x7D, 0x2C, 0xA, 0x20, 0x20, 0x20, 0x20,
    0x20, 0x20, 0x20, 0x20, 0x20, 0x20, 0x20, 0x20, 0x7B, 0x22, 0x6E, 0x61, 0x6D, 0x65, 0x22,
    0x3A, 0x20, 0x22, 0x6280, 0x80FD, 0x32, 0x22, 0x2C, 0x20, 0x22, 0x63, 0x6F, 0x73, 0x74,
    0x22, 0x3A, 0x20, 0x6D88, 0x8017, 0x503C, 0x2C, 0x20, 0x22, 0x65, 0x66, 0x66, 0x65, 0x63,
    0x74, 0x22, 0x3A, 0x20, 0x22, 0x6548, 0x679C, 0x63CF, 0x8FF0, 0x22, 0x7D, 0x2C, 0xA, 0x20,
    0x20, 0x20, 0x20, 0x20, 0x20, 0x20, 0x20, 0x20, 0x20, 0x20, 0x20, 0x7B, 0x22, 0x6E, 0x61,
    0x6D, 0x65, 0x22, 0x3A, 0x20, 0x22, 0x6280, 0x80FD, 0x33, 0x22, 0x2C, 0x20, 0x22, 0x63,
    0x6F, 0x73, 0x74, 0x22, 0x3A, 0x20, 0x6D88, 0x8017, 0x503C, 0x2C, 0x20, 0x22, 0x65, 0x66,
    0x66, 0x65, 0x63, 0x74, 0x22, 0x3A, 0x20, 0x22, 0x6548, 0x679C, 0x63CF, 0x8FF0, 0x22, 0x7D,
    0x2C, 0xA, 0x20, 0x20, 0x20, 0x20, 0x20, 0x20, 0x20, 0x20, 0x20, 0x20, 0x20, 0x20, 0x7B,
    0x22, 0x6E, 0x61, 0x6D, 0x65, 0x22, 0x3A, 0x20, 0x22, 0x6280, 0x80FD, 0x34, 0x22, 0x2C,
    0x20, 0x22, 0x63, 0x6F, 0x73, 0x74, 0x22, 0x3A, 0x20, 0x6D88, 0x8017, 0x503C, 0x2C, 0x20,
    0x22, 0x65, 0x66, 0x66, 0x65, 0x63, 0x74, 0x22, 0x3A, 0x20, 0x22, 0x6548, 0x679C, 0x63CF,
    0x8FF0, 0x22, 0x7D, 0xA, 0x20, 0x20, 0x20, 0x20, 0x20, 0x20, 0x20, 0x20, 0x5D, 0xA, 0x20,
    0x20, 0x20, 0x20, 0x7D, 0x2C, 0xA, 0x20, 0x20, 0x20, 0x20, 0x22, 0x72, 0x65, 0x61, 0x73,
    0x6F, 0x6E, 0x22, 0x3A, 0x20, 0x22, 0x5F00, 0x6218, 0x539F, 0x56E0, 0x63CF, 0x8FF0, 0x22,
    0x2C, 0xA, 0x20, 0x20, 0x20, 0x20, 0x22, 0x6F, 0x70, 0x65, 0x6E, 0x69, 0x6E, 0x67, 0x22,
    0x3A, 0x20, 0x22, 0x5F00, 0x573A, 0x5267, 0x60C5, 0x63CF, 0x8FF0, 0x22, 0xA, 0x7D, 0xA,
    0x20, 0x20, 0x20, 0x20, 0x20, 0x20, 0x20, 0x20]"

definition round_prompt_0 :: ustr where
  "round_prompt_0 =
   [0xA, 0x57FA, 0x4E8E, 0x4EE5, 0x4E0B, 0x6218, 0x6597, 0x4E0A, 0x4E0B, 0x6587, 0x751F,
    0x6210, 0x672C, 0x56DE, 0x5408, 0x5185, 0x5BB9, 0xFF1A, 0xA, 0x6218, 0x6597, 0x6458,
    0x8981, 0xFF1A]"

definition round_prompt_1 :: ustr where
  "round_prompt_1 =
   [0xA, 0x5F53, 0x524D, 0x56DE, 0x5408, 0xFF1A, 0x7B2C]"

definition round_prompt_2 :: ustr where
  "round_prompt_2 =
   [0x56DE, 0x5408, 0xA, 0x5F53, 0x524D, 0x9636, 0x6BB5, 0xFF1A]"

definition round_prompt_3 :: ustr where
  "round_prompt_3 =
   [0xA, 0x73A9, 0x5BB6, 0x89D2, 0x8272, 0xFF1A]"

definition round_prompt_4 :: ustr where
  "round_prompt_4 =
   [0x20, 0x28, 0x48, 0x50, 0x3A, 0x20]"

definition round_prompt_5 :: ustr where
  "round_prompt_5 =
   [0x29, 0xA, 0x654C, 0x4EBA, 0x89D2, 0x8272, 0xFF1A]"

definition round_prompt_6 :: ustr where
  "round_prompt_6 =
   [0x20, 0x28, 0x48, 0x50, 0x3A, 0x20]"

definition round_prompt_7 :: ustr where
  "round_prompt_7 =
   [0x29, 0xA, 0x73A9, 0x5BB6, 0x884C, 0x52A8, 0xFF1A]"

definition round_prompt_8 :: ustr where
  "round_prompt_8 =
   [0xA, 0xA, 0x654C, 0x4EBA, 0x53EF, 0x7528, 0x6280, 0x80FD, 0xFF1A, 0xA]"

definition round_prompt_9 :: ustr where
  "round_prompt_9 =
   [0xA, 0xA, 0x91CD, 0x8981, 0x8981, 0x6C42, 0xFF1A, 0xA, 0x31, 0x2E, 0x20, 0x5FC5, 0x987B,
    0x5305, 0x542B, 0x654C, 0x4EBA, 0x7684, 0x53CD, 0x51FB, 0x884C, 0x52A8, 0x6216, 0x6280,
    0x80FD, 0x4F7F, 0x7528, 0xFF0C, 0x4E0D, 0x80FD, 0x53EA, 0x6709, 0x5355, 0x65B9, 0x9762,
    0x653B, 0x51FB, 0xA, 0x32, 0x2E, 0x20, 0x6218, 0x6597, 0x53D9, 0x8FF0, 0x8981, 0x4F53,
    0x73B0, 0x53CC, 0x65B9, 0x4E92, 0x52A8, 0xFF0C, 0x63CF, 0x8FF0, 0x654C, 0x4EBA, 0x7684,
    0x5E94, 0x5BF9, 0x7B56, 0x7565, 0xA, 0x33, 0x2E, 0x20, 0x6839, 0x636E, 0x53CC, 0x65B9,
    0x884C, 0x52A8, 0x5408, 0x7406, 0x8BA1, 0x7B97, 0x4F24, 0x5BB3, 0x548C, 0x72B6, 0x6001,
    0x53D8, 0x5316, 0xA, 0x34, 0x2E, 0x20, 0x654C, 0x4EBA, 0x4F1A, 0x6839, 0x636E, 0x5F53,
    0x524D, 0x6218, 0x51B5, 0x667A, 0x80FD, 0x9009, 0x62E9, 0x6280, 0x80FD, 0x8FDB, 0x884C,
    0x53CD, 0x51FB, 0xA, 0xA, 0x8BF7, 0x751F, 0x6210, 0x5305, 0x542B, 0x4EE5, 0x4E0B, 0x5185,
    0x5BB9, 0x7684, 0x4A, 0x53, 0x4F, 0x4E, 0xFF0C, 0x4E0D, 0x8981, 0x6DFB, 0x52A0, 0x4EFB,
    0x4F55, 0x989D, 0x5916, 0x6587, 0x672C, 0xFF0C, 0x4E0D, 0x8981, 0x4F7F, 0x7528, 0x6D, 0x61,
    0x72, 0x6B, 0x64, 0x6F, 0x77, 0x6E, 0xFF1A, 0xA, 0x7B, 0xA, 0x20, 0x20, 0x20, 0x20, 0x22,
    0x6E, 0x61, 0x72, 0x72, 0x61, 0x74, 0x69, 0x76, 0x65, 0x22, 0x3A, 0x20, 0x22, 0x751F,
    0x52A8, 0x7684, 0x6218, 0x6597, 0x53D9, 0x8FF0, 0xFF08, 0x5FC5, 0x987B, 0x5305, 0x542B,
    0x73A9, 0x5BB6, 0x7684, 0x884C, 0x52A8, 0x548C, 0x654C, 0x4EBA, 0x7684, 0x53CD, 0x51FB,
    0x884C, 0x52A8, 0xFF09, 0x22, 0x2C, 0xA, 0x20, 0x20, 0x20, 0x20, 0x22, 0x73, 0x74, 0x61,
    0x74, 0x75, 0x73, 0x22, 0x3A, 0x20, 0x7B, 0xA, 0x20, 0x20, 0x20, 0x20, 0x20, 0x20, 0x20,
    0x20, 0x22, 0x70, 0x6C, 0x61, 0x79, 0x65, 0x72, 0x5F, 0x68, 0x70, 0x22, 0x3A, 0x20, 0x6218,
    0x6597, 0x540E, 0x73A9, 0x5BB6, 0x48, 0x50, 0xFF08, 0x30, 0x2D, 0x32, 0x30, 0x30, 0x30,
    0x4E4B, 0x95F4, 0x7684, 0x6574, 0x6570, 0xFF09, 0x2C, 0xA, 0x20, 0x20, 0x20, 0x20, 0x20,
    0x20, 0x20, 0x20, 0x22, 0x65, 0x6E, 0x65, 0x6D, 0x79, 0x5F, 0x68, 0x70, 0x22, 0x3A, 0x20,
    0x6218, 0x6597, 0x540E, 0x654C, 0x4EBA, 0x48, 0x50, 0xFF08, 0x30, 0x2D, 0x32, 0x30, 0x30,
    0x30, 0x4E4B, 0x95F4, 0x7684, 0x6574, 0x6570, 0xFF09, 0x2C, 0xA, 0x20, 0x20, 0x20, 0x20,
    0x20, 0x20, 0x20, 0x20, 0x22, 0x70, 0x6C, 0x61, 0x79, 0x65, 0x72, 0x5F, 0x63, 0x6F, 0x6E,
    0x63, 0x22, 0x3A, 0x20, 0x6218, 0x6597, 0x540E, 0x73A9, 0x5BB6, 0x43, 0x4F, 0x4E, 0x43,
    0xFF08, 0x30, 0x2D, 0x31, 0x30, 0x30, 0x4E4B, 0x95F4, 0x7684, 0x6574, 0x6570, 0xFF09, 0x2C,
    0xA, 0x20, 0x20, 0x20, 0x20, 0x20, 0x20, 0x20, 0x20, 0x22, 0x65, 0x6E, 0x65, 0x6D, 0x79,
    0x5F, 0x63, 0x6F, 0x6E, 0x63, 0x22, 0x3A, 0x20, 0x6218, 0x6597, 0x540E, 0x654C, 0x4EBA,
    0x43, 0x4F, 0x4E, 0x43, 0xFF08, 0x30, 0x2D, 0x31, 0x30, 0x30, 0x4E4B, 0x95F4, 0x7684,
    0x6574, 0x6570, 0xFF09, 0xA, 0x20, 0x20, 0x20, 0x20, 0x7D, 0x2C, 0xA, 0x20, 0x20, 0x20,
    0x20, 0x22, 0x70, 0x68, 0x61, 0x73, 0x65, 0x22, 0x3A, 0x20, 0x22, 0x62, 0x61, 0x74, 0x74,
    0x6C, 0x65, 0x2F, 0x63, 0x6C, 0x69, 0x6D, 0x61, 0x78, 0x2F, 0x65, 0x6E, 0x64, 0x69, 0x6E,
    0x67, 0x22, 0x2C, 0xA, 0x20, 0x20, 0x20, 0x20, 0x22, 0x64, 0x69, 0x61, 0x6C, 0x6F, 0x67,
    0x75, 0x65, 0x22, 0x3A, 0x20, 0x22, 0x672C, 0x56DE, 0x5408, 0x7684, 0x5173, 0x952E, 0x5BF9,
    0x8BDD, 0x22, 0x2C, 0xA, 0x20, 0x20, 0x20, 0x20, 0x22, 0x64, 0x61, 0x6D, 0x61, 0x67, 0x65,
    0x5F, 0x64, 0x65, 0x61, 0x6C, 0x74, 0x22, 0x3A, 0x20, 0x22, 0x53CC, 0x65B9, 0x9020, 0x6210,
    0x7684, 0x4F24, 0x5BB3, 0x63CF, 0x8FF0, 0x22, 0x2C, 0xA, 0x20, 0x20, 0x20, 0x20, 0x22,
    0x70, 0x6C, 0x61, 0x79, 0x65, 0x72, 0x5F, 0x73, 0x6B, 0x69, 0x6C, 0x6C, 0x5F, 0x75, 0x73,
    0x65, 0x64, 0x22, 0x3A, 0x20, 0x22, 0x73A9, 0x5BB6, 0x4F7F, 0x7528, 0x7684, 0x6280, 0x80FD,
    0x540D, 0x79F0, 0x22, 0x2C, 0xA, 0x20, 0x20, 0x20, 0x20, 0x22, 0x65, 0x6E, 0x65, 0x6D,
    0x79, 0x5F, 0x73, 0x6B, 0x69, 0x6C, 0x6C, 0x5F, 0x75, 0x73, 0x65, 0x64, 0x22, 0x3A, 0x20,
    0x22, 0x654C, 0x4EBA, 0x4F7F, 0x7528, 0x7684, 0x6280, 0x80FD, 0x540D, 0x79F0, 0x22, 0xA,
    0x7D, 0xA, 0x20, 0x20, 0x20, 0x20, 0x20, 0x20, 0x20, 0x20]"

definition marker_init :: ustr where
  "marker_init =
   [0x521D, 0x59CB, 0x5316]"

definition marker_setup :: ustr where
  "marker_setup =
   [0x521D, 0x59CB, 0x8BBE, 0x5B9A]"

definition fallback_prompt :: ustr where
  "fallback_prompt =
   [0x6A21, 0x62DF, 0x6570, 0x636E]"

definition default_prompt :: ustr where
  "default_prompt =
   [0x521D, 0x59CB, 0x5316]"

definition summary_start :: ustr where
  "summary_start =
   [0x6218, 0x6597, 0x5F00, 0x59CB, 0x2E, 0x2E, 0x2E]"

definition mode_mock :: ustr where
  "mode_mock =
   [0x6A21, 0x62DF]"

definition mode_real :: ustr where
  "mode_real =
   [0x771F, 0x5B9E, 0x41, 0x49]"

definition unknown_reason :: ustr where
  "unknown_reason =
   [0x672A, 0x77E5, 0x539F, 0x56E0]"

definition default_opening :: ustr where
  "default_opening =
   [0x6218, 0x6597, 0x5F00, 0x59CB, 0xFF01]"

definition unknown_skill :: ustr where
  "unknown_skill =
   [0x672A, 0x77E5, 0x6280, 0x80FD]"

definition unknown_effect :: ustr where
  "unknown_effect =
   [0x6548, 0x679C, 0x672A, 0x77E5]"

definition summary_prompt_prefix :: ustr where
  "summary_prompt_prefix =
   [0x8BF7, 0x7528, 0x31, 0x30, 0x30, 0x5B57, 0x4EE5, 0x5185, 0x603B, 0x7ED3, 0x4EE5, 0x4E0B,
    0x6218, 0x6597, 0x5386, 0x53F2, 0xFF1A]"

definition skill_whip :: ustr where
  "skill_whip =
   [0x89E6, 0x624B, 0x97AD, 0x7B1E]"

definition skill_oil :: ustr where
  "skill_oil =
   [0x6CB9, 0x6C61, 0x55B7, 0x5C04]"

definition skill_pulse :: ustr where
  "skill_pulse =
   [0x7535, 0x78C1, 0x8109, 0x51B2]"

definition skill_recover :: ustr where
  "skill_recover =
   [0x80FD, 0x91CF, 0x56DE, 0x6536]"

definition mock_player_skill :: ustr where
  "mock_player_skill =
   [0x6A21, 0x62DF, 0x6280, 0x80FD]"

definition mock_player_name :: ustr where
  "mock_player_name =
   [0x6D41, 0x6D6A, 0x6B66, 0x58EB]"

definition mock_enemy_name :: ustr where
  "mock_enemy_name =
   [0x673A, 0x68B0, 0x7AE0, 0x9C7C]"

definition sk_draw :: ustr where
  "sk_draw =
   [0x62D4, 0x5200, 0x65A9]"

definition sk_draw_fx :: ustr where
  "sk_draw_fx =
   [0x9020, 0x6210, 0x32, 0x30, 0x30, 0x2D, 0x33, 0x30, 0x30, 0x4F24, 0x5BB3]"

definition sk_eye :: ustr where
  "sk_eye =
   [0x5FC3, 0x773C]"

definition sk_eye_fx :: ustr where
  "sk_eye_fx =
   [0x4E0B, 0x56DE, 0x5408, 0x653B, 0x51FB, 0x5FC5, 0x4E2D]"

definition sk_guard :: ustr where
  "sk_guard =
   [0x5251, 0x6C14, 0x62A4, 0x4F53]"

definition sk_guard_fx :: ustr where
  "sk_guard_fx =
   [0x83B7, 0x5F97, 0x32, 0x30, 0x30, 0x70B9, 0x62A4, 0x76FE]"

definition sk_meditate :: ustr where
  "sk_meditate =
   [0x51A5, 0x60F3]"

definition sk_meditate_fx :: ustr where
  "sk_meditate_fx =
   [0x6062, 0x590D, 0x35, 0x30, 0x70B9, 0x43, 0x4F, 0x4E, 0x43]"

definition skill_whip_fx :: ustr where
  "skill_whip_fx =
   [0x9020, 0x6210, 0x31, 0x38, 0x30, 0x2D, 0x32, 0x38, 0x30, 0x4F24, 0x5BB3]"

definition skill_oil_fx :: ustr where
  "skill_oil_fx =
   [0x964D, 0x4F4E, 0x76EE, 0x6807, 0x53, 0x50, 0x44, 0x20, 0x33, 0x70B9]"

definition skill_pulse_fx :: ustr where
  "skill_pulse_fx =
   [0x6C89, 0x9ED8, 0x76EE, 0x6807, 0x31, 0x56DE, 0x5408]"

definition skill_recover_fx :: ustr where
  "skill_recover_fx =
   [0x6062, 0x590D, 0x34, 0x30, 0x70B9, 0x43, 0x4F, 0x4E, 0x43]"

definition mock_reason :: ustr where
  "mock_reason =
   [0x4E89, 0x593A, 0x6700, 0x540E, 0x7684, 0x53CD, 0x7269, 0x8D28, 0x7535, 0x6C60, 0xFF0C,
    0x4E3A, 0x5404, 0x81EA, 0x7684, 0x65CF, 0x7FA4, 0x7EED, 0x547D]"

definition mock_opening :: ustr where
  "mock_opening =
   [0x785D, 0x70DF, 0x5F25, 0x6F2B, 0x7684, 0x5E9F, 0x571F, 0x4E0A, 0xFF0C, 0x6B66, 0x58EB,
    0x7684, 0x5200, 0x950B, 0x4E0E, 0x673A, 0x68B0, 0x7684, 0x89E6, 0x624B, 0x9065, 0x76F8,
    0x5BF9, 0x5CD9, 0x2E, 0x2E, 0x2E]"

definition nar_pre :: ustr where
  "nar_pre =
   [0x7B2C]"

definition nar1_mid :: ustr where
  "nar1_mid =
   [0x56DE, 0x5408, 0xFF1A]"

definition nar1_attack :: ustr where
  "nar1_attack =
   [0x53D1, 0x8D77, 0x653B, 0x51FB, 0xFF0C]"

definition nar1_end :: ustr where
  "nar1_end =
   [0x8FC5, 0x901F, 0x53CD, 0x51FB, 0xFF01]"

definition dlg1_mid :: ustr where
  "dlg1_mid =
   [0xFF1A, 0x5C1D, 0x5C1D, 0x8FD9, 0x4E2A, 0xFF01]"

definition dlg_bang :: ustr where
  "dlg_bang =
   [0xFF01]"

definition nar2_end :: ustr where
  "nar2_end =
   [0x56DE, 0x5408, 0xFF1A, 0x6218, 0x6597, 0x8FDB, 0x5165, 0x767D, 0x70ED, 0x5316, 0xFF01,
    0x53CC, 0x65B9, 0x90FD, 0x4F7F, 0x51FA, 0x5F3A, 0x529B, 0x6280, 0x80FD, 0xFF01]"

definition dlg2_mid :: ustr where
  "dlg2_mid =
   [0xFF1A, 0x68C0, 0x6D4B, 0x5230, 0x5A01, 0x80C1, 0x5347, 0x7EA7, 0xFF0C, 0x542F, 0x52A8]"

definition nar3_end :: ustr where
  "nar3_end =
   [0x56DE, 0x5408, 0xFF1A, 0x51B3, 0x80DC, 0x65F6, 0x523B, 0xFF01, 0x53CC, 0x65B9, 0x90FD,
    0x62FF, 0x51FA, 0x4E86, 0x538B, 0x7BB1, 0x5E95, 0x7684, 0x7EDD, 0x62DB, 0xFF01]"

definition dlg3_mid :: ustr where
  "dlg3_mid =
   [0xFF1A, 0x91CA, 0x653E]"

definition dlg3_end :: ustr where
  "dlg3_end =
   [0xFF0C, 0x4F60, 0x65E0, 0x6CD5, 0x884C, 0x52A8, 0x4E86, 0xFF01]"

definition nar4_end :: ustr where
  "nar4_end =
   [0x56DE, 0x5408, 0xFF1A, 0x6218, 0x6597, 0x63A5, 0x8FD1, 0x5C3E, 0x58F0, 0xFF0C, 0x53CC,
    0x65B9, 0x90FD, 0x5DF2, 0x7CBE, 0x75B2, 0x529B, 0x7AED, 0x2E, 0x2E, 0x2E]"

definition dlg4 :: ustr where
  "dlg4 =
   [0x53CC, 0x65B9, 0x90FD, 0x5598, 0x606F, 0x7740, 0xFF0C, 0x5BFB, 0x627E, 0x6700, 0x540E,
    0x4E00, 0x51FB, 0x7684, 0x673A, 0x4F1A, 0x2E, 0x2E, 0x2E]"

definition dmg_pre :: ustr where
  "dmg_pre =
   [0x73A9, 0x5BB6, 0x9020, 0x6210, 0x4E86]"

definition dmg_mid :: ustr where
  "dmg_mid =
   [0x70B9, 0x4F24, 0x5BB3, 0xFF0C, 0x654C, 0x4EBA, 0x9020, 0x6210, 0x4E86]"

definition dmg_end :: ustr where
  "dmg_end =
   [0x70B9, 0x4F24, 0x5BB3]"

definition desc_pre :: ustr where
  "desc_pre =
   [0x20, 0x20, 0x2D, 0x20]"

definition desc_mid :: ustr where
  "desc_mid =
   [0x3A, 0x20]"

subsection \<open>String operations of Python used by the engine\<close>

fun starts_with :: "ustr \<Rightarrow> ustr \<Rightarrow> bool" where
  "starts_with [] ys = True"
| "starts_with (x # xs) [] = False"
| "starts_with (x # xs) (y # ys) = (x = y \<and> starts_with xs ys)"

text \<open>\<open>sub in text\<close> for two strings.\<close>

fun contains :: "ustr \<Rightarrow> ustr \<Rightarrow> bool" where
  "contains sub [] = (sub = [])"
| "contains sub (c # cs) = (starts_with sub (c # cs) \<or> contains sub cs)"

text \<open>The characters \<open>str.strip()\<close> removes: those with \<open>str.isspace()\<close>.\<close>

definition is_space :: "nat \<Rightarrow> bool" where
  "is_space c \<longleftrightarrow>
     (9 \<le> c \<and> c \<le> 13) \<or> (28 \<le> c \<and> c \<le> 32) \<or> c = 0x85 \<or> c = 0xA0 \<or> c = 0x1680 \<or>
     (0x2000 \<le> c \<and> c \<le> 0x200A) \<or> c = 0x2028 \<or> c = 0x2029 \<or> c = 0x202F \<or>
     c = 0x205F \<or> c = 0x3000"

definition py_strip :: "ustr \<Rightarrow> ustr" where
  "py_strip t = rev (dropWhile is_space (rev (dropWhile is_space t)))"

text \<open>\<open>text.split('\n')\<close> and \<open>'\n'.join(lines)\<close>.\<close>

fun split_on :: "nat \<Rightarrow> ustr \<Rightarrow> ustr list" where
  "split_on c [] = [[]]"
| "split_on c (x # xs) =
     (if x = c then [] # split_on c xs
      else (case split_on c xs of [] \<Rightarrow> [[x]] | l # ls \<Rightarrow> (x # l) # ls))"

fun join_with :: "ustr \<Rightarrow> ustr list \<Rightarrow> ustr" where
  "join_with sep [] = []"
| "join_with sep [l] = l"
| "join_with sep (l # l' # ls) = l @ sep @ join_with sep (l' # ls)"

text \<open>\<open>str(n)\<close> for an integer.\<close>

fun str_nat :: "nat \<Rightarrow> ustr" where
  "str_nat n = (if n < 10 then [48 + n] else str_nat (n div 10) @ [48 + n mod 10])"

declare str_nat.simps [simp del]

definition str_int :: "int \<Rightarrow> ustr" where
  "str_int i = (if i < 0 then 0x2D # str_nat (nat (- i)) else str_nat (nat i))"

section \<open>JSON values and the Python operations on them\<close>

text \<open>
  What \<open>json.loads\<close> returns: \<open>None\<close>, a bool, an int, a str, a list or a dict with
  str keys (kept in insertion order). Floating-point numbers are not modelled.
\<close>

datatype json =
    JNull
  | JBool bool
  | JInt int
  | JStr ustr
  | JArr "json list"
  | JObj "(ustr \<times> json) list"

datatype pyerror = KeyError | TypeError | AttributeError | JSONDecodeError

text \<open>\<open>obj[key]\<close> with a str key: only a dict can be indexed by a str.\<close>

definition py_getitem :: "json \<Rightarrow> ustr \<Rightarrow> pyerror + json" where
  "py_getitem obj k =
     (case obj of
        JObj kvs \<Rightarrow> (case map_of kvs k of None \<Rightarrow> Inl KeyError | Some v \<Rightarrow> Inr v)
      | _ \<Rightarrow> Inl TypeError)"

text \<open>\<open>obj.get(key, default)\<close>: only a dict has \<open>get\<close>.\<close>

definition py_get :: "json \<Rightarrow> ustr \<Rightarrow> json \<Rightarrow> pyerror + json" where
  "py_get obj k d =
     (case obj of
        JObj kvs \<Rightarrow> Inr (case map_of kvs k of None \<Rightarrow> d | Some v \<Rightarrow> v)
      | _ \<Rightarrow> Inl AttributeError)"

text \<open>\<open>obj[key] = v\<close> with a str key: an existing key keeps its place, a new one is added last.\<close>

definition py_setitem :: "json \<Rightarrow> ustr \<Rightarrow> json \<Rightarrow> pyerror + json" where
  "py_setitem obj k v =
     (case obj of
        JObj kvs \<Rightarrow> Inr (JObj (AList.update k v kvs))
      | _ \<Rightarrow> Inl TypeError)"

text \<open>\<open>key in obj\<close> for a str key: a key of a dict, an element of a list, a substring of a str.\<close>

definition py_contains :: "ustr \<Rightarrow> json \<Rightarrow> pyerror + bool" where
  "py_contains k obj =
     (case obj of
        JObj kvs \<Rightarrow> Inr (map_of kvs k \<noteq> None)
      | JArr xs \<Rightarrow> Inr (JStr k \<in> set xs)
      | JStr t \<Rightarrow> Inr (contains k t)
      | _ \<Rightarrow> Inl TypeError)"

text \<open>The truth value of an object in \<open>if obj\<close>.\<close>

definition truthy :: "json \<Rightarrow> bool" where
  "truthy v =
     (case v of JNull \<Rightarrow> False | JBool b \<Rightarrow> b | JInt i \<Rightarrow> i \<noteq> 0 | JStr t \<Rightarrow> t \<noteq> []
      | JArr xs \<Rightarrow> xs \<noteq> [] | JObj kvs \<Rightarrow> kvs \<noteq> [])"

text \<open>The number an object is in a comparison or a subtraction with an int (a bool is an int).\<close>

definition num_val :: "json \<Rightarrow> int option" where
  "num_val v =
     (case v of JInt i \<Rightarrow> Some i | JBool b \<Rightarrow> Some (if b then 1 else 0) | _ \<Rightarrow> None)"

text \<open>
  \<open>min(v, hi)\<close> and \<open>max(lo, v)\<close> with an int literal: both return their first argument
  unless the second is strictly better, and raise \<open>TypeError\<close> when \<open>v\<close> is no number.
\<close>

definition py_min :: "json \<Rightarrow> int \<Rightarrow> pyerror + json" where
  "py_min v hi =
     (case num_val v of None \<Rightarrow> Inl TypeError
      | Some n \<Rightarrow> Inr (if hi < n then JInt hi else v))"

definition py_max :: "int \<Rightarrow> json \<Rightarrow> pyerror + json" where
  "py_max lo v =
     (case num_val v of None \<Rightarrow> Inl TypeError
      | Some n \<Rightarrow> Inr (if n > lo then v else JInt lo))"

text \<open>\<open>max(lo, min(v, hi))\<close>, the clamp of \<open>play_round\<close>.\<close>

definition clamp :: "int \<Rightarrow> int \<Rightarrow> json \<Rightarrow> pyerror + json" where
  "clamp lo hi v = (case py_min v hi of Inl e \<Rightarrow> Inl e | Inr m \<Rightarrow> py_max lo m)"

text \<open>\<open>v - d\<close> with an int literal \<open>d\<close>.\<close>

definition py_sub :: "json \<Rightarrow> int \<Rightarrow> pyerror + int" where
  "py_sub v d = (case num_val v of None \<Rightarrow> Inl TypeError | Some n \<Rightarrow> Inr (n - d))"

subsection \<open>\<open>json.dumps(obj, ensure_ascii=False, indent=2)\<close>\<close>

definition hex_digit :: "nat \<Rightarrow> nat" where
  "hex_digit d = (if d < 10 then 48 + d else 87 + d)"

definition escape_char :: "nat \<Rightarrow> ustr" where
  "escape_char c =
     (if c = 0x22 then [0x5C, 0x22]
      else if c = 0x5C then [0x5C, 0x5C]
      else if c = 0x0A then [0x5C, 0x6E]
      else if c = 0x0D then [0x5C, 0x72]
      else if c = 0x09 then [0x5C, 0x74]
      else if c = 0x08 then [0x5C, 0x62]
      else if c = 0x0C then [0x5C, 0x66]
      else if c < 0x20 then [0x5C, 0x75, 0x30, 0x30, hex_digit (c div 16), hex_digit (c mod 16)]
      else [c])"

definition dumps_str :: "ustr \<Rightarrow> ustr" where
  "dumps_str t = 0x22 # concat (map escape_char t) @ [0x22]"

definition newline_indent :: "nat \<Rightarrow> ustr" where
  "newline_indent n = 0x0A # concat (replicate n [0x20, 0x20])"

fun dumps_at :: "nat \<Rightarrow> json \<Rightarrow> ustr"
  and dumps_elems :: "nat \<Rightarrow> json list \<Rightarrow> ustr"
  and dumps_items :: "nat \<Rightarrow> (ustr \<times> json) list \<Rightarrow> ustr" where
  "dumps_at n JNull = asc ''null''"
| "dumps_at n (JBool b) = (if b then asc ''true'' else asc ''false'')"
| "dumps_at n (JInt i) = str_int i"
| "dumps_at n (JStr t) = dumps_str t"
| "dumps_at n (JArr xs) =
     (if xs = [] then asc ''[]''
      else asc ''['' @ newline_indent (Suc n) @ dumps_elems (Suc n) xs @ newline_indent n @ asc '']'')"
| "dumps_at n (JObj kvs) =
     (if kvs = [] then asc ''{}''
      else asc ''{'' @ newline_indent (Suc n) @ dumps_items (Suc n) kvs @ newline_indent n @ asc ''}'')"
| "dumps_elems n [] = []"
| "dumps_elems n (x # xs) =
     dumps_at n x @ (if xs = [] then [] else 0x2C # newline_indent n @ dumps_elems n xs)"
| "dumps_items n [] = []"
| "dumps_items n ((k, v) # kvs) =
     dumps_str k @ asc '': '' @ dumps_at n v @
     (if kvs = [] then [] else 0x2C # newline_indent n @ dumps_items n kvs)"

definition dumps :: "json \<Rightarrow> ustr" where
  "dumps v = dumps_at 0 v"


section \<open>The engine and its surroundings\<close>

text \<open>
  What the engine does not compute itself is a parameter: \<open>json.loads\<close> (\<open>None\<close> when
  it raises \<open>JSONDecodeError\<close>), \<open>repr\<close> of a list or dict, the chat endpoint
  (what the \<open>n\<close>-th request of the session returns for a prompt and a temperature,
  \<open>None\<close> when the request raises), and the clock read when the \<open>n\<close>-th history
  entry is appended.
\<close>

record env =
  loads :: "ustr \<Rightarrow> json option"
  repr :: "json \<Rightarrow> ustr"
  endpoint :: "nat \<Rightarrow> ustr \<Rightarrow> nat \<Rightarrow> ustr option"
  clock :: "nat \<Rightarrow> ustr"

text \<open>
  The fields of \<open>AIGameEngine\<close>: the three flags of \<open>__init__\<close> (\<open>has_client\<close> is
  \<open>self.client is not None\<close>) and the entries of \<open>game_data\<close>. A temperature is given in
  tenths. \<open>init_alias\<close> is the index of the history entry whose \<open>data\<close> holds the very
  dicts that are \<open>game_data["player"]\<close> and \<open>game_data["enemy"]\<close>; \<open>requests\<close> and
  \<open>sleeps\<close> record what the engine did to the outside: the number of endpoint requests
  and the arguments of \<open>time.sleep\<close>, in order.
\<close>

record engine =
  use_mock :: bool
  ai_enabled :: bool
  has_client :: bool
  player :: json
  enemy :: json
  battle_reason :: json
  history :: "json list"
  current_summary :: ustr
  round :: int
  phase :: json
  mode :: ustr
  enemy_skills_used :: "json list"
  init_alias :: "nat option"
  requests :: nat
  sleeps :: "nat list"

text \<open>The state \<open>AIGameEngine(use_mock=True)\<close> builds (lines 19--22, 72, 76--86).\<close>

definition blank_combatant :: json where
  "blank_combatant =
     JObj [(asc ''name'', JStr []), (asc ''hp'', JInt 0), (asc ''max_hp'', JInt 0),
           (asc ''conc'', JInt 0), (asc ''skills'', JArr [])]"

definition offline_engine :: engine where
  "offline_engine =
     \<lparr>use_mock = True, ai_enabled = False, has_client = False,
      player = blank_combatant, enemy = blank_combatant, battle_reason = JStr [],
      history = [], current_summary = summary_start, round = 0, phase = JStr (asc ''init''),
      mode = mode_mock, enemy_skills_used = [], init_alias = None, requests = 0, sleeps = []\<rparr>"

text \<open>\<open>str(v)\<close>, as an f-string formats a value.\<close>

definition py_str :: "env \<Rightarrow> json \<Rightarrow> ustr" where
  "py_str env v =
     (case v of
        JStr t \<Rightarrow> t
      | JInt i \<Rightarrow> str_int i
      | JBool b \<Rightarrow> (if b then asc ''True'' else asc ''False'')
      | JNull \<Rightarrow> asc ''None''
      | _ \<Rightarrow> repr env v)"

subsection \<open>\<open>_call_ai_mock\<close>\<close>

definition skill :: "ustr \<Rightarrow> int \<Rightarrow> ustr \<Rightarrow> json" where
  "skill n c e = JObj [(asc ''name'', JStr n), (asc ''cost'', JInt c), (asc ''effect'', JStr e)]"

definition mock_init_record :: json where
  "mock_init_record =
     JObj [
       (asc ''player'', JObj [
          (asc ''name'', JStr mock_player_name), (asc ''hp'', JInt 1200),
          (asc ''max_hp'', JInt 1200), (asc ''conc'', JInt 100),
          (asc ''atk'', JInt 3), (asc ''spd'', JInt 7),
          (asc ''skills'', JArr [
             skill sk_draw 20 sk_draw_fx, skill sk_eye 15 sk_eye_fx,
             skill sk_guard 25 sk_guard_fx, skill sk_meditate 0 sk_meditate_fx])]),
       (asc ''enemy'', JObj [
          (asc ''name'', JStr mock_enemy_name), (asc ''hp'', JInt 1500),
          (asc ''max_hp'', JInt 1500), (asc ''conc'', JInt 100),
          (asc ''atk'', JInt 4), (asc ''spd'', JInt 5),
          (asc ''skills'', JArr [
             skill skill_whip 20 skill_whip_fx, skill skill_oil 25 skill_oil_fx,
             skill skill_pulse 30 skill_pulse_fx, skill skill_recover 0 skill_recover_fx])]),
       (asc ''reason'', JStr mock_reason),
       (asc ''opening'', JStr mock_opening)]"

text \<open>
  Lines 112--142: the narrative, the enemy skill, the dialogue and the two damages of the
  stage the round falls in. The first three stages read the combatants' names.
\<close>

definition mock_stage ::
    "env \<Rightarrow> engine \<Rightarrow> int \<Rightarrow> pyerror + (ustr \<times> ustr \<times> ustr \<times> int \<times> int)" where
  "mock_stage env s current_round =
     (if current_round \<le> 3 then
        (case py_getitem (player s) (asc ''name'') of
           Inl e \<Rightarrow> Inl e
         | Inr pn \<Rightarrow>
             (case py_getitem (enemy s) (asc ''name'') of
                Inl e \<Rightarrow> Inl e
              | Inr en \<Rightarrow>
                  Inr (nar_pre @ str_int current_round @ nar1_mid @ py_str env pn @ nar1_attack @
                         py_str env en @ nar1_end,
                       skill_whip,
                       py_str env en @ dlg1_mid @ skill_whip @ dlg_bang,
                       120, 100)))
      else if current_round \<le> 6 then
        (case py_getitem (enemy s) (asc ''name'') of
           Inl e \<Rightarrow> Inl e
         | Inr en \<Rightarrow>
             Inr (nar_pre @ str_int current_round @ nar2_end,
                  skill_oil,
                  py_str env en @ dlg2_mid @ skill_oil @ dlg_bang,
                  180, 150))
      else if current_round \<le> 9 then
        (case py_getitem (enemy s) (asc ''name'') of
           Inl e \<Rightarrow> Inl e
         | Inr en \<Rightarrow>
             Inr (nar_pre @ str_int current_round @ nar3_end,
                  skill_pulse,
                  py_str env en @ dlg3_mid @ skill_pulse @ dlg3_end,
                  250, 200))
      else
        Inr (nar_pre @ str_int current_round @ nar4_end, skill_whip, dlg4, 100, 80))"

text \<open>Lines 149--154: \<open>max(0, hp - damage)\<close> and \<open>max(0, conc - cost)\<close>, in the source's order.\<close>

definition mock_field :: "json \<Rightarrow> ustr \<Rightarrow> int \<Rightarrow> pyerror + int" where
  "mock_field c k d =
     (case py_getitem c k of
        Inl e \<Rightarrow> Inl e
      | Inr v \<Rightarrow> (case py_sub v d of Inl e \<Rightarrow> Inl e | Inr n \<Rightarrow> Inr (max 0 n)))"

definition mock_status :: "engine \<Rightarrow> int \<Rightarrow> int \<Rightarrow> pyerror + (int \<times> int \<times> int \<times> int)" where
  "mock_status s player_damage enemy_damage =
     (case mock_field (player s) (asc ''hp'') enemy_damage of
        Inl e \<Rightarrow> Inl e
      | Inr player_hp \<Rightarrow>
     (case mock_field (enemy s) (asc ''hp'') player_damage of
        Inl e \<Rightarrow> Inl e
      | Inr enemy_hp \<Rightarrow>
     (case mock_field (player s) (asc ''conc'') 20 of
        Inl e \<Rightarrow> Inl e
      | Inr player_conc \<Rightarrow>
     (case mock_field (enemy s) (asc ''conc'') 25 of
        Inl e \<Rightarrow> Inl e
      | Inr enemy_conc \<Rightarrow> Inr (player_hp, enemy_hp, player_conc, enemy_conc)))))"

text \<open>Lines 157--162. The first test holds whenever the second does.\<close>

definition mock_phase :: "int \<Rightarrow> int \<Rightarrow> ustr" where
  "mock_phase player_hp enemy_hp =
     (if player_hp \<le> 300 \<or> enemy_hp \<le> 300 then asc ''climax''
      else if player_hp \<le> 0 \<or> enemy_hp \<le> 0 then asc ''ending''
      else asc ''battle'')"

definition mock_round_record ::
    "ustr \<Rightarrow> ustr \<Rightarrow> ustr \<Rightarrow> int \<Rightarrow> int \<Rightarrow> int \<times> int \<times> int \<times> int \<Rightarrow> json" where
  "mock_round_record narrative enemy_skill dialogue player_damage enemy_damage st =
     (case st of (player_hp, enemy_hp, player_conc, enemy_conc) \<Rightarrow>
      JObj [
        (asc ''narrative'', JStr narrative),
        (asc ''status'', JObj [
           (asc ''player_hp'', JInt player_hp), (asc ''enemy_hp'', JInt enemy_hp),
           (asc ''player_conc'', JInt player_conc), (asc ''enemy_conc'', JInt enemy_conc)]),
        (asc ''phase'', JStr (mock_phase player_hp enemy_hp)),
        (asc ''dialogue'', JStr dialogue),
        (asc ''damage_dealt'',
           JStr (dmg_pre @ str_int player_damage @ dmg_mid @ str_int enemy_damage @ dmg_end)),
        (asc ''enemy_skill_used'', JStr enemy_skill),
        (asc ''player_skill_used'', JStr mock_player_skill)])"

text \<open>Lines 145--146: the used-skills list grows by the stage's skill unless it holds it.\<close>

definition record_skill :: "json \<Rightarrow> engine \<Rightarrow> engine" where
  "record_skill sk s =
     (if sk \<in> set (enemy_skills_used s) then s
      else s\<lparr>enemy_skills_used := enemy_skills_used s @ [sk]\<rparr>)"

definition has_marker :: "ustr \<Rightarrow> bool" where
  "has_marker prompt \<longleftrightarrow> contains marker_init prompt \<or> contains marker_setup prompt"

definition call_ai_mock :: "env \<Rightarrow> ustr \<Rightarrow> nat \<Rightarrow> engine \<Rightarrow> (pyerror + ustr) \<times> engine" where
  "call_ai_mock env prompt temperature s =
     (if has_marker prompt then (Inr (dumps mock_init_record), s)
      else
        case mock_stage env s (round s + 1) of
          Inl e \<Rightarrow> (Inl e, s)
        | Inr (narrative, enemy_skill, dialogue, player_damage, enemy_damage) \<Rightarrow>
            let s1 = record_skill (JStr enemy_skill) s in
            (case mock_status s1 player_damage enemy_damage of
               Inl e \<Rightarrow> (Inl e, s1)
             | Inr st \<Rightarrow>
                 (Inr (dumps (mock_round_record narrative enemy_skill dialogue
                                player_damage enemy_damage st)), s1)))"

subsection \<open>\<open>_call_ai_real\<close> and \<open>call_ai\<close>\<close>

text \<open>
  The retry loop of lines 185--208 from attempt \<open>attempt\<close> on. A request that raises is
  followed by \<open>time.sleep(2 ** attempt)\<close> unless it was the last attempt, after which the
  offline generator answers; so does it when the loop runs out (line 211).
\<close>

function real_attempts ::
    "env \<Rightarrow> ustr \<Rightarrow> nat \<Rightarrow> nat \<Rightarrow> nat \<Rightarrow> engine \<Rightarrow> (pyerror + ustr) \<times> engine" where
  "real_attempts env prompt temperature max_retries attempt s =
     (if attempt < max_retries then
        (let s1 = s\<lparr>requests := Suc (requests s)\<rparr> in
         case endpoint env (requests s) prompt temperature of
           Some content \<Rightarrow> (Inr content, s1)
         | None \<Rightarrow>
             if attempt < max_retries - 1 then
               real_attempts env prompt temperature max_retries (Suc attempt)
                 (s1\<lparr>sleeps := sleeps s1 @ [2 ^ attempt]\<rparr>)
             else call_ai_mock env prompt temperature s1)
      else call_ai_mock env prompt temperature s)"
  by pat_completeness auto
termination
  by (relation "measure (\<lambda>(env, prompt, temperature, max_retries, attempt, s). max_retries - attempt)")
     auto

declare real_attempts.simps [simp del]

definition call_ai_real :: "env \<Rightarrow> ustr \<Rightarrow> nat \<Rightarrow> nat \<Rightarrow> engine \<Rightarrow> (pyerror + ustr) \<times> engine" where
  "call_ai_real env prompt temperature max_retries s =
     (if \<not> has_client s \<or> \<not> ai_enabled s then call_ai_mock env prompt temperature s
      else real_attempts env prompt temperature max_retries 0 s)"

definition call_ai :: "env \<Rightarrow> ustr \<Rightarrow> nat \<Rightarrow> engine \<Rightarrow> (pyerror + ustr) \<times> engine" where
  "call_ai env prompt temperature s =
     (if use_mock s \<or> \<not> ai_enabled s then call_ai_mock env prompt temperature s
      else call_ai_real env prompt temperature 3 s)"

subsection \<open>\<open>extract_json\<close>\<close>

text \<open>Lines 235--240: the text from the first \<open>{\<close> to the last \<open>}\<close>, when both occur.\<close>

definition brace_slice :: "ustr \<Rightarrow> ustr option" where
  "brace_slice t =
     (if 0x7B \<in> set t \<and> 0x7D \<in> set t then
        (let start = length (takeWhile (\<lambda>c. c \<noteq> 0x7B) t);
             end = length t - length (takeWhile (\<lambda>c. c \<noteq> 0x7D) (rev t))
         in Some (drop start (take end t)))
      else None)"

text \<open>Lines 247--253: every line stripped, those starting with \<open>//\<close> or \<open>#\<close> dropped.\<close>

definition strip_comments :: "ustr \<Rightarrow> ustr" where
  "strip_comments t =
     join_with [0x0A]
       (filter (\<lambda>l. \<not> starts_with (asc ''//'') l \<and> \<not> starts_with (asc ''#'') l)
          (map py_strip (split_on 0x0A t)))"

text \<open>Lines 233--242: the second attempt, \<open>None\<close> when it is skipped or fails.\<close>

definition parse_braces :: "env \<Rightarrow> ustr \<Rightarrow> json option" where
  "parse_braces env t =
     (case brace_slice t of None \<Rightarrow> None | Some json_str \<Rightarrow> loads env json_str)"

definition extract_json :: "env \<Rightarrow> ustr \<Rightarrow> engine \<Rightarrow> (pyerror + json) \<times> engine" where
  "extract_json env text0 s =
     (let t = py_strip text0 in
      case loads env t of
        Some v \<Rightarrow> (Inr v, s)
      | None \<Rightarrow>
          (case parse_braces env t of
             Some v \<Rightarrow> (Inr v, s)
           | None \<Rightarrow>
               (case loads env (strip_comments t) of
                  Some v \<Rightarrow> (Inr v, s)
                | None \<Rightarrow>
                    (case call_ai_mock env fallback_prompt 7 s of
                       (Inl e, s1) \<Rightarrow> (Inl e, s1)
                     | (Inr reply, s1) \<Rightarrow>
                         (case loads env reply of
                            None \<Rightarrow> (Inl JSONDecodeError, s1)
                          | Some v \<Rightarrow> (Inr v, s1))))))"


subsection \<open>\<open>initialize_game\<close>\<close>

definition init_prompt :: "ustr \<Rightarrow> ustr \<Rightarrow> ustr" where
  "init_prompt player_name enemy_name =
     init_prompt_0 @ player_name @ init_prompt_1 @ enemy_name @ init_prompt_2"

text \<open>
  Lines 326--334: a combatant without \<open>"hp"\<close> gets \<open>hp\<close>, \<open>max_hp\<close> and \<open>conc\<close>; one
  with \<open>"hp"\<close> is left as the backend gave it.
\<close>

definition ensure_defaults :: "json \<Rightarrow> int \<Rightarrow> pyerror + json" where
  "ensure_defaults c hp0 =
     (case py_contains (asc ''hp'') c of
        Inl e \<Rightarrow> Inl e
      | Inr present \<Rightarrow>
          if present then Inr c
          else
            (case py_setitem c (asc ''hp'') (JInt hp0) of
               Inl e \<Rightarrow> Inl e
             | Inr c1 \<Rightarrow>
            (case py_setitem c1 (asc ''max_hp'') (JInt hp0) of
               Inl e \<Rightarrow> Inl e
             | Inr c2 \<Rightarrow> py_setitem c2 (asc ''conc'') (JInt 100))))"

text \<open>
  The init entry of the history stores \<open>data\<close> itself, whose \<open>"player"\<close> and \<open>"enemy"\<close>
  are the dicts the engine goes on mutating. \<open>with_combatants\<close> is \<open>data\<close> with the
  combatants as they are now, \<open>alias_entry\<close> an init entry read now, and
  \<open>view_history\<close> the history as a reader sees it.
\<close>

definition with_combatants :: "json \<Rightarrow> json \<Rightarrow> json \<Rightarrow> json" where
  "with_combatants data p e =
     (case data of
        JObj d \<Rightarrow> JObj (AList.update (asc ''enemy'') e (AList.update (asc ''player'') p d))
      | _ \<Rightarrow> data)"

definition alias_entry :: "json \<Rightarrow> json \<Rightarrow> json \<Rightarrow> json" where
  "alias_entry entry p e =
     (case entry of
        JObj kvs \<Rightarrow>
          (case map_of kvs (asc ''data'') of
             Some d \<Rightarrow> JObj (AList.update (asc ''data'') (with_combatants d p e) kvs)
           | None \<Rightarrow> entry)
      | _ \<Rightarrow> entry)"

definition view_history :: "engine \<Rightarrow> json list" where
  "view_history s =
     (case init_alias s of
        None \<Rightarrow> history s
      | Some k \<Rightarrow>
          if k < length (history s)
          then (history s)[k := alias_entry (history s ! k) (player s) (enemy s)]
          else history s)"

text \<open>Lines 316--323 and 349--356: \<open>game_data.update\<close>. The old combatants stop being aliased.\<close>

definition seed_state :: "json \<Rightarrow> json \<Rightarrow> json \<Rightarrow> engine \<Rightarrow> engine" where
  "seed_state p e reason s =
     s\<lparr>history := view_history s, init_alias := None, player := p, enemy := e,
       battle_reason := reason, phase := JStr (asc ''battle''), round := 0,
       enemy_skills_used := []\<rparr>"

text \<open>Lines 337--342 and 358--363: the init entry, whose \<open>data\<close> holds the combatants.\<close>

definition append_init :: "env \<Rightarrow> json \<Rightarrow> json \<Rightarrow> engine \<Rightarrow> engine" where
  "append_init env data opening s =
     s\<lparr>history := history s @
          [JObj [(asc ''type'', JStr (asc ''init'')), (asc ''data'', data),
                 (asc ''narrative'', opening),
                 (asc ''timestamp'', JStr (clock env (length (history s))))]],
       init_alias := Some (length (history s))\<rparr>"

text \<open>Lines 315--342, for a \<open>data\<close> with both combatants.\<close>

definition init_from_data :: "env \<Rightarrow> json \<Rightarrow> engine \<Rightarrow> (pyerror + json) \<times> engine" where
  "init_from_data env data s =
     (case py_getitem data (asc ''player'') of
        Inl e \<Rightarrow> (Inl e, s)
      | Inr p \<Rightarrow>
     (case py_getitem data (asc ''enemy'') of
        Inl e \<Rightarrow> (Inl e, s)
      | Inr en \<Rightarrow>
     (case py_get data (asc ''reason'') (JStr unknown_reason) of
        Inl e \<Rightarrow> (Inl e, s)
      | Inr reason \<Rightarrow>
          let s1 = seed_state p en reason s in
     (case ensure_defaults (player s1) 1000 of
        Inl e \<Rightarrow> (Inl e, s1)
      | Inr p' \<Rightarrow>
          let s2 = s1\<lparr>player := p'\<rparr> in
     (case ensure_defaults (enemy s2) 1200 of
        Inl e \<Rightarrow> (Inl e, s2)
      | Inr en' \<Rightarrow>
          let s3 = s2\<lparr>enemy := en'\<rparr> in
     (case py_get data (asc ''opening'') (JStr default_opening) of
        Inl e \<Rightarrow> (Inl e, s3)
      | Inr opening \<Rightarrow>
          let data' = with_combatants data (player s3) (enemy s3)
          in (Inr data', append_init env data' opening s3)))))))"

text \<open>Lines 345--364: the offline seed, when \<open>data\<close> lacks a combatant.\<close>

definition init_from_default :: "env \<Rightarrow> engine \<Rightarrow> (pyerror + json) \<times> engine" where
  "init_from_default env s =
     (case call_ai_mock env default_prompt 7 s of
        (Inl e, s1) \<Rightarrow> (Inl e, s1)
      | (Inr reply, s1) \<Rightarrow>
     (case loads env reply of
        None \<Rightarrow> (Inl JSONDecodeError, s1)
      | Some default_data \<Rightarrow>
     (case py_getitem default_data (asc ''player'') of
        Inl e \<Rightarrow> (Inl e, s1)
      | Inr p \<Rightarrow>
     (case py_getitem default_data (asc ''enemy'') of
        Inl e \<Rightarrow> (Inl e, s1)
      | Inr en \<Rightarrow>
     (case py_get default_data (asc ''reason'') (JStr unknown_reason) of
        Inl e \<Rightarrow> (Inl e, s1)
      | Inr reason \<Rightarrow>
          let s2 = seed_state p en reason s1 in
     (case py_get default_data (asc ''opening'') (JStr default_opening) of
        Inl e \<Rightarrow> (Inl e, s2)
      | Inr opening \<Rightarrow> (Inr default_data, append_init env default_data opening s2)))))))"

definition initialize_game :: "env \<Rightarrow> ustr \<Rightarrow> ustr \<Rightarrow> engine \<Rightarrow> (pyerror + json) \<times> engine" where
  "initialize_game env player_name enemy_name s =
     (case call_ai env (init_prompt player_name enemy_name) 8 s of
        (Inl e, s1) \<Rightarrow> (Inl e, s1)
      | (Inr response, s1) \<Rightarrow>
     (case extract_json env response s1 of
        (Inl e, s2) \<Rightarrow> (Inl e, s2)
      | (Inr data, s2) \<Rightarrow>
     (case py_contains (asc ''player'') data of
        Inl e \<Rightarrow> (Inl e, s2)
      | Inr has_player \<Rightarrow>
          if \<not> has_player then init_from_default env s2
          else
            (case py_contains (asc ''enemy'') data of
               Inl e \<Rightarrow> (Inl e, s2)
             | Inr has_enemy \<Rightarrow>
                 if has_enemy then init_from_data env data s2 else init_from_default env s2))))"

subsection \<open>\<open>update_summary\<close>\<close>

definition summary_prompt :: "env \<Rightarrow> engine \<Rightarrow> ustr" where
  "summary_prompt env s =
     summary_prompt_prefix @
     repr env (JArr (drop (length (history s) - 3) (view_history s)))"

definition update_summary :: "env \<Rightarrow> engine \<Rightarrow> engine" where
  "update_summary env s =
     (if length (history s) < 2 then s
      else if length (history s) mod 3 = 0 then
        (case call_ai env (summary_prompt env s) 3 s of
           (Inl e, s1) \<Rightarrow> s1
         | (Inr summary, s1) \<Rightarrow>
             if summary \<noteq> [] \<and> length summary > 10 then s1\<lparr>current_summary := summary\<rparr>
             else s1)
      else s)"

subsection \<open>\<open>play_round\<close>\<close>

text \<open>Line 391: one line of the enemy's skill list.\<close>

definition skill_line :: "env \<Rightarrow> json \<Rightarrow> pyerror + ustr" where
  "skill_line env sk =
     (case py_get sk (asc ''name'') (JStr unknown_skill) of
        Inl e \<Rightarrow> Inl e
      | Inr n \<Rightarrow>
     (case py_get sk (asc ''effect'') (JStr unknown_effect) of
        Inl e \<Rightarrow> Inl e
      | Inr f \<Rightarrow> Inr (desc_pre @ py_str env n @ desc_mid @ py_str env f)))"

fun skill_lines :: "env \<Rightarrow> json list \<Rightarrow> pyerror + ustr list" where
  "skill_lines env [] = Inr []"
| "skill_lines env (sk # sks) =
     (case skill_line env sk of
        Inl e \<Rightarrow> Inl e
      | Inr l \<Rightarrow> (case skill_lines env sks of Inl e \<Rightarrow> Inl e | Inr ls \<Rightarrow> Inr (l # ls)))"

text \<open>What \<open>for x in obj\<close> visits: a list's elements, a dict's keys, a str's characters.\<close>

definition py_iter :: "json \<Rightarrow> pyerror + json list" where
  "py_iter obj =
     (case obj of
        JArr xs \<Rightarrow> Inr xs
      | JObj kvs \<Rightarrow> Inr (map (\<lambda>kv. JStr (fst kv)) kvs)
      | JStr t \<Rightarrow> Inr (map (\<lambda>c. JStr [c]) t)
      | _ \<Rightarrow> Inl TypeError)"

text \<open>Lines 390--437, read after the round counter was incremented.\<close>

definition round_prompt :: "env \<Rightarrow> engine \<Rightarrow> ustr \<Rightarrow> pyerror + ustr" where
  "round_prompt env s player_action =
     (case py_get (enemy s) (asc ''skills'') (JArr []) of
        Inl e \<Rightarrow> Inl e
      | Inr enemy_skills \<Rightarrow>
     (case py_iter enemy_skills of
        Inl e \<Rightarrow> Inl e
      | Inr sks \<Rightarrow>
     (case skill_lines env sks of
        Inl e \<Rightarrow> Inl e
      | Inr ls \<Rightarrow>
     (case py_getitem (player s) (asc ''hp'') of
        Inl e \<Rightarrow> Inl e
      | Inr player_hp \<Rightarrow>
     (case py_getitem (enemy s) (asc ''hp'') of
        Inl e \<Rightarrow> Inl e
      | Inr enemy_hp \<Rightarrow>
     (case py_getitem (player s) (asc ''name'') of
        Inl e \<Rightarrow> Inl e
      | Inr player_name \<Rightarrow>
     (case py_getitem (enemy s) (asc ''name'') of
        Inl e \<Rightarrow> Inl e
      | Inr enemy_name \<Rightarrow>
          Inr (round_prompt_0 @ current_summary s @
               round_prompt_1 @ str_int (round s) @
               round_prompt_2 @ py_str env (phase s) @
               round_prompt_3 @ py_str env player_name @
               round_prompt_4 @ py_str env player_hp @
               round_prompt_5 @ py_str env enemy_name @
               round_prompt_6 @ py_str env enemy_hp @
               round_prompt_7 @ player_action @
               round_prompt_8 @ join_with [0x0A] ls @
               round_prompt_9))))))))"

text \<open>Lines 448--453: one status field read with default 0, clamped and written back.\<close>

definition clamp_field :: "json \<Rightarrow> ustr \<Rightarrow> int \<Rightarrow> pyerror + json" where
  "clamp_field st k hi =
     (case py_get st k (JInt 0) of
        Inl e \<Rightarrow> Inl e
      | Inr v \<Rightarrow> (case clamp 0 hi v of Inl e \<Rightarrow> Inl e | Inr c \<Rightarrow> py_setitem st k c))"

definition clamp_status :: "json \<Rightarrow> pyerror + json" where
  "clamp_status st =
     (case clamp_field st (asc ''player_hp'') 2000 of
        Inl e \<Rightarrow> Inl e
      | Inr st1 \<Rightarrow>
     (case clamp_field st1 (asc ''enemy_hp'') 2000 of
        Inl e \<Rightarrow> Inl e
      | Inr st2 \<Rightarrow>
     (case clamp_field st2 (asc ''player_conc'') 100 of
        Inl e \<Rightarrow> Inl e
      | Inr st3 \<Rightarrow> clamp_field st3 (asc ''enemy_conc'') 100)))"

text \<open>Lines 456--459: one field of a combatant set from the clamped status.\<close>

definition copy_field :: "json \<Rightarrow> ustr \<Rightarrow> json \<Rightarrow> ustr \<Rightarrow> pyerror + json" where
  "copy_field st k c ck =
     (case py_getitem st k of Inl e \<Rightarrow> Inl e | Inr v \<Rightarrow> py_setitem c ck v)"

text \<open>
  Lines 444--459. The result is \<open>round_data\<close> as the mutation of its \<open>status\<close> leaves it.
\<close>

definition apply_status :: "json \<Rightarrow> engine \<Rightarrow> (pyerror + json) \<times> engine" where
  "apply_status round_data s =
     (case py_contains (asc ''status'') round_data of
        Inl e \<Rightarrow> (Inl e, s)
      | Inr present \<Rightarrow>
          if \<not> present then (Inr round_data, s)
          else
     (case py_getitem round_data (asc ''status'') of
        Inl e \<Rightarrow> (Inl e, s)
      | Inr st0 \<Rightarrow>
     (case clamp_status st0 of
        Inl e \<Rightarrow> (Inl e, s)
      | Inr st \<Rightarrow>
     (case copy_field st (asc ''player_hp'') (player s) (asc ''hp'') of
        Inl e \<Rightarrow> (Inl e, s)
      | Inr p1 \<Rightarrow>
          let s1 = s\<lparr>player := p1\<rparr> in
     (case copy_field st (asc ''enemy_hp'') (enemy s1) (asc ''hp'') of
        Inl e \<Rightarrow> (Inl e, s1)
      | Inr e1 \<Rightarrow>
          let s2 = s1\<lparr>enemy := e1\<rparr> in
     (case copy_field st (asc ''player_conc'') (player s2) (asc ''conc'') of
        Inl e \<Rightarrow> (Inl e, s2)
      | Inr p2 \<Rightarrow>
          let s3 = s2\<lparr>player := p2\<rparr> in
     (case copy_field st (asc ''enemy_conc'') (enemy s3) (asc ''conc'') of
        Inl e \<Rightarrow> (Inl e, s3)
      | Inr e2 \<Rightarrow>
     (case py_setitem round_data (asc ''status'') st of
        Inl e \<Rightarrow> (Inl e, s3\<lparr>enemy := e2\<rparr>)
      | Inr rd \<Rightarrow> (Inr rd, s3\<lparr>enemy := e2\<rparr>)))))))))"

text \<open>Lines 461--482, after the status was applied.\<close>

definition record_round :: "env \<Rightarrow> ustr \<Rightarrow> json \<Rightarrow> engine \<Rightarrow> (pyerror + json) \<times> engine" where
  "record_round env player_action round_data s =
     (case py_contains (asc ''phase'') round_data of
        Inl e \<Rightarrow> (Inl e, s)
      | Inr has_phase \<Rightarrow>
     (case (if has_phase then py_getitem round_data (asc ''phase'') else Inr (phase s)) of
        Inl e \<Rightarrow> (Inl e, s)
      | Inr ph \<Rightarrow>
          let s1 = s\<lparr>phase := ph\<rparr> in
     (case py_get round_data (asc ''enemy_skill_used'') (JStr []) of
        Inl e \<Rightarrow> (Inl e, s1)
      | Inr enemy_skill_used \<Rightarrow>
          let s2 = (if truthy enemy_skill_used then record_skill enemy_skill_used s1 else s1) in
     (case py_get round_data (asc ''player_skill_used'') (JStr []) of
        Inl e \<Rightarrow> (Inl e, s2)
      | Inr player_skill_used \<Rightarrow>
          let entry =
                JObj [(asc ''round'', JInt (round s2)), (asc ''action'', JStr player_action),
                      (asc ''player_skill'', player_skill_used),
                      (asc ''enemy_skill'', enemy_skill_used),
                      (asc ''data'', round_data),
                      (asc ''timestamp'', JStr (clock env (length (history s2))))]
          in (Inr round_data, update_summary env (s2\<lparr>history := history s2 @ [entry]\<rparr>))))))"

text \<open>Lines 387--441: the round counter, the prompt, the backend and the repair.\<close>

definition fetch_round :: "env \<Rightarrow> ustr \<Rightarrow> engine \<Rightarrow> (pyerror + json) \<times> engine" where
  "fetch_round env player_action s0 =
     (let s = s0\<lparr>round := round s0 + 1\<rparr> in
      case round_prompt env s player_action of
        Inl e \<Rightarrow> (Inl e, s)
      | Inr prompt \<Rightarrow>
          (case call_ai env prompt 7 s of
             (Inl e, s1) \<Rightarrow> (Inl e, s1)
           | (Inr response, s1) \<Rightarrow> extract_json env response s1))"

definition play_round :: "env \<Rightarrow> ustr \<Rightarrow> engine \<Rightarrow> (pyerror + json) \<times> engine" where
  "play_round env player_action s0 =
     (case fetch_round env player_action s0 of
        (Inl e, s2) \<Rightarrow> (Inl e, s2)
      | (Inr round_data, s2) \<Rightarrow>
          (case apply_status round_data s2 of
             (Inl e, s3) \<Rightarrow> (Inl e, s3)
           | (Inr rd, s3) \<Rightarrow> record_round env player_action rd s3))"

subsection \<open>\<open>is_game_over\<close> and \<open>get_game_status\<close>\<close>

text \<open>\<open>c["hp"] <= 0\<close>.\<close>

definition hp_le_zero :: "json \<Rightarrow> pyerror + bool" where
  "hp_le_zero c =
     (case py_getitem c (asc ''hp'') of
        Inl e \<Rightarrow> Inl e
      | Inr v \<Rightarrow> (case num_val v of None \<Rightarrow> Inl TypeError | Some n \<Rightarrow> Inr (n \<le> 0)))"

definition is_game_over :: "engine \<Rightarrow> pyerror + bool" where
  "is_game_over s =
     (case hp_le_zero (player s) of
        Inl e \<Rightarrow> Inl e
      | Inr player_down \<Rightarrow>
          if player_down then Inr True
          else
            (case hp_le_zero (enemy s) of
               Inl e \<Rightarrow> Inl e
             | Inr enemy_down \<Rightarrow>
                 if enemy_down then Inr True
                 else Inr (phase s = JStr (asc ''ending'') \<or> round s \<ge> 20)))"

text \<open>\<open>obj.copy()\<close>: dicts and lists have it. The copy has the same elements.\<close>

definition py_copy :: "json \<Rightarrow> pyerror + json" where
  "py_copy obj = (case obj of JObj kvs \<Rightarrow> Inr obj | JArr xs \<Rightarrow> Inr obj | _ \<Rightarrow> Inl AttributeError)"

record snapshot =
  st_round :: int
  st_phase :: json
  st_player :: json
  st_enemy :: json
  st_game_over :: bool
  st_history_count :: nat
  st_mode :: ustr
  st_enemy_skills_used :: "json list"

definition get_game_status :: "engine \<Rightarrow> pyerror + snapshot" where
  "get_game_status s =
     (case py_copy (player s) of
        Inl e \<Rightarrow> Inl e
      | Inr p \<Rightarrow>
     (case py_copy (enemy s) of
        Inl e \<Rightarrow> Inl e
      | Inr en \<Rightarrow>
     (case is_game_over s of
        Inl e \<Rightarrow> Inl e
      | Inr over \<Rightarrow>
          Inr \<lparr>st_round = round s, st_phase = phase s, st_player = p, st_enemy = en,
               st_game_over = over, st_history_count = length (history s),
               st_mode = mode s, st_enemy_skills_used = enemy_skills_used s\<rparr>)))"


section \<open>Reading a state\<close>

text \<open>The number a combatant holds under a key, if it holds one.\<close>

definition stat :: "ustr \<Rightarrow> json \<Rightarrow> int option" where
  "stat k c = (case py_getitem c k of Inl e \<Rightarrow> None | Inr v \<Rightarrow> num_val v)"

section \<open>States and surroundings used as examples\<close>

definition combatant :: "ustr \<Rightarrow> int \<Rightarrow> int \<Rightarrow> int \<Rightarrow> json" where
  "combatant n h m c =
     JObj [(asc ''name'', JStr n), (asc ''hp'', JInt h), (asc ''max_hp'', JInt m),
           (asc ''conc'', JInt c), (asc ''skills'', JArr [])]"

text \<open>An engine in live mode, as \<open>__init__\<close> leaves it after a successful connection test.\<close>

definition live_engine :: engine where
  "live_engine =
     offline_engine\<lparr>use_mock := False, ai_enabled := True, has_client := True, mode := mode_real\<rparr>"

text \<open>
  A battle whose player stands at \<open>hp = -5\<close>: \<open>initialize_game\<close> stores the combatants
  of a live backend as they come.
\<close>

definition negative_hp_state :: engine where
  "negative_hp_state =
     live_engine\<lparr>player := combatant (asc ''A'') (- 5) 1000 100,
                 enemy := combatant (asc ''B'') 900 900 100,
                 phase := JStr (asc ''battle'')\<rparr>"

text \<open>A battle in its twentieth round with both combatants standing.\<close>

definition round20_state :: engine where
  "round20_state =
     offline_engine\<lparr>player := combatant (asc ''A'') 700 1000 100,
                    enemy := combatant (asc ''B'') 900 900 100,
                    phase := JStr (asc ''battle''), round := 20\<rparr>"

section \<open>What a call to the backend leaves alone\<close>

text \<open>
  The fields that neither the offline generator, nor the retry loop, nor the summary
  writes: everything but the used-skills list, the summary, and the request and sleep logs.
\<close>

definition kept :: "engine \<Rightarrow> engine \<Rightarrow> bool" where
  "kept s s' \<longleftrightarrow>
     player s' = player s \<and> enemy s' = enemy s \<and> round s' = round s \<and>
     phase s' = phase s \<and> history s' = history s \<and> battle_reason s' = battle_reason s \<and>
     mode s' = mode s \<and> use_mock s' = use_mock s \<and> ai_enabled s' = ai_enabled s \<and>
     has_client s' = has_client s \<and> init_alias s' = init_alias s"

text \<open>A number between 0 and \<open>hi\<close> under key \<open>k\<close>.\<close>

definition bounded :: "json \<Rightarrow> ustr \<Rightarrow> int \<Rightarrow> bool" where
  "bounded c k hi \<longleftrightarrow> (\<exists>n. stat k c = Some n \<and> 0 \<le> n \<and> n \<le> hi)"

section \<open>Scripted surroundings\<close>

text \<open>
  \<open>json.loads\<close> restricted to the serialisations of the listed values, an endpoint that
  answers the \<open>n\<close>-th request with \<open>replies n\<close> whatever the prompt, and a clock that
  stands still. \<open>repr\<close> is not used by the runs below.
\<close>

definition table_loads :: "json list \<Rightarrow> ustr \<Rightarrow> json option" where
  "table_loads vs t = map_of (map (\<lambda>v. (dumps v, v)) vs) t"

definition scripted_env :: "json list \<Rightarrow> (nat \<Rightarrow> ustr option) \<Rightarrow> env" where
  "scripted_env vs replies =
     \<lparr>loads = table_loads vs, repr = (\<lambda>v. []), endpoint = (\<lambda>n prompt t. replies n),
      clock = (\<lambda>n. asc ''12:00:00'')\<rparr>"

text \<open>A live backend's seed for a battle of A against B.\<close>

definition live_init_record :: json where
  "live_init_record =
     JObj [(asc ''player'', combatant (asc ''A'') 700 1000 100),
           (asc ''enemy'', combatant (asc ''B'') 900 900 100),
           (asc ''reason'', JStr (asc ''a duel'')),
           (asc ''opening'', JStr (asc ''They meet.''))]"

text \<open>A live session: the seed on the first request, then \<open>rd\<close> on every request.\<close>

definition live_env :: "json \<Rightarrow> env" where
  "live_env rd =
     scripted_env [live_init_record, rd]
       (\<lambda>n. if n = 0 then Some (dumps live_init_record) else Some (dumps rd))"

text \<open>The battle after \<open>initialize_game("A", "B")\<close> in such a session.\<close>

definition live_battle :: engine where
  "live_battle =
     live_engine\<lparr>
       player := combatant (asc ''A'') 700 1000 100,
       enemy := combatant (asc ''B'') 900 900 100,
       battle_reason := JStr (asc ''a duel''),
       phase := JStr (asc ''battle''),
       history := [JObj [(asc ''type'', JStr (asc ''init'')), (asc ''data'', live_init_record),
                         (asc ''narrative'', JStr (asc ''They meet.'')),
                         (asc ''timestamp'', JStr (asc ''12:00:00''))]],
       init_alias := Some 0, requests := 1\<rparr>"

text \<open>A round record that puts the player at 0 and reports the phase \<open>battle\<close>.\<close>

definition knockout_record :: json where
  "knockout_record =
     JObj [(asc ''narrative'', JStr (asc ''A falls.'')),
           (asc ''status'', JObj [(asc ''player_hp'', JInt 0), (asc ''enemy_hp'', JInt 500),
                                  (asc ''player_conc'', JInt 40), (asc ''enemy_conc'', JInt 30)]),
           (asc ''phase'', JStr (asc ''battle''))]"


text \<open>A round record without \<open>"status"\<close>.\<close>

definition bare_record :: json where
  "bare_record =
     JObj [(asc ''narrative'', JStr (asc ''Nothing happens.'')),
           (asc ''phase'', JStr (asc ''climax''))]"

text \<open>The states after one round of \<open>"attack"\<close> in such sessions.\<close>

definition knockout_state :: engine where
  "knockout_state = snd (play_round (live_env knockout_record) (asc ''attack'') live_battle)"





text \<open>The history entry of such a round.\<close>

definition round_entry :: "json \<Rightarrow> json" where
  "round_entry rd =
     JObj [(asc ''round'', JInt 1), (asc ''action'', JStr (asc ''attack'')),
           (asc ''player_skill'', JStr []), (asc ''enemy_skill'', JStr []),
           (asc ''data'', rd), (asc ''timestamp'', JStr (asc ''12:00:00''))]"



section \<open>Combatants the offline generator can read\<close>

text \<open>A combatant with a name and with numbers as hp and conc.\<close>

definition fighter :: "json \<Rightarrow> bool" where
  "fighter c \<longleftrightarrow>
     (case py_getitem c (asc ''name'') of Inl e \<Rightarrow> False | Inr n \<Rightarrow> True) \<and>
     stat (asc ''hp'') c \<noteq> None \<and> stat (asc ''conc'') c \<noteq> None"

text \<open>
  A live session that is seeded with a player lacking \<open>"conc"\<close> and whose endpoint then
  fails on every request, and the battle \<open>initialize_game("A", "B")\<close> makes of the seed.
\<close>

definition no_conc_record :: json where
  "no_conc_record =
     JObj [(asc ''player'', JObj [(asc ''name'', JStr (asc ''A'')), (asc ''hp'', JInt 700),
                                  (asc ''max_hp'', JInt 1000)]),
           (asc ''enemy'', combatant (asc ''B'') 900 900 100)]"

definition outage_env :: "json \<Rightarrow> env" where
  "outage_env seed =
     scripted_env [seed] (\<lambda>n. if n = 0 then Some (dumps seed) else None)"

definition no_conc_state :: engine where
  "no_conc_state =
     snd (initialize_game (outage_env no_conc_record) (asc ''A'') (asc ''B'') live_engine)"


section \<open>The stages as the specification lists them\<close>



text \<open>What the offline generator writes for \<open>live_battle\<close>: the stage of round 1.\<close>

definition first_round_record :: json where
  "first_round_record =
     mock_round_record
       (nar_pre @ asc ''1'' @ nar1_mid @ asc ''A'' @ nar1_attack @ asc ''B'' @ nar1_end)
       skill_whip (asc ''B'' @ dlg1_mid @ skill_whip @ dlg_bang) 120 100 (600, 780, 80, 75)"

text \<open>\<open>json.loads\<close> given as a table of texts, with an endpoint that always fails.\<close>

definition text_env :: "(ustr \<times> json) list \<Rightarrow> env" where
  "text_env table =
     \<lparr>loads = map_of table, repr = (\<lambda>v. []), endpoint = (\<lambda>n prompt t. None),
      clock = (\<lambda>n. asc ''12:00:00'')\<rparr>"

definition repair_env :: env where
  "repair_env =
     text_env [(dumps bare_record, bare_record), (asc ''5'', JInt 5),
               (dumps first_round_record, first_round_record)]"

text \<open>The live session with the bare record after one, two and three rounds.\<close>

definition chat_state1 :: engine where
  "chat_state1 = snd (play_round (live_env bare_record) (asc ''attack'') live_battle)"

definition chat_state2 :: engine where
  "chat_state2 = snd (play_round (live_env bare_record) (asc ''attack'') chat_state1)"

definition chat_state3 :: engine where
  "chat_state3 = snd (play_round (live_env bare_record) (asc ''attack'') chat_state2)"

text \<open>The second round of that session at the moment \<open>update_summary\<close> is called.\<close>

definition summary_due_state :: engine where
  "summary_due_state =
     live_battle\<lparr>round := 2, requests := 3, phase := JStr (asc ''climax''),
       history := history live_battle @
         [round_entry bare_record,
          JObj [(asc ''round'', JInt 2), (asc ''action'', JStr (asc ''attack'')),
                (asc ''player_skill'', JStr []), (asc ''enemy_skill'', JStr []),
                (asc ''data'', bare_record), (asc ''timestamp'', JStr (asc ''12:00:00''))]]\<rparr>"


text \<open>The history entry of round \<open>k\<close> of that session.\<close>

definition chat_entry :: "int \<Rightarrow> json" where
  "chat_entry k =
     JObj [(asc ''round'', JInt k), (asc ''action'', JStr (asc ''attack'')),
           (asc ''player_skill'', JStr []), (asc ''enemy_skill'', JStr []),
           (asc ''data'', bare_record), (asc ''timestamp'', JStr (asc ''12:00:00''))]"


section \<open>The offline battle\<close>

text \<open>The offline seed's combatants with hp \<open>h\<close> and conc \<open>c\<close>.\<close>

definition mock_player_at :: "int \<Rightarrow> int \<Rightarrow> json" where
  "mock_player_at h c =
     JObj [(asc ''name'', JStr mock_player_name), (asc ''hp'', JInt h),
           (asc ''max_hp'', JInt 1200), (asc ''conc'', JInt c),
           (asc ''atk'', JInt 3), (asc ''spd'', JInt 7),
           (asc ''skills'', JArr [
              skill sk_draw 20 sk_draw_fx, skill sk_eye 15 sk_eye_fx,
              skill sk_guard 25 sk_guard_fx, skill sk_meditate 0 sk_meditate_fx])]"

definition mock_enemy_at :: "int \<Rightarrow> int \<Rightarrow> json" where
  "mock_enemy_at h c =
     JObj [(asc ''name'', JStr mock_enemy_name), (asc ''hp'', JInt h),
           (asc ''max_hp'', JInt 1500), (asc ''conc'', JInt c),
           (asc ''atk'', JInt 4), (asc ''spd'', JInt 5),
           (asc ''skills'', JArr [
              skill skill_whip 20 skill_whip_fx, skill skill_oil 25 skill_oil_fx,
              skill skill_pulse 30 skill_pulse_fx, skill skill_recover 0 skill_recover_fx])]"

text \<open>
  An offline battle of the seed's combatants: history \<open>H\<close>, summary \<open>S\<close>, round \<open>r\<close>,
  phase \<open>p\<close>, the four numbers (player hp, enemy hp, player conc, enemy conc) and the
  used skills.
\<close>

definition offline_state ::
    "json list \<Rightarrow> ustr \<Rightarrow> int \<Rightarrow> ustr \<Rightarrow> int \<times> int \<times> int \<times> int \<Rightarrow> json list \<Rightarrow> engine" where
  "offline_state H S r p st used =
     (case st of (ph, eh, pc, ec) \<Rightarrow>
      offline_engine\<lparr>player := mock_player_at ph pc, enemy := mock_enemy_at eh ec,
        battle_reason := JStr mock_reason, history := H, current_summary := S, round := r,
        phase := JStr p, enemy_skills_used := used, init_alias := Some 0\<rparr>)"

text \<open>What the offline generator writes in its first and second stage for these combatants.\<close>

definition stage1_record :: "int \<Rightarrow> int \<times> int \<times> int \<times> int \<Rightarrow> json" where
  "stage1_record n st =
     mock_round_record
       (nar_pre @ str_int n @ nar1_mid @ mock_player_name @ nar1_attack @ mock_enemy_name @
        nar1_end)
       skill_whip (mock_enemy_name @ dlg1_mid @ skill_whip @ dlg_bang) 120 100 st"

definition stage2_record :: "int \<Rightarrow> int \<times> int \<times> int \<times> int \<Rightarrow> json" where
  "stage2_record n st =
     mock_round_record (nar_pre @ str_int n @ nar2_end)
       skill_oil (mock_enemy_name @ dlg2_mid @ skill_oil @ dlg_bang) 180 150 st"

text \<open>The records of the first three rounds after the offline seed.\<close>

definition offline_round1 :: json where
  "offline_round1 = stage1_record 2 (1100, 1380, 80, 75)"

definition offline_round2 :: json where
  "offline_round2 = stage1_record 3 (1000, 1260, 60, 50)"

definition offline_round3 :: json where
  "offline_round3 = stage2_record 4 (850, 1080, 40, 25)"

text \<open>Surroundings whose \<open>json.loads\<close> reads the seed and these three records.\<close>

definition offline_env :: env where
  "offline_env =
     scripted_env [mock_init_record, offline_round1, offline_round2, offline_round3]
       (\<lambda>n. None)"

text \<open>The init entry the offline seed leaves in the history.\<close>

definition offline_init_entry :: "env \<Rightarrow> json" where
  "offline_init_entry env =
     JObj [(asc ''type'', JStr (asc ''init'')), (asc ''data'', mock_init_record),
           (asc ''narrative'', JStr mock_opening),
           (asc ''timestamp'', JStr (clock env 0))]"


section \<open>\<open>get_game_status\<close> on objects with identity\<close>

text \<open>
  A Python dict or list is an object, and a slot of it holds either an immutable value or
  a reference to another object: a combatant's \<open>"skills"\<close> refers to a list that a copy
  of the combatant shares. To say what a caller can reach through a snapshot, the objects
  live in a store, a list addressed by position, and \<open>game_data\<close> holds the addresses of
  the player, the enemy and the used-skills list.
\<close>

type_synonym addr = nat

datatype slot = Val json | Ref addr

datatype obj = Dict "(ustr \<times> slot) list" | Lst "slot list"

type_synonym store = "obj list"

record roots =
  player_at :: addr
  enemy_at :: addr
  skills_used_at :: addr

text \<open>\<open>obj.copy()\<close>: a new object with the slots of the old one.\<close>

definition copy_obj :: "store \<Rightarrow> addr \<Rightarrow> addr \<times> store" where
  "copy_obj h a = (length h, h @ [h ! a])"

record snapshot_refs =
  snap_player :: addr
  snap_enemy :: addr
  snap_skills_used :: addr

text \<open>Lines 498, 499 and 503: the three copies a snapshot holds.\<close>

definition get_game_status_refs :: "roots \<Rightarrow> store \<Rightarrow> snapshot_refs \<times> store" where
  "get_game_status_refs g h =
     (case copy_obj h (player_at g) of (p, h1) \<Rightarrow>
      case copy_obj h1 (enemy_at g) of (e, h2) \<Rightarrow>
      case copy_obj h2 (skills_used_at g) of (u, h3) \<Rightarrow>
        (\<lparr>snap_player = p, snap_enemy = e, snap_skills_used = u\<rparr>, h3))"

text \<open>No slot of the store refers outside it.\<close>

definition slots_of :: "obj \<Rightarrow> slot list" where
  "slots_of ob = (case ob of Dict kvs \<Rightarrow> map snd kvs | Lst xs \<Rightarrow> xs)"

definition in_store :: "store \<Rightarrow> slot \<Rightarrow> bool" where
  "in_store h sl = (case sl of Val v \<Rightarrow> True | Ref a \<Rightarrow> a < length h)"

definition closed :: "store \<Rightarrow> bool" where
  "closed h = list_all (\<lambda>ob. list_all (in_store h) (slots_of ob)) h"

text \<open>
  The value a slot stands for, followed through at most \<open>n\<close> references: what the
  engine reads when it reads \<open>game_data\<close>.
\<close>

fun read_slot :: "nat \<Rightarrow> store \<Rightarrow> slot \<Rightarrow> json option" where
  "read_slot 0 h sl = None"
| "read_slot (Suc n) h (Val v) = Some v"
| "read_slot (Suc n) h (Ref a) =
     (if a < length h then
        (case h ! a of
           Dict kvs \<Rightarrow>
             map_option JObj
               (those (map (\<lambda>kv. map_option (Pair (fst kv)) (read_slot n h (snd kv))) kvs))
         | Lst xs \<Rightarrow> map_option JArr (those (map (read_slot n h) xs)))
      else None)"

text \<open>
  What a caller does with \<open>status["player"]["skills"].append(v)\<close>: the list the copy's
  \<open>"skills"\<close> slot refers to grows.
\<close>

definition append_to_skills :: "snapshot_refs \<Rightarrow> slot \<Rightarrow> store \<Rightarrow> store" where
  "append_to_skills snap v h =
     (case h ! snap_player snap of
        Dict kvs \<Rightarrow>
          (case map_of kvs (asc ''skills'') of
             Some (Ref b) \<Rightarrow>
               (case h ! b of Lst xs \<Rightarrow> h[b := Lst (xs @ [v])] | Dict d \<Rightarrow> h)
           | _ \<Rightarrow> h)
      | Lst xs \<Rightarrow> h)"

text \<open>A store with a player who has one skill, an enemy, and an empty used-skills list.\<close>

definition demo_store :: store where
  "demo_store =
     [Dict [(asc ''name'', Val (JStr (asc ''A''))), (asc ''hp'', Val (JInt 700)),
            (asc ''skills'', Ref 3)],
      Dict [(asc ''name'', Val (JStr (asc ''B''))), (asc ''hp'', Val (JInt 900)),
            (asc ''skills'', Ref 4)],
      Lst [],
      Lst [Ref 5],
      Lst [],
      Dict [(asc ''name'', Val (JStr (asc ''slash''))), (asc ''cost'', Val (JInt 20))]]"

definition demo_roots :: roots where
  "demo_roots = \<lparr>player_at = 0, enemy_at = 1, skills_used_at = 2\<rparr>"


section \<open>Basic facts\<close>

lemma asc_eq_iff [simp]: "asc a = asc b \<longleftrightarrow> a = b"
proof -
  have "inj (of_char :: char \<Rightarrow> nat)"
    by (rule inj_of_char)
  then show ?thesis
    by (simp add: asc_def inj_map_eq_map)
qed

lemma stat_combatant [simp]:
  "stat (asc ''hp'') (combatant n h m c) = Some h"
  "stat (asc ''conc'') (combatant n h m c) = Some c"
  by (simp_all add: stat_def combatant_def py_getitem_def num_val_def)

lemma hp_le_zero_stat:
  "stat (asc ''hp'') c = Some n \<Longrightarrow> hp_le_zero c = Inr (n \<le> 0)"
  by (auto simp: stat_def hp_le_zero_def split: sum.splits option.splits)

section \<open>The game-over predicate\<close>

text \<open>
  C3, as stated, at a state \<open>initialize_game\<close> can produce: the player stands at
  \<open>hp = -5\<close>, the enemy stands, the phase is \<open>battle\<close> and the round is 0. No disjunct
  of the claim holds, and \<open>is_game_over\<close> returns \<open>True\<close>: the test is \<open>hp <= 0\<close>.
\<close>

theorem is_game_over_negative_hp:
  "is_game_over negative_hp_state = Inr True \<and>
   \<not> (stat (asc ''hp'') (player negative_hp_state) = Some 0 \<or>
      stat (asc ''hp'') (enemy negative_hp_state) = Some 0 \<or>
      phase negative_hp_state = JStr (asc ''ending'') \<or>
      round negative_hp_state \<ge> 20)"
  by (simp add: is_game_over_def hp_le_zero_stat [of _ "- 5"] negative_hp_state_def
      live_engine_def offline_engine_def)

text \<open>
  C3, amended: for a state whose combatants hold numbers as \<open>hp\<close>, \<open>is_game_over\<close>
  returns true exactly when the player's hp is at most 0, or the enemy's hp is at most 0,
  or the phase is \<open>ending\<close>, or the round is at least 20; in particular it returns true
  for every such state with round at least 20.
\<close>

theorem is_game_over_iff:
  assumes "stat (asc ''hp'') (player s) = Some p"
      and "stat (asc ''hp'') (enemy s) = Some e"
  shows "is_game_over s =
           Inr (p \<le> 0 \<or> e \<le> 0 \<or> phase s = JStr (asc ''ending'') \<or> round s \<ge> 20) \<and>
         (round s \<ge> 20 \<longrightarrow> is_game_over s = Inr True)"
  using assms by (auto simp: is_game_over_def hp_le_zero_stat)

theorem is_game_over_iff_witness:
  "stat (asc ''hp'') (player round20_state) = Some 700 \<and>
   stat (asc ''hp'') (enemy round20_state) = Some 900 \<and>
   round round20_state \<ge> 20 \<and>
   is_game_over round20_state = Inr True"
proof -
  have p: "stat (asc ''hp'') (player round20_state) = Some 700"
    and e: "stat (asc ''hp'') (enemy round20_state) = Some 900"
    and r: "round round20_state \<ge> 20"
    by (simp_all add: round20_state_def)
  from is_game_over_iff [OF p e] r show ?thesis
    using p e by simp
qed


section \<open>What a call to the backend keeps\<close>


lemma kept_refl [simp]: "kept s s"
  by (simp add: kept_def)

lemma kept_trans: "kept s s1 \<Longrightarrow> kept s1 s2 \<Longrightarrow> kept s s2"
  by (simp add: kept_def)

lemma record_skill_kept [simp]: "kept s (record_skill sk s)"
  by (simp add: kept_def record_skill_def)

lemma mock_status_record_skill [simp]:
  "mock_status (record_skill sk s) a b = mock_status s a b"
  by (simp add: mock_status_def record_skill_def cong: sum.case_cong)

lemma call_ai_mock_kept: "call_ai_mock env prompt t s = (r, s') \<Longrightarrow> kept s s'"
  by (auto simp: call_ai_mock_def Let_def split: if_splits sum.splits prod.splits)

lemma real_attempts_kept:
  "real_attempts env prompt t m a s = (r, s') \<Longrightarrow> kept s s'"
proof (induction env prompt t m a s rule: real_attempts.induct)
  case (1 env prompt t m a s)
  show ?case
  proof (cases "a < m")
    case False
    with "1.prems" show ?thesis
      by (simp add: real_attempts.simps [of env prompt t m a s] call_ai_mock_kept)
  next
    case True
    note am = this
    let ?s1 = "s\<lparr>requests := Suc (requests s)\<rparr>"
    have k1: "kept s ?s1" by (simp add: kept_def)
    show ?thesis
    proof (cases "endpoint env (requests s) prompt t")
      case (Some content)
      with am "1.prems" show ?thesis
        by (auto simp: real_attempts.simps [of env prompt t m a s] Let_def kept_def)
    next
      case None
      show ?thesis
      proof (cases "a < m - 1")
        case True
        let ?s2 = "?s1\<lparr>sleeps := sleeps ?s1 @ [2 ^ a]\<rparr>"
        from am None True "1.prems"
        have "real_attempts env prompt t m (Suc a) ?s2 = (r, s')"
          by (simp add: real_attempts.simps [of env prompt t m a s] Let_def)
        with "1.IH" [OF am refl None True] have "kept ?s2 s'" by simp
        then show ?thesis by (simp add: kept_def)
      next
        case False
        with am None "1.prems" have "call_ai_mock env prompt t ?s1 = (r, s')"
          by (simp add: real_attempts.simps [of env prompt t m a s] Let_def)
        then have "kept ?s1 s'" by (rule call_ai_mock_kept)
        with k1 show ?thesis by (rule kept_trans)
      qed
    qed
  qed
qed

lemma call_ai_kept: "call_ai env prompt t s = (r, s') \<Longrightarrow> kept s s'"
  by (auto simp: call_ai_def call_ai_real_def call_ai_mock_kept real_attempts_kept
      split: if_splits)

lemma extract_json_kept: "extract_json env text0 s = (r, s') \<Longrightarrow> kept s s'"
  by (auto simp: extract_json_def Let_def dest: call_ai_mock_kept
      split: option.splits sum.splits prod.splits)

lemma update_summary_kept: "kept s (update_summary env s)"
  by (auto simp: update_summary_def kept_def dest!: call_ai_kept
      split: prod.splits sum.splits)



section \<open>Clamping and the parts of a round\<close>


lemma map_of_update [simp]:
  "map_of (AList.update k v al) k' = (if k' = k then Some v else map_of al k')"
  by (simp add: update_conv')

lemma clamp_range:
  assumes "clamp 0 hi v = Inr c" and "0 \<le> hi"
  shows "\<exists>n. num_val c = Some n \<and> 0 \<le> n \<and> n \<le> hi"
  using assms
  by (auto simp: clamp_def py_min_def py_max_def num_val_def
      split: option.splits sum.splits if_splits json.splits)

lemma clamp_nonpositive:
  assumes "num_val v = Some n" and "n \<le> 0" and "0 \<le> hi"
  shows "clamp 0 hi v = Inr (JInt 0)"
  using assms
  by (auto simp: clamp_def py_min_def py_max_def num_val_def
      split: option.splits sum.splits if_splits json.splits)

lemma clamp_field_result:
  assumes "clamp_field st k hi = Inr st'" and "0 \<le> hi"
  shows "\<exists>kvs c n. st = JObj kvs \<and> st' = JObj (AList.update k c kvs) \<and>
           num_val c = Some n \<and> 0 \<le> n \<and> n \<le> hi"
proof -
  from assms(1) obtain kvs where st: "st = JObj kvs"
    by (cases st) (auto simp: clamp_field_def py_get_def)
  from assms(1) st obtain c where
    c: "clamp 0 hi (case map_of kvs k of None \<Rightarrow> JInt 0 | Some v \<Rightarrow> v) = Inr c"
    and st': "st' = JObj (AList.update k c kvs)"
    by (auto simp: clamp_field_def py_get_def py_setitem_def split: sum.splits)
  from clamp_range [OF c assms(2)] st st' show ?thesis by blast
qed

lemma bounded_update_same:
  "num_val v = Some n \<Longrightarrow> 0 \<le> n \<Longrightarrow> n \<le> hi \<Longrightarrow> bounded (JObj (AList.update k v kvs)) k hi"
  by (simp add: bounded_def stat_def py_getitem_def)

lemma bounded_update_other:
  "k' \<noteq> k \<Longrightarrow> bounded (JObj (AList.update k' v kvs)) k hi = bounded (JObj kvs) k hi"
  by (simp add: bounded_def stat_def py_getitem_def)

lemma clamp_field_bounded:
  assumes "clamp_field st k hi = Inr st'" and "0 \<le> hi"
  shows "bounded st' k hi"
    and "k' \<noteq> k \<Longrightarrow> bounded st' k' hi' = bounded st k' hi'"
proof -
  from clamp_field_result [OF assms] obtain kvs c n where
    *: "st = JObj kvs" "st' = JObj (AList.update k c kvs)" "num_val c = Some n" "0 \<le> n" "n \<le> hi"
    by blast
  then show "bounded st' k hi" by (simp add: bounded_update_same)
  show "k' \<noteq> k \<Longrightarrow> bounded st' k' hi' = bounded st k' hi'"
    using * by (simp add: bounded_update_other)
qed

lemma clamp_status_bounded:
  assumes "clamp_status st0 = Inr st"
  shows "bounded st (asc ''player_hp'') 2000 \<and> bounded st (asc ''enemy_hp'') 2000 \<and>
         bounded st (asc ''player_conc'') 100 \<and> bounded st (asc ''enemy_conc'') 100"
proof -
  from assms obtain st1 st2 st3 where
    1: "clamp_field st0 (asc ''player_hp'') 2000 = Inr st1" and
    2: "clamp_field st1 (asc ''enemy_hp'') 2000 = Inr st2" and
    3: "clamp_field st2 (asc ''player_conc'') 100 = Inr st3" and
    4: "clamp_field st3 (asc ''enemy_conc'') 100 = Inr st"
    by (auto simp: clamp_status_def split: sum.splits)
  have b1: "bounded st1 (asc ''player_hp'') 2000"
    using clamp_field_bounded(1) [OF 1] by simp
  have b2: "bounded st2 (asc ''enemy_hp'') 2000"
    using clamp_field_bounded(1) [OF 2] by simp
  have b3: "bounded st3 (asc ''player_conc'') 100"
    using clamp_field_bounded(1) [OF 3] by simp
  have b4: "bounded st (asc ''enemy_conc'') 100"
    using clamp_field_bounded(1) [OF 4] by simp
  have "bounded st (asc ''player_hp'') 2000"
    using b1 clamp_field_bounded(2) [OF 2, where k' = "asc ''player_hp''" and hi' = 2000]
      clamp_field_bounded(2) [OF 3, where k' = "asc ''player_hp''" and hi' = 2000]
      clamp_field_bounded(2) [OF 4, where k' = "asc ''player_hp''" and hi' = 2000] by simp
  moreover have "bounded st (asc ''enemy_hp'') 2000"
    using b2 clamp_field_bounded(2) [OF 3, where k' = "asc ''enemy_hp''" and hi' = 2000]
      clamp_field_bounded(2) [OF 4, where k' = "asc ''enemy_hp''" and hi' = 2000] by simp
  moreover have "bounded st (asc ''player_conc'') 100"
    using b3 clamp_field_bounded(2) [OF 4, where k' = "asc ''player_conc''" and hi' = 100] by simp
  ultimately show ?thesis using b4 by simp
qed

lemma copy_field_bounded:
  assumes "copy_field st k c ck = Inr c'" and "bounded st k hi"
  shows "bounded c' ck hi"
proof -
  from assms(1) obtain v ckvs where
    *: "py_getitem st k = Inr v" "c = JObj ckvs" "c' = JObj (AList.update ck v ckvs)"
    by (cases c) (auto simp: copy_field_def py_setitem_def split: sum.splits)
  from assms(2) * obtain n where "num_val v = Some n" "0 \<le> n" "n \<le> hi"
    by (auto simp: bounded_def stat_def)
  with * show "bounded c' ck hi" by (simp add: bounded_update_same)
qed

lemma copy_field_other:
  assumes "copy_field st k c ck = Inr c'" and "ck' \<noteq> ck"
  shows "bounded c' ck' hi' = bounded c ck' hi'"
proof -
  from assms(1) obtain v ckvs where
    *: "c = JObj ckvs" "c' = JObj (AList.update ck v ckvs)"
    by (cases c) (auto simp: copy_field_def py_setitem_def split: sum.splits)
  with assms(2) show ?thesis by (simp add: bounded_update_other)
qed

text \<open>What apply_status does, by cases on the presence of "status".\<close>

lemma apply_status_absent:
  "py_contains (asc ''status'') rd = Inr False \<Longrightarrow> apply_status rd s = (Inr rd, s)"
  by (simp add: apply_status_def)

lemma apply_status_cases:
  assumes "apply_status rd s = (Inr rd', s')"
  shows "(py_contains (asc ''status'') rd = Inr False \<and> rd' = rd \<and> s' = s) \<or>
         (py_contains (asc ''status'') rd = Inr True \<and>
          py_contains (asc ''status'') rd' = Inr True \<and>
          (\<exists>p e. s' = s\<lparr>player := p, enemy := e\<rparr> \<and>
            bounded p (asc ''hp'') 2000 \<and> bounded p (asc ''conc'') 100 \<and>
            bounded e (asc ''hp'') 2000 \<and> bounded e (asc ''conc'') 100))"
proof (cases "py_contains (asc ''status'') rd")
  case (Inl e)
  with assms show ?thesis by (simp add: apply_status_def)
next
  case (Inr present)
  show ?thesis
  proof (cases present)
    case False
    with Inr assms show ?thesis by (simp add: apply_status_def)
  next
    case True
    from assms Inr True obtain st0 st p1 e1 p2 e2 where
      g: "py_getitem rd (asc ''status'') = Inr st0" and
      c: "clamp_status st0 = Inr st" and
      1: "copy_field st (asc ''player_hp'') (player s) (asc ''hp'') = Inr p1" and
      2: "copy_field st (asc ''enemy_hp'') (enemy s) (asc ''hp'') = Inr e1" and
      3: "copy_field st (asc ''player_conc'') p1 (asc ''conc'') = Inr p2" and
      4: "copy_field st (asc ''enemy_conc'') e1 (asc ''conc'') = Inr e2" and
      r: "py_setitem rd (asc ''status'') st = Inr rd'" and
      s': "s' = s\<lparr>player := p2, enemy := e2\<rparr>"
      by (auto simp: apply_status_def Let_def split: sum.splits)
    note b = clamp_status_bounded [OF c]
    have "bounded p1 (asc ''hp'') 2000" using copy_field_bounded [OF 1] b by simp
    then have ph: "bounded p2 (asc ''hp'') 2000"
      using copy_field_other [OF 3, where ck' = "asc ''hp''" and hi' = 2000] by simp
    have pc: "bounded p2 (asc ''conc'') 100" using copy_field_bounded [OF 3] b by simp
    have "bounded e1 (asc ''hp'') 2000" using copy_field_bounded [OF 2] b by simp
    then have eh: "bounded e2 (asc ''hp'') 2000"
      using copy_field_other [OF 4, where ck' = "asc ''hp''" and hi' = 2000] by simp
    have ec: "bounded e2 (asc ''conc'') 100" using copy_field_bounded [OF 4] b by simp
    from r have "py_contains (asc ''status'') rd' = Inr True"
      by (cases rd) (auto simp: py_setitem_def py_contains_def)
    with Inr True s' ph pc eh ec show ?thesis by auto
  qed
qed

lemma record_round_obj:
  "record_round env a (JObj kvs) s =
     (let s1 = s\<lparr>phase := (case map_of kvs (asc ''phase'') of None \<Rightarrow> phase s | Some p \<Rightarrow> p)\<rparr>;
          esu = (case map_of kvs (asc ''enemy_skill_used'') of None \<Rightarrow> JStr [] | Some v \<Rightarrow> v);
          s2 = (if truthy esu then record_skill esu s1 else s1);
          psu = (case map_of kvs (asc ''player_skill_used'') of None \<Rightarrow> JStr [] | Some v \<Rightarrow> v);
          entry = JObj [(asc ''round'', JInt (round s2)), (asc ''action'', JStr a),
                        (asc ''player_skill'', psu), (asc ''enemy_skill'', esu),
                        (asc ''data'', JObj kvs),
                        (asc ''timestamp'', JStr (clock env (length (history s2))))]
      in (Inr (JObj kvs), update_summary env (s2\<lparr>history := history s2 @ [entry]\<rparr>)))"
  by (simp add: record_round_def py_contains_def py_get_def py_getitem_def Let_def
      split: option.splits)

lemma record_round_dict:
  assumes "record_round env a rd s = (Inr rd', s')"
  shows "\<exists>kvs. rd = JObj kvs"
  using assms
  by (cases rd) (auto simp: record_round_def py_get_def Let_def split: sum.splits if_splits)

lemma record_round_obj_kept:
  "\<exists>s2 entry.
     kept (s\<lparr>phase := (case map_of kvs (asc ''phase'') of None \<Rightarrow> phase s | Some p \<Rightarrow> p)\<rparr>) s2 \<and>
     record_round env a (JObj kvs) s =
       (Inr (JObj kvs), update_summary env (s2\<lparr>history := history s2 @ [entry]\<rparr>))"
proof -
  let ?s1 = "s\<lparr>phase := (case map_of kvs (asc ''phase'') of None \<Rightarrow> phase s | Some p \<Rightarrow> p)\<rparr>"
  let ?esu = "case map_of kvs (asc ''enemy_skill_used'') of None \<Rightarrow> JStr [] | Some v \<Rightarrow> v"
  let ?s2 = "if truthy ?esu then record_skill ?esu ?s1 else ?s1"
  let ?psu = "case map_of kvs (asc ''player_skill_used'') of None \<Rightarrow> JStr [] | Some v \<Rightarrow> v"
  let ?entry = "JObj [(asc ''round'', JInt (round ?s2)), (asc ''action'', JStr a),
                      (asc ''player_skill'', ?psu), (asc ''enemy_skill'', ?esu),
                      (asc ''data'', JObj kvs),
                      (asc ''timestamp'', JStr (clock env (length (history ?s2))))]"
  have "kept ?s1 ?s2" by simp
  moreover have "record_round env a (JObj kvs) s =
      (Inr (JObj kvs), update_summary env (?s2\<lparr>history := history ?s2 @ [?entry]\<rparr>))"
    by (simp only: record_round_obj Let_def)
  ultimately show ?thesis by blast
qed

lemma record_round_result:
  assumes "record_round env a rd s = (Inr rd', s')"
  shows "rd' = rd \<and> player s' = player s \<and> enemy s' = enemy s \<and>
         round s' = round s \<and> length (history s') = Suc (length (history s)) \<and>
         phase s' = (case py_getitem rd (asc ''phase'') of Inr p \<Rightarrow> p | Inl e \<Rightarrow> phase s)"
proof -
  from record_round_dict [OF assms] obtain kvs where rd: "rd = JObj kvs" ..
  from record_round_obj_kept [of s kvs env a] obtain s2 entry where
    k2: "kept (s\<lparr>phase := (case map_of kvs (asc ''phase'') of None \<Rightarrow> phase s | Some p \<Rightarrow> p)\<rparr>) s2"
    and eq: "record_round env a (JObj kvs) s =
       (Inr (JObj kvs), update_summary env (s2\<lparr>history := history s2 @ [entry]\<rparr>))"
    by blast
  from assms rd eq have
    s': "s' = update_summary env (s2\<lparr>history := history s2 @ [entry]\<rparr>)" and rd': "rd' = rd"
    by simp_all
  have "kept (s2\<lparr>history := history s2 @ [entry]\<rparr>) s'"
    unfolding s' by (rule update_summary_kept)
  with k2 rd rd' show ?thesis
    by (auto simp: kept_def py_getitem_def split: option.splits)
qed

lemma fetch_round_kept:
  assumes "fetch_round env a s0 = (r, s2)"
  shows "kept (s0\<lparr>round := round s0 + 1\<rparr>) s2"
proof -
  let ?s = "s0\<lparr>round := round s0 + 1\<rparr>"
  show ?thesis
  proof (cases "round_prompt env ?s a")
    case (Inl e)
    with assms show ?thesis by (simp add: fetch_round_def Let_def)
  next
    case (Inr prompt)
    obtain r1 s1 where c: "call_ai env prompt 7 ?s = (r1, s1)" by (cases "call_ai env prompt 7 ?s")
    then have k1: "kept ?s s1" by (rule call_ai_kept)
    show ?thesis
    proof (cases r1)
      case (Inl e)
      with assms Inr c k1 show ?thesis by (simp add: fetch_round_def Let_def)
    next
      case (Inr response)
      with assms \<open>round_prompt env ?s a = Inr prompt\<close> c
      have "extract_json env response s1 = (r, s2)" by (simp add: fetch_round_def Let_def)
      then have "kept s1 s2" by (rule extract_json_kept)
      with k1 show ?thesis by (rule kept_trans)
    qed
  qed
qed

lemma fetch_round_enemy_dict:
  assumes "fetch_round env a s0 = (Inr rd, s2)"
  shows "\<exists>ekvs. enemy s0 = JObj ekvs"
proof -
  from assms obtain prompt where "round_prompt env (s0\<lparr>round := round s0 + 1\<rparr>) a = Inr prompt"
    by (auto simp: fetch_round_def Let_def split: sum.splits)
  then show ?thesis
    by (cases "enemy s0") (auto simp: round_prompt_def py_get_def split: sum.splits)
qed

lemma play_round_stages:
  assumes "play_round env a s0 = (Inr rd, s')"
  obtains rd0 s2 s3 where
    "fetch_round env a s0 = (Inr rd0, s2)"
    "apply_status rd0 s2 = (Inr rd, s3)"
    "record_round env a rd s3 = (Inr rd, s')"
proof -
  from assms obtain rd0 s2 rd1 s3 where
    f: "fetch_round env a s0 = (Inr rd0, s2)" and
    ap: "apply_status rd0 s2 = (Inr rd1, s3)" and
    rr: "record_round env a rd1 s3 = (Inr rd, s')"
    by (auto simp: play_round_def split: sum.splits prod.splits)
  from record_round_result [OF rr] have "rd = rd1" by simp
  with f ap rr that show ?thesis by blast
qed



section \<open>Rounds of a live session\<close>


lemmas text_eval =
  dumps_def dumps_str_def escape_char_def newline_indent_def str_int_def str_nat.simps
  asc_def hex_digit_def

lemma py_strip_id:
  assumes "t \<noteq> []" and "\<not> is_space (hd t)" and "\<not> is_space (last t)"
  shows "py_strip t = t"
proof -
  from assms have "dropWhile is_space t = t"
    by (cases t) auto
  moreover from assms have "dropWhile is_space (rev t) = rev t"
    by (cases "rev t") (auto simp: last_rev [symmetric] simp del: last_rev)
  ultimately show ?thesis by (simp add: py_strip_def)
qed

lemma dumps_obj_strip [simp]: "py_strip (dumps (JObj kvs)) = dumps (JObj kvs)"
  by (rule py_strip_id) (simp_all add: dumps_def asc_def is_space_def)


lemma copy_field_stat:
  assumes "copy_field st k c ck = Inr c'"
  shows "stat ck c' = stat k st" and "ck' \<noteq> ck \<Longrightarrow> stat ck' c' = stat ck' c"
proof -
  from assms obtain v ckvs where
    *: "py_getitem st k = Inr v" "c = JObj ckvs" "c' = JObj (AList.update ck v ckvs)"
    by (cases c) (auto simp: copy_field_def py_setitem_def split: sum.splits)
  then show "stat ck c' = stat k st"
    by (simp add: stat_def py_getitem_def)
  show "ck' \<noteq> ck \<Longrightarrow> stat ck' c' = stat ck' c"
    using * by (simp add: stat_def py_getitem_def)
qed

lemma apply_status_fields:
  assumes "apply_status rd s = (Inr rd', s')" and "py_contains (asc ''status'') rd = Inr True"
  shows "\<exists>st. py_getitem rd' (asc ''status'') = Inr st \<and>
           stat (asc ''hp'') (player s') = stat (asc ''player_hp'') st \<and>
           stat (asc ''hp'') (enemy s') = stat (asc ''enemy_hp'') st \<and>
           stat (asc ''conc'') (player s') = stat (asc ''player_conc'') st \<and>
           stat (asc ''conc'') (enemy s') = stat (asc ''enemy_conc'') st"
proof -
  from assms obtain st0 st p1 e1 p2 e2 where
    1: "copy_field st (asc ''player_hp'') (player s) (asc ''hp'') = Inr p1" and
    2: "copy_field st (asc ''enemy_hp'') (enemy s) (asc ''hp'') = Inr e1" and
    3: "copy_field st (asc ''player_conc'') p1 (asc ''conc'') = Inr p2" and
    4: "copy_field st (asc ''enemy_conc'') e1 (asc ''conc'') = Inr e2" and
    r: "py_setitem rd (asc ''status'') st = Inr rd'" and
    s': "s' = s\<lparr>player := p2, enemy := e2\<rparr>"
    by (auto simp: apply_status_def Let_def split: sum.splits)
  from r have "py_getitem rd' (asc ''status'') = Inr st"
    by (cases rd) (auto simp: py_setitem_def py_getitem_def)
  moreover have "stat (asc ''hp'') p2 = stat (asc ''player_hp'') st"
    using copy_field_stat(1) [OF 1] copy_field_stat(2) [OF 3, of "asc ''hp''"] by simp
  moreover have "stat (asc ''hp'') e2 = stat (asc ''enemy_hp'') st"
    using copy_field_stat(1) [OF 2] copy_field_stat(2) [OF 4, of "asc ''hp''"] by simp
  moreover have "stat (asc ''conc'') p2 = stat (asc ''player_conc'') st"
    using copy_field_stat(1) [OF 3] by simp
  moreover have "stat (asc ''conc'') e2 = stat (asc ''enemy_conc'') st"
    using copy_field_stat(1) [OF 4] by simp
  ultimately show ?thesis using s' by simp
qed

lemma live_init:
  "initialize_game (live_env rd) (asc ''A'') (asc ''B'') live_engine =
     (Inr live_init_record, live_battle)"
  by (simp add: initialize_game_def call_ai_def call_ai_real_def live_engine_def offline_engine_def
      real_attempts.simps live_env_def scripted_env_def table_loads_def extract_json_def
      live_init_record_def py_contains_def init_from_data_def py_getitem_def py_get_def
      seed_state_def view_history_def ensure_defaults_def combatant_def with_combatants_def
      append_init_def live_battle_def Let_def)

lemmas live_round_eval =
  play_round_def fetch_round_def round_prompt_def call_ai_def call_ai_real_def real_attempts.simps
  live_battle_def live_engine_def offline_engine_def live_env_def scripted_env_def
  table_loads_def extract_json_def apply_status_def record_round_obj update_summary_def
  clamp_status_def clamp_field_def clamp_def py_min_def py_max_def num_val_def copy_field_def
  py_contains_def py_getitem_def py_get_def py_setitem_def py_iter_def combatant_def
  truthy_def record_skill_def Let_def live_init_record_def


text \<open>
  C1, as stated, fails on a state \<open>initialize_game\<close> produces in live mode. The backend's
  round record puts the player's hp at 0 and names the phase \<open>battle\<close>. After the round
  the player's hp is 0 and \<open>get_game_status\<close> reports \<open>game_over = True\<close>, but the phase
  it reports is the backend's \<open>battle\<close>, not \<open>ending\<close>: \<open>play_round\<close> stores the
  backend's phase as it comes and derives none from the hp.
\<close>

theorem knockout_phase_not_ending:
  "snd (initialize_game (live_env knockout_record) (asc ''A'') (asc ''B'') live_engine) = live_battle \<and>
   stat (asc ''hp'') (player knockout_state) = Some 0 \<and>
   get_game_status knockout_state =
     Inr \<lparr>st_round = 1, st_phase = JStr (asc ''battle''),
          st_player = combatant (asc ''A'') 0 1000 40,
          st_enemy = combatant (asc ''B'') 500 900 30,
          st_game_over = True, st_history_count = 2, st_mode = mode_real,
          st_enemy_skills_used = []\<rparr> \<and>
   JStr (asc ''battle'') \<noteq> JStr (asc ''ending'')"
proof -
  have neq: "dumps live_init_record \<noteq> dumps knockout_record"
    by (simp add: live_init_record_def knockout_record_def combatant_def text_eval)
  have init: "snd (initialize_game (live_env knockout_record) (asc ''A'') (asc ''B'') live_engine) =
      live_battle"
    by (simp add: live_init)
  have st: "knockout_state =
     live_battle\<lparr>round := 1, player := combatant (asc ''A'') 0 1000 40,
                 enemy := combatant (asc ''B'') 500 900 30,
                 requests := 2,
                 history := history live_battle @
                   [JObj [(asc ''round'', JInt 1), (asc ''action'', JStr (asc ''attack'')),
                          (asc ''player_skill'', JStr []), (asc ''enemy_skill'', JStr []),
                          (asc ''data'', knockout_record),
                          (asc ''timestamp'', JStr (asc ''12:00:00''))]]\<rparr>"
    unfolding knockout_state_def using neq
    by (simp add: live_round_eval knockout_record_def)
  show ?thesis
    unfolding init st
    by (simp add: get_game_status_def is_game_over_def hp_le_zero_def py_copy_def stat_def
        py_getitem_def num_val_def live_battle_def live_engine_def offline_engine_def combatant_def)
qed


lemma dict_of_stat: "stat k c = Some n \<Longrightarrow> \<exists>kvs. c = JObj kvs"
  by (cases c) (auto simp: stat_def py_getitem_def)

text \<open>
  C1, amended: whenever \<open>play_round\<close> returns a record whose status puts the player's hp at
  0, the player's hp is 0 afterwards and the next \<open>get_game_status\<close> succeeds and reports
  \<open>game_over = True\<close>, whatever phase the backend named; the phase it reports is the one
  the backend named, or the phase before the round when the record names none.
\<close>

theorem knockout_reports_game_over:
  assumes "play_round env action s0 = (Inr rd, s')"
      and "py_getitem rd (asc ''status'') = Inr st"
      and "stat (asc ''player_hp'') st = Some 0"
  shows "stat (asc ''hp'') (player s') = Some 0 \<and>
         (\<exists>snap. get_game_status s' = Inr snap \<and> st_game_over snap \<and>
            st_phase snap =
              (case py_getitem rd (asc ''phase'') of Inr p \<Rightarrow> p | Inl e \<Rightarrow> phase s0))"
proof -
  from assms(1) obtain rd0 s2 s3 where
    f: "fetch_round env action s0 = (Inr rd0, s2)" and
    ap: "apply_status rd0 s2 = (Inr rd, s3)" and
    rr: "record_round env action rd s3 = (Inr rd, s')"
    by (rule play_round_stages)
  from assms(2) have "py_contains (asc ''status'') rd = Inr True"
    by (cases rd) (auto simp: py_getitem_def py_contains_def split: option.splits)
  with apply_status_cases [OF ap] obtain p e where
    present: "py_contains (asc ''status'') rd0 = Inr True" and
    s3: "s3 = s2\<lparr>player := p, enemy := e\<rparr>" and
    eb: "bounded e (asc ''hp'') 2000"
    by auto
  from apply_status_fields [OF ap present] assms(2,3)
  have hp3: "stat (asc ''hp'') (player s3) = Some 0" by auto
  note res = record_round_result [OF rr]
  from res hp3 have hp: "stat (asc ''hp'') (player s') = Some 0" by simp
  from dict_of_stat [OF hp] obtain pk where pk: "player s' = JObj pk" ..
  from eb obtain n where "stat (asc ''hp'') e = Some n" by (auto simp: bounded_def)
  from dict_of_stat [OF this] s3 res obtain ek where ek: "enemy s' = JObj ek" by auto
  from fetch_round_kept [OF f] s3 have "phase s3 = phase s0" by (simp add: kept_def)
  with res have ph: "phase s' =
      (case py_getitem rd (asc ''phase'') of Inr p \<Rightarrow> p | Inl e \<Rightarrow> phase s0)"
    by (simp split: sum.splits)
  from hp have "is_game_over s' = Inr True"
    by (simp add: is_game_over_def hp_le_zero_stat)
  with pk ek ph have "get_game_status s' =
      Inr \<lparr>st_round = round s', st_phase = phase s', st_player = player s', st_enemy = enemy s',
           st_game_over = True, st_history_count = length (history s'),
           st_mode = mode s', st_enemy_skills_used = enemy_skills_used s'\<rparr>"
    by (simp add: get_game_status_def py_copy_def)
  with hp ph show ?thesis by simp
qed


text \<open>
  C10: when the repaired record of a \<open>play_round\<close> call is a dict without the key
  \<open>"status"\<close>, the call returns that record, both combatants are exactly as before the
  call (so are their hp and conc), the round counter is one higher and the history one
  entry longer.
\<close>

theorem play_round_without_status:
  assumes "fetch_round env action s0 = (Inr (JObj kvs), s2)"
      and "map_of kvs (asc ''status'') = None"
  shows "\<exists>s'. play_round env action s0 = (Inr (JObj kvs), s') \<and>
           player s' = player s0 \<and> enemy s' = enemy s0 \<and> round s' = round s0 + 1 \<and>
           length (history s') = Suc (length (history s0))"
proof -
  from assms(2) have ap: "apply_status (JObj kvs) s2 = (Inr (JObj kvs), s2)"
    by (simp add: apply_status_absent py_contains_def)
  from record_round_obj_kept [of s2 kvs env action] obtain s' where
    rr: "record_round env action (JObj kvs) s2 = (Inr (JObj kvs), s')"
    by blast
  from assms(1) ap rr have "play_round env action s0 = (Inr (JObj kvs), s')"
    by (simp add: play_round_def)
  moreover from fetch_round_kept [OF assms(1)] record_round_result [OF rr]
  have "player s' = player s0 \<and> enemy s' = enemy s0 \<and> round s' = round s0 + 1 \<and>
        length (history s') = Suc (length (history s0))"
    by (simp add: kept_def)
  ultimately show ?thesis by blast
qed



lemma knockout_round:
  "play_round (live_env knockout_record) (asc ''attack'') live_battle =
     (Inr knockout_record,
      live_battle\<lparr>round := 1, player := combatant (asc ''A'') 0 1000 40,
                  enemy := combatant (asc ''B'') 500 900 30, requests := 2,
                  history := history live_battle @ [round_entry knockout_record]\<rparr>)"
proof -
  have neq: "dumps live_init_record \<noteq> dumps knockout_record"
    by (simp add: live_init_record_def knockout_record_def combatant_def text_eval)
  then show ?thesis
    by (simp add: live_round_eval knockout_record_def round_entry_def)
qed


lemma bare_fetch:
  "fetch_round (live_env bare_record) (asc ''attack'') live_battle =
     (Inr bare_record, live_battle\<lparr>round := 1, requests := 2\<rparr>)"
proof -
  have neq: "dumps live_init_record \<noteq> dumps bare_record"
    by (simp add: live_init_record_def bare_record_def combatant_def text_eval)
  then show ?thesis
    by (simp add: live_round_eval bare_record_def)
qed


text \<open>
  The amended C1 at the live session with the knockout record.
\<close>

theorem knockout_reports_game_over_witness:
  "play_round (live_env knockout_record) (asc ''attack'') live_battle =
     (Inr knockout_record, knockout_state) \<and>
   stat (asc ''hp'') (player knockout_state) = Some 0 \<and>
   (\<exists>snap. get_game_status knockout_state = Inr snap \<and> st_game_over snap \<and>
      st_phase snap = JStr (asc ''battle''))"
proof -
  have r: "play_round (live_env knockout_record) (asc ''attack'') live_battle =
      (Inr knockout_record, knockout_state)"
    by (simp add: knockout_state_def knockout_round)
  have g: "py_getitem knockout_record (asc ''status'') =
      Inr (JObj [(asc ''player_hp'', JInt 0), (asc ''enemy_hp'', JInt 500),
                 (asc ''player_conc'', JInt 40), (asc ''enemy_conc'', JInt 30)])"
    by (simp add: knockout_record_def py_getitem_def)
  have z: "stat (asc ''player_hp'')
      (JObj [(asc ''player_hp'', JInt 0), (asc ''enemy_hp'', JInt 500),
             (asc ''player_conc'', JInt 40), (asc ''enemy_conc'', JInt 30)]) = Some 0"
    by (simp add: stat_def py_getitem_def num_val_def)
  have p: "py_getitem knockout_record (asc ''phase'') = Inr (JStr (asc ''battle''))"
    by (simp add: knockout_record_def py_getitem_def)
  from knockout_reports_game_over [OF r g z] r p show ?thesis
    by simp
qed



text \<open>
  C10 at the live session with a record that has a narrative and a phase only.
\<close>

theorem play_round_without_status_witness:
  "fetch_round (live_env bare_record) (asc ''attack'') live_battle =
     (Inr bare_record, live_battle\<lparr>round := 1, requests := 2\<rparr>) \<and>
   (\<exists>s'. play_round (live_env bare_record) (asc ''attack'') live_battle = (Inr bare_record, s') \<and>
      player s' = combatant (asc ''A'') 700 1000 100 \<and>
      enemy s' = combatant (asc ''B'') 900 900 100 \<and>
      round s' = 1 \<and> length (history s') = 2)"
proof -
  have f: "fetch_round (live_env bare_record) (asc ''attack'') live_battle =
      (Inr (JObj [(asc ''narrative'', JStr (asc ''Nothing happens.'')),
                  (asc ''phase'', JStr (asc ''climax''))]),
       live_battle\<lparr>round := 1, requests := 2\<rparr>)"
    using bare_fetch by (simp add: bare_record_def)
  have n: "map_of [(asc ''narrative'', JStr (asc ''Nothing happens.'')),
                   (asc ''phase'', JStr (asc ''climax''))] (asc ''status'') = None"
    by simp
  from play_round_without_status [OF f n] obtain s' where
    r: "play_round (live_env bare_record) (asc ''attack'') live_battle = (Inr bare_record, s')" and
    k: "player s' = player live_battle" "enemy s' = enemy live_battle"
       "round s' = round live_battle + 1"
       "length (history s') = Suc (length (history live_battle))"
    by (auto simp: bare_record_def)
  have "player live_battle = combatant (asc ''A'') 700 1000 100"
    "enemy live_battle = combatant (asc ''B'') 900 900 100"
    "round live_battle = 0" "length (history live_battle) = 1"
    by (simp_all add: live_battle_def live_engine_def offline_engine_def)
  with r k have "play_round (live_env bare_record) (asc ''attack'') live_battle = (Inr bare_record, s') \<and>
      player s' = combatant (asc ''A'') 700 1000 100 \<and>
      enemy s' = combatant (asc ''B'') 900 900 100 \<and>
      round s' = 1 \<and> length (history s') = 2"
    by simp
  with bare_fetch show ?thesis by blast
qed



section \<open>The retry policy of the live backend\<close>


lemma fighter_fields:
  assumes "fighter c"
  obtains n h k where "py_getitem c (asc ''name'') = Inr n"
    "stat (asc ''hp'') c = Some h" "stat (asc ''conc'') c = Some k"
  using assms by (auto simp: fighter_def split: sum.splits)

lemma mock_field_stat:
  "stat k c = Some n \<Longrightarrow> mock_field c k d = Inr (max 0 (n - d))"
  by (auto simp: stat_def mock_field_def py_sub_def split: sum.splits)

lemma mock_status_fighters:
  assumes "stat (asc ''hp'') (player s) = Some ph" "stat (asc ''hp'') (enemy s) = Some eh"
    "stat (asc ''conc'') (player s) = Some pc" "stat (asc ''conc'') (enemy s) = Some ec"
  shows "mock_status s pd ed =
     Inr (max 0 (ph - ed), max 0 (eh - pd), max 0 (pc - 20), max 0 (ec - 25))"
  using assms by (simp add: mock_status_def mock_field_stat)

lemma mock_stage_fighters:
  assumes "fighter (player s)" "fighter (enemy s)"
  shows "\<exists>x. mock_stage env s r = Inr x"
proof -
  from assms(1) obtain pn where "py_getitem (player s) (asc ''name'') = Inr pn"
    by (rule fighter_fields)
  moreover from assms(2) obtain en where "py_getitem (enemy s) (asc ''name'') = Inr en"
    by (rule fighter_fields)
  ultimately show ?thesis by (simp add: mock_stage_def)
qed

lemma call_ai_mock_total:
  assumes "fighter (player s)" "fighter (enemy s)"
  shows "\<exists>reply s'. call_ai_mock env prompt t s = (Inr reply, s')"
proof (cases "has_marker prompt")
  case True
  then show ?thesis by (simp add: call_ai_mock_def)
next
  case False
  from mock_stage_fighters [OF assms] obtain nar sk dlg pd ed where
    stage: "mock_stage env s (round s + 1) = Inr (nar, sk, dlg, pd, ed)"
    by (metis prod_cases5)
  from assms obtain ph eh pc ec where
    "stat (asc ''hp'') (player s) = Some ph" "stat (asc ''hp'') (enemy s) = Some eh"
    "stat (asc ''conc'') (player s) = Some pc" "stat (asc ''conc'') (enemy s) = Some ec"
    by (meson fighter_fields)
  from mock_status_fighters [OF this]
  have "mock_status s pd ed = Inr (max 0 (ph - ed), max 0 (eh - pd), max 0 (pc - 20), max 0 (ec - 25))" .
  with False stage show ?thesis by (simp add: call_ai_mock_def Let_def)
qed

lemma real_attempts_three:
  "real_attempts env prompt t 3 0 s =
     (case endpoint env (requests s) prompt t of
        Some c \<Rightarrow> (Inr c, s\<lparr>requests := requests s + 1\<rparr>)
      | None \<Rightarrow>
     (case endpoint env (requests s + 1) prompt t of
        Some c \<Rightarrow> (Inr c, s\<lparr>requests := requests s + 2, sleeps := sleeps s @ [1]\<rparr>)
      | None \<Rightarrow>
     (case endpoint env (requests s + 2) prompt t of
        Some c \<Rightarrow> (Inr c, s\<lparr>requests := requests s + 3, sleeps := sleeps s @ [1, 2]\<rparr>)
      | None \<Rightarrow>
          call_ai_mock env prompt t (s\<lparr>requests := requests s + 3, sleeps := sleeps s @ [1, 2]\<rparr>))))"
proof -
  have swap: "\<And>a b. s\<lparr>requests := b, sleeps := a\<rparr> = s\<lparr>sleeps := a, requests := b\<rparr>"
    by simp
  show ?thesis
    by (simp add: real_attempts.simps Let_def eval_nat_numeral swap split: option.splits)
qed

text \<open>
  C5, amended. In live mode \<open>call_ai\<close> makes at most three requests: it returns the first
  answer; after a failed first request it sleeps 1 second, after a failed second request 2
  seconds (\<open>2 ** attempt\<close>), and after a failed third request it does not sleep but returns
  what the offline generator returns for the same prompt. In offline mode it is the offline
  generator. No failure of the endpoint reaches the caller; the only errors that do are the
  offline generator's own, and there are none when both combatants have a name and numbers
  as hp and conc.
\<close>

theorem call_ai_retry_policy:
  "(\<not> use_mock s \<and> ai_enabled s \<and> has_client s \<longrightarrow>
      call_ai env prompt t s =
        (case endpoint env (requests s) prompt t of
           Some c \<Rightarrow> (Inr c, s\<lparr>requests := requests s + 1\<rparr>)
         | None \<Rightarrow>
        (case endpoint env (requests s + 1) prompt t of
           Some c \<Rightarrow> (Inr c, s\<lparr>requests := requests s + 2, sleeps := sleeps s @ [1]\<rparr>)
         | None \<Rightarrow>
        (case endpoint env (requests s + 2) prompt t of
           Some c \<Rightarrow> (Inr c, s\<lparr>requests := requests s + 3, sleeps := sleeps s @ [1, 2]\<rparr>)
         | None \<Rightarrow>
             call_ai_mock env prompt t
               (s\<lparr>requests := requests s + 3, sleeps := sleeps s @ [1, 2]\<rparr>))))) \<and>
   (use_mock s \<or> \<not> ai_enabled s \<or> \<not> has_client s \<longrightarrow>
      call_ai env prompt t s = call_ai_mock env prompt t s) \<and>
   (fighter (player s) \<and> fighter (enemy s) \<longrightarrow>
      (\<exists>reply s'. call_ai env prompt t s = (Inr reply, s')))"
proof (intro conjI impI)
  assume "\<not> use_mock s \<and> ai_enabled s \<and> has_client s"
  then show "call_ai env prompt t s =
        (case endpoint env (requests s) prompt t of
           Some c \<Rightarrow> (Inr c, s\<lparr>requests := requests s + 1\<rparr>)
         | None \<Rightarrow>
        (case endpoint env (requests s + 1) prompt t of
           Some c \<Rightarrow> (Inr c, s\<lparr>requests := requests s + 2, sleeps := sleeps s @ [1]\<rparr>)
         | None \<Rightarrow>
        (case endpoint env (requests s + 2) prompt t of
           Some c \<Rightarrow> (Inr c, s\<lparr>requests := requests s + 3, sleeps := sleeps s @ [1, 2]\<rparr>)
         | None \<Rightarrow>
             call_ai_mock env prompt t
               (s\<lparr>requests := requests s + 3, sleeps := sleeps s @ [1, 2]\<rparr>))))"
    by (simp add: call_ai_def call_ai_real_def real_attempts_three)
next
  assume "use_mock s \<or> \<not> ai_enabled s \<or> \<not> has_client s"
  then show "call_ai env prompt t s = call_ai_mock env prompt t s"
    by (auto simp: call_ai_def call_ai_real_def)
next
  assume f: "fighter (player s) \<and> fighter (enemy s)"
  let ?s3 = "s\<lparr>requests := requests s + 3, sleeps := sleeps s @ [1, 2]\<rparr>"
  from f have "fighter (player ?s3)" "fighter (enemy ?s3)" by simp_all
  from call_ai_mock_total [OF this] obtain r3 s3' where
    m3: "call_ai_mock env prompt t ?s3 = (Inr r3, s3')" by blast
  from f call_ai_mock_total obtain r0 s0' where
    m0: "call_ai_mock env prompt t s = (Inr r0, s0')" by blast
  show "\<exists>reply s'. call_ai env prompt t s = (Inr reply, s')"
    using m0 m3
    by (auto simp: call_ai_def call_ai_real_def real_attempts_three split: option.splits)
qed



lemma fighter_combatant [simp]: "fighter (combatant n h m c)"
  by (simp add: fighter_def combatant_def py_getitem_def stat_def num_val_def)

lemma name_combatant [simp]:
  "py_getitem (combatant n h m c) (asc ''name'') = Inr (JStr n)"
  by (simp add: combatant_def py_getitem_def)

lemma live_battle_fields [simp]:
  "use_mock live_battle = False" "ai_enabled live_battle = True" "has_client live_battle = True"
  "player live_battle = combatant (asc ''A'') 700 1000 100"
  "enemy live_battle = combatant (asc ''B'') 900 900 100"
  "round live_battle = 0" "requests live_battle = 1" "sleeps live_battle = []"
  "enemy_skills_used live_battle = []" "current_summary live_battle = summary_start"
  "phase live_battle = JStr (asc ''battle'')"
  by (simp_all add: live_battle_def live_engine_def offline_engine_def)

lemma outage_endpoint [simp]:
  "endpoint (outage_env seed) n prompt t = (if n = 0 then Some (dumps seed) else None)"
  by (simp add: outage_env_def scripted_env_def)

lemma no_marker_attack [simp]: "\<not> has_marker (asc ''attack'')"
  by (simp add: has_marker_def marker_init_def marker_setup_def asc_def)

lemma has_marker_default [simp]: "has_marker default_prompt"
  by (simp add: has_marker_def marker_init_def default_prompt_def)

lemma no_marker_fallback [simp]: "\<not> has_marker fallback_prompt"
  by (simp add: has_marker_def marker_init_def marker_setup_def fallback_prompt_def)

lemma str_int_1 [simp]: "str_int 1 = asc ''1''"
  by (simp add: str_int_def str_nat.simps asc_def)

lemma py_str_JStr [simp]: "py_str env (JStr t) = t"
  by (simp add: py_str_def)

lemma mock_live_battle:
  "call_ai_mock env (asc ''attack'') 7 (live_battle\<lparr>requests := q, sleeps := z\<rparr>) =
     (Inr (dumps first_round_record),
      live_battle\<lparr>requests := q, sleeps := z, enemy_skills_used := [JStr skill_whip]\<rparr>)"
  by (simp add: call_ai_mock_def mock_stage_def mock_status_fighters [of _ 700 900 100 100]
      first_round_record_def record_skill_def Let_def)

text \<open>
  The amended C5 at a live battle whose endpoint fails three times, and at the offline
  engine.
\<close>

theorem call_ai_retry_policy_witness:
  "\<not> use_mock live_battle \<and> ai_enabled live_battle \<and> has_client live_battle \<and>
   fighter (player live_battle) \<and> fighter (enemy live_battle) \<and>
   call_ai (outage_env live_init_record) (asc ''attack'') 7 live_battle =
     (Inr (dumps first_round_record),
      live_battle\<lparr>requests := 4, sleeps := [1, 2], enemy_skills_used := [JStr skill_whip]\<rparr>) \<and>
   use_mock offline_engine \<and>
   call_ai (outage_env live_init_record) default_prompt 7 offline_engine =
     (Inr (dumps mock_init_record), offline_engine)"
proof -
  have live: "\<not> use_mock live_battle \<and> ai_enabled live_battle \<and> has_client live_battle"
    by simp
  have off: "use_mock offline_engine \<or> \<not> ai_enabled offline_engine \<or> \<not> has_client offline_engine"
    by (simp add: offline_engine_def)
  have f: "fighter (player live_battle) \<and> fighter (enemy live_battle)"
    by simp
  from call_ai_retry_policy [of live_battle "outage_env live_init_record" "asc ''attack''" 7] live
  have "call_ai (outage_env live_init_record) (asc ''attack'') 7 live_battle =
      call_ai_mock (outage_env live_init_record) (asc ''attack'') 7
        (live_battle\<lparr>requests := 4, sleeps := [1, 2]\<rparr>)"
    by simp
  moreover
  from call_ai_retry_policy [of offline_engine "outage_env live_init_record" default_prompt 7] off
  have "call_ai (outage_env live_init_record) default_prompt 7 offline_engine =
      call_ai_mock (outage_env live_init_record) default_prompt 7 offline_engine"
    by blast
  ultimately show ?thesis
    using live f mock_live_battle [where env = "outage_env live_init_record" and q = 4 and z = "[1, 2]"]
    by (simp add: call_ai_mock_def [of _ default_prompt] offline_engine_def)
qed

lemma no_conc_init:
  "no_conc_state =
     live_engine\<lparr>
       player := JObj [(asc ''name'', JStr (asc ''A'')), (asc ''hp'', JInt 700),
                       (asc ''max_hp'', JInt 1000)],
       enemy := combatant (asc ''B'') 900 900 100,
       battle_reason := JStr unknown_reason,
       phase := JStr (asc ''battle''),
       history := [JObj [(asc ''type'', JStr (asc ''init'')), (asc ''data'', no_conc_record),
                         (asc ''narrative'', JStr default_opening),
                         (asc ''timestamp'', JStr (asc ''12:00:00''))]],
       init_alias := Some 0, requests := 1\<rparr>"
  by (simp add: no_conc_state_def outage_env_def initialize_game_def call_ai_def call_ai_real_def
      live_engine_def offline_engine_def
      real_attempts.simps scripted_env_def table_loads_def extract_json_def
      no_conc_record_def py_contains_def init_from_data_def py_getitem_def py_get_def
      seed_state_def view_history_def ensure_defaults_def combatant_def with_combatants_def
      append_init_def Let_def)

text \<open>
  C5, as stated, fails: a live backend seeds a player without \<open>"conc"\<close>
  (\<open>initialize_game\<close> adds defaults only when \<open>"hp"\<close> is missing), the endpoint then fails
  three times, and the offline generator the call falls back to raises \<open>KeyError\<close> to the
  caller.
\<close>

theorem offline_fallback_raises:
  "\<not> use_mock no_conc_state \<and> ai_enabled no_conc_state \<and> has_client no_conc_state \<and>
   fst (call_ai (outage_env no_conc_record) (asc ''attack'') 7 no_conc_state) = Inl KeyError"
  by (simp add: no_conc_init call_ai_def call_ai_real_def real_attempts_three live_engine_def
      offline_engine_def call_ai_mock_def mock_stage_def mock_status_def mock_field_def
      py_getitem_def py_sub_def num_val_def combatant_def record_skill_def Let_def)



section \<open>The stages of the offline generator\<close>







lemmas record_text_eval =
  mock_round_record_def mock_phase_def dumps_def dumps_str_def escape_char_def newline_indent_def
  str_int_def str_nat.simps asc_def hex_digit_def




section \<open>The repair of a response, and the summary\<close>





lemma dumps_bare_text:
  "dumps bare_record =
     [0x7B, 0x0A] @ asc ''  '' @ dumps_str (asc ''narrative'') @ asc '': '' @
     dumps_str (asc ''Nothing happens.'') @ [0x2C, 0x0A] @ asc ''  '' @
     dumps_str (asc ''phase'') @ asc '': '' @ dumps_str (asc ''climax'') @ [0x0A, 0x7D]"
  by (simp add: bare_record_def dumps_def newline_indent_def asc_def)

lemma repair_loads [simp]: "loads repair_env = map_of
   [(dumps bare_record, bare_record), (asc ''5'', JInt 5),
    (dumps first_round_record, first_round_record)]"
  by (simp add: repair_env_def text_env_def)

lemma repair_verbatim:
  "extract_json repair_env (dumps bare_record) s = (Inr bare_record, s)"
  by (simp add: extract_json_def bare_record_def)








lemma call_ai_mock_summary:
  "call_ai_mock env prompt t s = (r, s') \<Longrightarrow> current_summary s' = current_summary s"
  by (auto simp: call_ai_mock_def record_skill_def Let_def split: if_splits sum.splits prod.splits)

lemma real_attempts_summary:
  "real_attempts env prompt t m a s = (r, s') \<Longrightarrow> current_summary s' = current_summary s"
proof (induction env prompt t m a s rule: real_attempts.induct)
  case (1 env prompt t m a s)
  show ?case
  proof (cases "a < m")
    case False
    with "1.prems" show ?thesis
      by (simp add: real_attempts.simps [of env prompt t m a s] call_ai_mock_summary)
  next
    case True
    note am = this
    let ?s1 = "s\<lparr>requests := Suc (requests s)\<rparr>"
    show ?thesis
    proof (cases "endpoint env (requests s) prompt t")
      case (Some content)
      with am "1.prems" show ?thesis
        by (auto simp: real_attempts.simps [of env prompt t m a s] Let_def)
    next
      case None
      show ?thesis
      proof (cases "a < m - 1")
        case True
        let ?s2 = "?s1\<lparr>sleeps := sleeps ?s1 @ [2 ^ a]\<rparr>"
        from am None True "1.prems"
        have "real_attempts env prompt t m (Suc a) ?s2 = (r, s')"
          by (simp add: real_attempts.simps [of env prompt t m a s] Let_def)
        with "1.IH" [OF am refl None True] show ?thesis by simp
      next
        case False
        with am None "1.prems" have "call_ai_mock env prompt t ?s1 = (r, s')"
          by (simp add: real_attempts.simps [of env prompt t m a s] Let_def)
        then show ?thesis by (simp add: call_ai_mock_summary)
      qed
    qed
  qed
qed

lemma call_ai_summary:
  "call_ai env prompt t s = (r, s') \<Longrightarrow> current_summary s' = current_summary s"
  by (auto simp: call_ai_def call_ai_real_def call_ai_mock_summary real_attempts_summary
      split: if_splits)

text \<open>
  C7, amended. \<open>update_summary\<close> does nothing unless the history has at least 2 entries
  and its length is a multiple of 3; so with one init entry and \<open>n\<close> round entries it
  does nothing unless \<open>n mod 3 = 2\<close> (rounds 2, 5, 8, ...). When it runs, the state is the
  one the backend call leaves, and the summary is replaced by the reply exactly when the
  backend returns a reply of more than 10 characters; after an error or a shorter reply the
  summary is what it was.
\<close>

theorem update_summary_policy:
  "(length (history s) < 2 \<or> length (history s) mod 3 \<noteq> 0 \<longrightarrow> update_summary env s = s) \<and>
   (length (history s) = Suc n \<and> n mod 3 \<noteq> 2 \<longrightarrow> update_summary env s = s) \<and>
   (2 \<le> length (history s) \<and> length (history s) mod 3 = 0 \<and>
    call_ai env (summary_prompt env s) 3 s = (r, s1) \<longrightarrow>
      update_summary env s =
        (case r of
           Inl e \<Rightarrow> s1
         | Inr reply \<Rightarrow> if 10 < length reply then s1\<lparr>current_summary := reply\<rparr> else s1) \<and>
      current_summary (update_summary env s) =
        (case r of
           Inl e \<Rightarrow> current_summary s
         | Inr reply \<Rightarrow> if 10 < length reply then reply else current_summary s))"
proof (intro conjI impI)
  assume "length (history s) < 2 \<or> length (history s) mod 3 \<noteq> 0"
  then show "update_summary env s = s"
    by (auto simp: update_summary_def)
next
  assume a: "length (history s) = Suc n \<and> n mod 3 \<noteq> 2"
  then have "length (history s) mod 3 \<noteq> 0"
    by presburger
  then show "update_summary env s = s"
    by (simp add: update_summary_def)
next
  assume a: "2 \<le> length (history s) \<and> length (history s) mod 3 = 0 \<and>
    call_ai env (summary_prompt env s) 3 s = (r, s1)"
  then have u: "update_summary env s =
      (case r of
         Inl e \<Rightarrow> s1
       | Inr reply \<Rightarrow> if 10 < length reply then s1\<lparr>current_summary := reply\<rparr> else s1)"
    by (auto simp: update_summary_def split: sum.splits)
  from a have "current_summary s1 = current_summary s"
    by (auto dest: call_ai_summary)
  with u show "update_summary env s =
      (case r of
         Inl e \<Rightarrow> s1
       | Inr reply \<Rightarrow> if 10 < length reply then s1\<lparr>current_summary := reply\<rparr> else s1)"
    and "current_summary (update_summary env s) =
      (case r of
         Inl e \<Rightarrow> current_summary s
       | Inr reply \<Rightarrow> if 10 < length reply then reply else current_summary s)"
    by (auto split: sum.splits)
qed



lemma bare_neq: "dumps live_init_record \<noteq> dumps bare_record"
  by (simp add: live_init_record_def bare_record_def combatant_def text_eval)

lemma bare_long: "10 < length (dumps bare_record)"
  by (simp add: bare_record_def text_eval)

lemma bare_ne: "dumps bare_record \<noteq> []"
  using bare_long by auto

lemma chat1:
  "chat_state1 =
     live_battle\<lparr>round := 1, requests := 2, phase := JStr (asc ''climax''),
       history := history live_battle @ [chat_entry 1]\<rparr>"
  unfolding chat_state1_def using bare_neq
  by (simp add: live_round_eval bare_record_def chat_entry_def)

lemma chat2:
  "chat_state2 =
     live_battle\<lparr>round := 2, requests := 4, phase := JStr (asc ''climax''),
       current_summary := dumps bare_record,
       history := history live_battle @ [chat_entry 1, chat_entry 2]\<rparr>"
  unfolding chat_state2_def chat1 using bare_neq bare_long bare_ne
  by (simp add: live_round_eval bare_record_def chat_entry_def)

lemma chat3:
  "chat_state3 =
     live_battle\<lparr>round := 3, requests := 5, phase := JStr (asc ''climax''),
       current_summary := dumps bare_record,
       history := history live_battle @ [chat_entry 1, chat_entry 2, chat_entry 3]\<rparr>"
  unfolding chat_state3_def chat2 using bare_neq bare_long bare_ne
  by (simp add: live_round_eval bare_record_def chat_entry_def)

text \<open>
  C7, as stated, fails in a live session of three rounds after one \<open>initialize_game\<close>:
  the second round makes two requests and replaces the summary, the third round makes one
  request -- its own -- and leaves the summary: the summary runs on turns 2, 5, 8, ..., not
  on every third turn.
\<close>

theorem summary_runs_on_second_turn:
  "snd (initialize_game (live_env bare_record) (asc ''A'') (asc ''B'') live_engine) = live_battle \<and>
   requests live_battle = 1 \<and> current_summary live_battle = summary_start \<and>
   round chat_state1 = 1 \<and> requests chat_state1 = 2 \<and> current_summary chat_state1 = summary_start \<and>
   round chat_state2 = 2 \<and> requests chat_state2 = 4 \<and> current_summary chat_state2 = dumps bare_record \<and>
   round chat_state3 = 3 \<and> requests chat_state3 = 5 \<and> current_summary chat_state3 = dumps bare_record \<and>
   length (history chat_state3) = 4 \<and> dumps bare_record \<noteq> summary_start"
proof -
  have d: "dumps bare_record \<noteq> summary_start"
    by (simp add: bare_record_def summary_start_def text_eval)
  have i: "snd (initialize_game (live_env bare_record) (asc ''A'') (asc ''B'') live_engine) =
      live_battle"
    by (simp add: live_init)
  show ?thesis
    unfolding i using d
    by (simp add: chat1 chat2 chat3 live_battle_def live_engine_def offline_engine_def)
qed

text \<open>
  The amended C7 at the battle before its first round and in its second round.
\<close>

theorem update_summary_policy_witness:
  "update_summary (live_env bare_record) live_battle = live_battle \<and>
   length (history live_battle) = Suc 0 \<and>
   2 \<le> length (history summary_due_state) \<and> length (history summary_due_state) mod 3 = 0 \<and>
   call_ai (live_env bare_record) (summary_prompt (live_env bare_record) summary_due_state) 3
     summary_due_state = (Inr (dumps bare_record), summary_due_state\<lparr>requests := 4\<rparr>) \<and>
   update_summary (live_env bare_record) summary_due_state =
     summary_due_state\<lparr>requests := 4, current_summary := dumps bare_record\<rparr> \<and>
   current_summary (update_summary (live_env bare_record) summary_due_state) = dumps bare_record"
proof -
  have h1: "length (history live_battle) < 2 \<or> length (history live_battle) mod 3 \<noteq> 0"
    by (simp add: live_battle_def)
  have h2: "length (history live_battle) = Suc 0 \<and> (0::nat) mod 3 \<noteq> 2"
    by (simp add: live_battle_def)
  have h3: "2 \<le> length (history summary_due_state) \<and>
      length (history summary_due_state) mod 3 = 0 \<and>
      call_ai (live_env bare_record) (summary_prompt (live_env bare_record) summary_due_state) 3
        summary_due_state = (Inr (dumps bare_record), summary_due_state\<lparr>requests := 4\<rparr>)"
    by (simp add: summary_due_state_def live_battle_def live_engine_def offline_engine_def
        call_ai_def call_ai_real_def real_attempts.simps live_env_def scripted_env_def Let_def)
  note p = update_summary_policy [where env = "live_env bare_record"]
  from p [of live_battle 0] h1
  have "update_summary (live_env bare_record) live_battle = live_battle" by blast
  moreover
  from p [of summary_due_state _ "Inr (dumps bare_record)" "summary_due_state\<lparr>requests := 4\<rparr>"]
    h3 bare_long
  have "update_summary (live_env bare_record) summary_due_state =
      summary_due_state\<lparr>requests := 4, current_summary := dumps bare_record\<rparr> \<and>
    current_summary (update_summary (live_env bare_record) summary_due_state) = dumps bare_record"
    by simp
  ultimately show ?thesis using h2 h3 by blast
qed



section \<open>Snapshots and the objects they share\<close>


lemma get_game_status_refs_eq:
  "get_game_status_refs g h =
     (\<lparr>snap_player = length h, snap_enemy = Suc (length h), snap_skills_used = Suc (Suc (length h))\<rparr>,
      h @ [h ! player_at g, (h @ [h ! player_at g]) ! enemy_at g,
           (h @ [h ! player_at g, (h @ [h ! player_at g]) ! enemy_at g]) ! skills_used_at g])"
  by (simp add: get_game_status_refs_def copy_obj_def)

lemma read_slot_prefix:
  assumes "closed h" and "\<forall>b < length h. h2 ! b = h ! b" and "length h \<le> length h2"
  shows "in_store h sl \<Longrightarrow> read_slot n h2 sl = read_slot n h sl"
proof (induction n arbitrary: sl)
  case 0
  show ?case by simp
next
  case (Suc n)
  show ?case
  proof (cases sl)
    case (Val v)
    then show ?thesis by simp
  next
    case (Ref a)
    with Suc.prems have a: "a < length h" by (simp add: in_store_def)
    with assms(2,3) have same: "h2 ! a = h ! a" and a2: "a < length h2" by auto
    from assms(1) a have slots: "list_all (in_store h) (slots_of (h ! a))"
      by (simp add: closed_def list_all_length)
    show ?thesis
    proof (cases "h ! a")
      case (Dict kvs)
      with slots have "\<forall>kv \<in> set kvs. in_store h (snd kv)"
        by (auto simp: slots_of_def list_all_iff)
      then have "map (\<lambda>kv. map_option (Pair (fst kv)) (read_slot n h2 (snd kv))) kvs =
          map (\<lambda>kv. map_option (Pair (fst kv)) (read_slot n h (snd kv))) kvs"
        by (intro map_cong refl) (simp add: Suc.IH)
      with Ref Dict same a a2 show ?thesis by (simp del: map_eq_conv)
    next
      case (Lst xs)
      with slots have "\<forall>x \<in> set xs. in_store h x"
        by (auto simp: slots_of_def list_all_iff)
      then have "map (read_slot n h2) xs = map (read_slot n h) xs"
        by (intro map_cong refl) (simp add: Suc.IH)
      with Ref Lst same a a2 show ?thesis by (simp del: map_eq_conv)
    qed
  qed
qed

text \<open>
  C8, amended. The snapshot holds copies of the player, of the enemy and of the used-skills
  list: three new objects with the slots of the originals. Whatever a caller writes into
  one of these three objects, every object the engine had before is unchanged, and so is
  every value the engine reads from its state. (What the copies' slots refer to -- a
  combatant's skills list, a skill -- is not copied.)
\<close>

theorem snapshot_copies_are_shallow:
  assumes "closed h"
      and "player_at g < length h" "enemy_at g < length h" "skills_used_at g < length h"
      and "get_game_status_refs g h = (snap, h')"
      and "a = snap_player snap \<or> a = snap_enemy snap \<or> a = snap_skills_used snap"
      and "b < length h"
  shows "h' ! snap_player snap = h ! player_at g \<and>
         h' ! snap_enemy snap = h ! enemy_at g \<and>
         h' ! snap_skills_used snap = h ! skills_used_at g \<and>
         (h'[a := ob]) ! b = h ! b \<and>
         read_slot n (h'[a := ob]) (Ref b) = read_slot n h (Ref b)"
proof -
  from assms(5) have snap: "snap_player snap = length h" "snap_enemy snap = Suc (length h)"
    "snap_skills_used snap = Suc (Suc (length h))"
    and h': "h' = h @ [h ! player_at g, h ! enemy_at g, h ! skills_used_at g]"
    using assms(2-4) by (auto simp: get_game_status_refs_eq nth_append)
  from assms(6) snap have a: "length h \<le> a" by auto
  then have same: "\<forall>c < length h. (h'[a := ob]) ! c = h ! c"
    by (simp add: h' nth_append)
  have len: "length h \<le> length (h'[a := ob])" by (simp add: h')
  from assms(7) have "in_store h (Ref b)" by (simp add: in_store_def)
  from read_slot_prefix [OF assms(1) same len this]
  have "read_slot n (h'[a := ob]) (Ref b) = read_slot n h (Ref b)" .
  moreover have "h' ! snap_player snap = h ! player_at g"
    "h' ! snap_enemy snap = h ! enemy_at g"
    "h' ! snap_skills_used snap = h ! skills_used_at g"
    by (simp_all add: h' snap nth_append)
  ultimately show ?thesis using same assms(7) by simp
qed

lemma demo_status:
  "get_game_status_refs demo_roots demo_store =
     (\<lparr>snap_player = 6, snap_enemy = 7, snap_skills_used = 8\<rparr>,
      demo_store @ [demo_store ! 0, demo_store ! 1, demo_store ! 2])"
  by (simp add: get_game_status_refs_eq demo_roots_def demo_store_def)

text \<open>
  The amended C8 at the demo store: the caller overwrites the player's copy, the engine
  reads the same player.
\<close>

theorem snapshot_copies_are_shallow_witness:
  "closed demo_store \<and>
   get_game_status_refs demo_roots demo_store =
     (\<lparr>snap_player = 6, snap_enemy = 7, snap_skills_used = 8\<rparr>,
      demo_store @ [demo_store ! 0, demo_store ! 1, demo_store ! 2]) \<and>
   read_slot 4 ((demo_store @ [demo_store ! 0, demo_store ! 1, demo_store ! 2])
                  [6 := Dict [(asc ''hp'', Val (JInt 0))]]) (Ref 0) =
   read_slot 4 demo_store (Ref 0)"
proof -
  have c: "closed demo_store"
    by (simp add: closed_def demo_store_def slots_of_def in_store_def)
  have r: "player_at demo_roots < length demo_store" "enemy_at demo_roots < length demo_store"
    "skills_used_at demo_roots < length demo_store" "(0::nat) < length demo_store"
    by (simp_all add: demo_roots_def demo_store_def)
  have a: "(6::nat) = snap_player \<lparr>snap_player = 6, snap_enemy = 7, snap_skills_used = 8\<rparr> \<or>
      6 = snap_enemy \<lparr>snap_player = 6, snap_enemy = 7, snap_skills_used = 8\<rparr> \<or>
      6 = snap_skills_used \<lparr>snap_player = 6, snap_enemy = 7, snap_skills_used = 8\<rparr>"
    by simp
  from snapshot_copies_are_shallow [OF c r(1) r(2) r(3) demo_status a r(4),
      of "Dict [(asc ''hp'', Val (JInt 0))]" 4]
  show ?thesis using c demo_status by simp
qed

text \<open>
  C8, as stated, fails: the copy of the player refers to the same skills list as the
  engine's player, so after \<open>status["player"]["skills"].append("x")\<close> the engine's player
  has the skill \<open>x\<close>.
\<close>

theorem snapshot_shares_skills:
  "fst (get_game_status_refs demo_roots demo_store) =
     \<lparr>snap_player = 6, snap_enemy = 7, snap_skills_used = 8\<rparr> \<and>
   read_slot 4 (snd (get_game_status_refs demo_roots demo_store)) (Ref (player_at demo_roots)) =
     Some (JObj [(asc ''name'', JStr (asc ''A'')), (asc ''hp'', JInt 700),
                 (asc ''skills'', JArr [JObj [(asc ''name'', JStr (asc ''slash'')),
                                              (asc ''cost'', JInt 20)]])]) \<and>
   read_slot 4
     (append_to_skills (fst (get_game_status_refs demo_roots demo_store)) (Val (JStr (asc ''x'')))
        (snd (get_game_status_refs demo_roots demo_store)))
     (Ref (player_at demo_roots)) =
     Some (JObj [(asc ''name'', JStr (asc ''A'')), (asc ''hp'', JInt 700),
                 (asc ''skills'', JArr [JObj [(asc ''name'', JStr (asc ''slash'')),
                                              (asc ''cost'', JInt 20)],
                                        JStr (asc ''x'')])])"
  unfolding demo_status fst_conv snd_conv
  by (simp add: demo_roots_def demo_store_def append_to_skills_def eval_nat_numeral)



section \<open>Three rounds of an offline battle\<close>


lemma starts_with_set: "starts_with sub t \<Longrightarrow> set sub \<subseteq> set t"
  by (induction sub t rule: starts_with.induct) auto

lemma contains_set: "contains sub t \<Longrightarrow> set sub \<subseteq> set t"
proof (induction t)
  case Nil
  then show ?case by simp
next
  case (Cons c cs)
  from Cons.prems have "starts_with sub (c # cs) \<or> contains sub cs" by simp
  then show ?case
  proof
    assume "starts_with sub (c # cs)"
    then show ?thesis by (rule starts_with_set)
  next
    assume "contains sub cs"
    with Cons.IH show ?thesis by auto
  qed
qed

lemma no_marker_if: "0x521D \<notin> set t \<Longrightarrow> \<not> has_marker t"
  by (auto simp: has_marker_def marker_init_def marker_setup_def dest!: contains_set)

lemma contains_append_right: "contains sub ys \<Longrightarrow> contains sub (xs @ ys)"
  by (induction xs) auto

lemma has_marker_init_prompt: "has_marker (init_prompt a b)"
proof -
  have "contains marker_setup init_prompt_2"
    by (simp add: marker_setup_def init_prompt_2_def)
  then have "contains marker_setup (init_prompt a b)"
    unfolding init_prompt_def by (intro contains_append_right)
  then show ?thesis by (simp add: has_marker_def)
qed

lemma str_nat_digits: "set (str_nat n) \<subseteq> {48..57}"
proof (induction n rule: str_nat.induct)
  case (1 n)
  show ?case
  proof (cases "n < 10")
    case True
    then show ?thesis by (subst str_nat.simps) auto
  next
    case False
    have "n mod 10 < 10" by simp
    then have "48 + n mod 10 \<in> {48..57}" by auto
    with False "1.IH" show ?thesis by (subst str_nat.simps) auto
  qed
qed

lemma str_int_clean [simp]: "0x521D \<notin> set (str_int i)"
  using str_nat_digits [of "nat i"] str_nat_digits [of "nat (- i)"]
  by (auto simp: str_int_def)

lemma pieces_clean [simp]:
  "0x521D \<notin> set round_prompt_0" "0x521D \<notin> set round_prompt_1" "0x521D \<notin> set round_prompt_2"
  "0x521D \<notin> set round_prompt_3" "0x521D \<notin> set round_prompt_4" "0x521D \<notin> set round_prompt_5"
  "0x521D \<notin> set round_prompt_6" "0x521D \<notin> set round_prompt_7" "0x521D \<notin> set round_prompt_8"
  "0x521D \<notin> set round_prompt_9"
  by (simp_all add: round_prompt_0_def round_prompt_1_def round_prompt_2_def round_prompt_3_def
      round_prompt_4_def round_prompt_5_def round_prompt_6_def round_prompt_7_def
      round_prompt_8_def round_prompt_9_def)



lemma on_dict:
  "py_getitem (JObj kvs) k = (case map_of kvs k of None \<Rightarrow> Inl KeyError | Some v \<Rightarrow> Inr v)"
  "py_get (JObj kvs) k d = Inr (case map_of kvs k of None \<Rightarrow> d | Some v \<Rightarrow> v)"
  "py_setitem (JObj kvs) k v = Inr (JObj (AList.update k v kvs))"
  "py_contains k (JObj kvs) = Inr (map_of kvs k \<noteq> None)"
  by (simp_all add: py_getitem_def py_get_def py_setitem_def py_contains_def)

lemma mock_player_fields [simp]:
  "py_getitem (mock_player_at h c) (asc ''name'') = Inr (JStr mock_player_name)"
  "py_getitem (mock_player_at h c) (asc ''hp'') = Inr (JInt h)"
  "stat (asc ''hp'') (mock_player_at h c) = Some h"
  "stat (asc ''conc'') (mock_player_at h c) = Some c"
  "py_setitem (mock_player_at h c) (asc ''hp'') (JInt h') = Inr (mock_player_at h' c)"
  "py_setitem (mock_player_at h c) (asc ''conc'') (JInt c') = Inr (mock_player_at h c')"
  by (simp_all add: mock_player_at_def py_getitem_def py_setitem_def stat_def num_val_def)

lemma mock_enemy_fields [simp]:
  "py_getitem (mock_enemy_at h c) (asc ''name'') = Inr (JStr mock_enemy_name)"
  "py_getitem (mock_enemy_at h c) (asc ''hp'') = Inr (JInt h)"
  "stat (asc ''hp'') (mock_enemy_at h c) = Some h"
  "stat (asc ''conc'') (mock_enemy_at h c) = Some c"
  "py_setitem (mock_enemy_at h c) (asc ''hp'') (JInt h') = Inr (mock_enemy_at h' c)"
  "py_setitem (mock_enemy_at h c) (asc ''conc'') (JInt c') = Inr (mock_enemy_at h c')"
  by (simp_all add: mock_enemy_at_def py_getitem_def py_setitem_def stat_def num_val_def)

lemma offline_state_fields [simp]:
  "use_mock (offline_state H S r p (ph, eh, pc, ec) used) = True"
  "player (offline_state H S r p (ph, eh, pc, ec) used) = mock_player_at ph pc"
  "enemy (offline_state H S r p (ph, eh, pc, ec) used) = mock_enemy_at eh ec"
  "round (offline_state H S r p (ph, eh, pc, ec) used) = r"
  "phase (offline_state H S r p (ph, eh, pc, ec) used) = JStr p"
  "history (offline_state H S r p (ph, eh, pc, ec) used) = H"
  "current_summary (offline_state H S r p (ph, eh, pc, ec) used) = S"
  "enemy_skills_used (offline_state H S r p (ph, eh, pc, ec) used) = used"
  by (simp_all add: offline_state_def offline_engine_def)

lemma offline_state_updates [simp]:
  "(offline_state H S r p (ph, eh, pc, ec) used)\<lparr>round := r'\<rparr> =
     offline_state H S r' p (ph, eh, pc, ec) used"
  "(offline_state H S r p (ph, eh, pc, ec) used)\<lparr>player := mock_player_at ph' pc'\<rparr> =
     offline_state H S r p (ph', eh, pc', ec) used"
  "(offline_state H S r p (ph, eh, pc, ec) used)\<lparr>enemy := mock_enemy_at eh' ec'\<rparr> =
     offline_state H S r p (ph, eh', pc, ec') used"
  "(offline_state H S r p (ph, eh, pc, ec) used)\<lparr>phase := JStr p'\<rparr> =
     offline_state H S r p' (ph, eh, pc, ec) used"
  "(offline_state H S r p (ph, eh, pc, ec) used)\<lparr>history := H'\<rparr> =
     offline_state H' S r p (ph, eh, pc, ec) used"
  "(offline_state H S r p (ph, eh, pc, ec) used)\<lparr>current_summary := S'\<rparr> =
     offline_state H S' r p (ph, eh, pc, ec) used"
  "(offline_state H S r p (ph, eh, pc, ec) used)\<lparr>enemy_skills_used := used'\<rparr> =
     offline_state H S r p (ph, eh, pc, ec) used'"
  by (simp_all add: offline_state_def)

lemma record_skill_offline:
  "record_skill sk (offline_state H S r p (ph, eh, pc, ec) used) =
     offline_state H S r p (ph, eh, pc, ec) (if sk \<in> set used then used else used @ [sk])"
  by (simp add: record_skill_def)

lemma enemy_desc:
  "\<exists>ls. (case py_get (mock_enemy_at h c) (asc ''skills'') (JArr []) of
            Inl e \<Rightarrow> Inl e
          | Inr sks \<Rightarrow> (case py_iter sks of Inl e \<Rightarrow> Inl e | Inr xs \<Rightarrow> skill_lines env xs)) = Inr ls \<and>
        0x521D \<notin> set (join_with [0x0A] ls)"
  by (simp add: mock_enemy_at_def py_get_def py_iter_def skill_def skill_line_def py_str_def
      skill_whip_def skill_oil_def skill_pulse_def skill_recover_def
      skill_whip_fx_def skill_oil_fx_def skill_pulse_fx_def skill_recover_fx_def
      desc_pre_def desc_mid_def)

lemma names_clean [simp]:
  "0x521D \<notin> set mock_player_name" "0x521D \<notin> set mock_enemy_name"
  "0x521D \<notin> set summary_start" "0x521D \<notin> set (asc ''attack'')" "0x521D \<notin> set (asc ''battle'')"
  by (simp_all add: mock_player_name_def mock_enemy_name_def summary_start_def asc_def)

lemma offline_prompt:
  assumes "0x521D \<notin> set S" and "0x521D \<notin> set p"
  shows "\<exists>P. round_prompt env (offline_state H S r p (ph, eh, pc, ec) used) (asc ''attack'') = Inr P \<and>
             \<not> has_marker P"
proof -
  from enemy_desc [where h = eh and c = ec and env = env] obtain sks xs ls where
    1: "py_get (mock_enemy_at eh ec) (asc ''skills'') (JArr []) = Inr sks" and
    2: "py_iter sks = Inr xs" and 3: "skill_lines env xs = Inr ls" and
    4: "0x521D \<notin> set (join_with [0x0A] ls)"
    by (auto split: sum.splits)
  let ?P = "round_prompt_0 @ S @ round_prompt_1 @ str_int r @ round_prompt_2 @ p @
      round_prompt_3 @ mock_player_name @ round_prompt_4 @ str_int ph @
      round_prompt_5 @ mock_enemy_name @ round_prompt_6 @ str_int eh @
      round_prompt_7 @ asc ''attack'' @ round_prompt_8 @ join_with [0x0A] ls @ round_prompt_9"
  from 1 2 3 have "round_prompt env (offline_state H S r p (ph, eh, pc, ec) used) (asc ''attack'') =
      Inr ?P"
    by (simp add: round_prompt_def py_str_def)
  moreover from assms 4 have "0x521D \<notin> set ?P" by simp
  then have "\<not> has_marker ?P" by (rule no_marker_if)
  ultimately show ?thesis by blast
qed

lemma offline_fetch:
  assumes "0x521D \<notin> set S" and "0x521D \<notin> set p"
    and "mock_stage env (offline_state H S (r + 1) p (ph, eh, pc, ec) used) (r + 2) =
           Inr (nar, sk, dlg, pd, ed)"
    and "loads env (dumps (mock_round_record nar sk dlg pd ed
           (max 0 (ph - ed), max 0 (eh - pd), max 0 (pc - 20), max 0 (ec - 25)))) =
         Some rd"
  shows "fetch_round env (asc ''attack'') (offline_state H S r p (ph, eh, pc, ec) used) =
           (Inr rd, offline_state H S (r + 1) p (ph, eh, pc, ec)
                      (if JStr sk \<in> set used then used else used @ [JStr sk]))"
proof -
  let ?s = "offline_state H S (r + 1) p (ph, eh, pc, ec) used"
  from offline_prompt [OF assms(1,2)] obtain P where
    P: "round_prompt env ?s (asc ''attack'') = Inr P" and nm: "\<not> has_marker P"
    by blast
  have st: "mock_status (record_skill (JStr sk) ?s) pd ed =
      Inr (max 0 (ph - ed), max 0 (eh - pd), max 0 (pc - 20), max 0 (ec - 25))"
    by (simp add: mock_status_fighters [of _ ph eh pc ec])
  from assms(3) have stage: "mock_stage env ?s (2 + r) = Inr (nar, sk, dlg, pd, ed)"
    by (simp add: add.commute)
  have "call_ai env P 7 ?s =
      (Inr (dumps (mock_round_record nar sk dlg pd ed
           (max 0 (ph - ed), max 0 (eh - pd), max 0 (pc - 20), max 0 (ec - 25)))),
       record_skill (JStr sk) ?s)"
    using nm stage st by (simp add: call_ai_def call_ai_mock_def Let_def)
  moreover have "py_strip (dumps (mock_round_record nar sk dlg pd ed
           (max 0 (ph - ed), max 0 (eh - pd), max 0 (pc - 20), max 0 (ec - 25)))) =
       dumps (mock_round_record nar sk dlg pd ed
           (max 0 (ph - ed), max 0 (eh - pd), max 0 (pc - 20), max 0 (ec - 25)))"
    by (simp add: mock_round_record_def)
  ultimately show ?thesis
    using P assms(4)
    by (simp add: fetch_round_def Let_def extract_json_def record_skill_offline)
qed

lemma apply_status_mock:
  assumes "0 \<le> a" "a \<le> 2000" "0 \<le> b" "b \<le> 2000" "0 \<le> c" "c \<le> 100" "0 \<le> d" "d \<le> 100"
  shows "apply_status (mock_round_record nar sk dlg pd ed (a, b, c, d))
           (offline_state H S r p (ph, eh, pc, ec) used) =
         (Inr (mock_round_record nar sk dlg pd ed (a, b, c, d)),
          offline_state H S r p (a, b, c, d) used)"
  using assms
  by (simp add: apply_status_def mock_round_record_def on_dict
      clamp_status_def clamp_field_def clamp_def py_min_def py_max_def num_val_def
      copy_field_def Let_def)

lemma record_round_mock:
  "record_round env a (mock_round_record nar sk dlg pd ed (x, y, z, w))
     (offline_state H S r p st used) =
   (Inr (mock_round_record nar sk dlg pd ed (x, y, z, w)),
    update_summary env
      (offline_state
         (H @ [JObj [(asc ''round'', JInt r), (asc ''action'', JStr a),
                     (asc ''player_skill'', JStr mock_player_skill),
                     (asc ''enemy_skill'', JStr sk),
                     (asc ''data'', mock_round_record nar sk dlg pd ed (x, y, z, w)),
                     (asc ''timestamp'', JStr (clock env (length H)))]])
         S r (mock_phase x y) st
         (if sk = [] \<or> JStr sk \<in> set used then used else used @ [JStr sk])))"
proof (cases st)
  case (fields ph eh pc ec)
  show ?thesis
    unfolding fields mock_round_record_def prod.case record_round_obj
    by (simp add: Let_def truthy_def record_skill_offline)
qed



lemma offline_init:
  assumes "loads env (dumps mock_init_record) = Some mock_init_record"
  shows "initialize_game env pn en offline_engine =
     (Inr mock_init_record,
      offline_state [offline_init_entry env] summary_start 0 (asc ''battle'')
        (1200, 1500, 100, 100) [])"
proof -
  have c: "call_ai env (init_prompt pn en) 8 offline_engine =
      (Inr (dumps mock_init_record), offline_engine)"
    by (simp add: call_ai_def call_ai_mock_def has_marker_init_prompt offline_engine_def)
  have s: "py_strip (dumps mock_init_record) = dumps mock_init_record"
    by (simp add: mock_init_record_def)
  have x: "extract_json env (dumps mock_init_record) offline_engine =
      (Inr mock_init_record, offline_engine)"
    using assms by (simp add: extract_json_def s)
  have i: "init_from_data env mock_init_record offline_engine =
     (Inr mock_init_record,
      offline_state [offline_init_entry env] summary_start 0 (asc ''battle'')
        (1200, 1500, 100, 100) [])"
    by (simp add: init_from_data_def mock_init_record_def on_dict seed_state_def
        view_history_def ensure_defaults_def with_combatants_def append_init_def
        offline_state_def offline_engine_def mock_player_at_def mock_enemy_at_def
        offline_init_entry_def Let_def)
  have p: "py_contains (asc ''player'') mock_init_record = Inr True"
    "py_contains (asc ''enemy'') mock_init_record = Inr True"
    by (simp_all add: mock_init_record_def on_dict)
  show ?thesis
    by (simp add: initialize_game_def c x p i)
qed

lemma offline_play:
  assumes "0x521D \<notin> set S" and "0x521D \<notin> set p"
    and "mock_stage env (offline_state H S (r + 1) p (ph, eh, pc, ec) used) (r + 2) =
           Inr (nar, sk, dlg, pd, ed)"
    and "sk \<noteq> []"
    and "a = max 0 (ph - ed)" "b = max 0 (eh - pd)" "c = max 0 (pc - 20)" "d = max 0 (ec - 25)"
    and "a \<le> 2000" "b \<le> 2000" "c \<le> 100" "d \<le> 100"
    and "loads env (dumps (mock_round_record nar sk dlg pd ed (a, b, c, d))) =
         Some (mock_round_record nar sk dlg pd ed (a, b, c, d))"
  shows "\<exists>e. play_round env (asc ''attack'') (offline_state H S r p (ph, eh, pc, ec) used) =
           (Inr (mock_round_record nar sk dlg pd ed (a, b, c, d)),
            update_summary env
              (offline_state (H @ [e]) S (r + 1) (mock_phase a b) (a, b, c, d)
                 (if JStr sk \<in> set used then used else used @ [JStr sk])))"
proof -
  let ?rd = "mock_round_record nar sk dlg pd ed (a, b, c, d)"
  let ?used = "if JStr sk \<in> set used then used else used @ [JStr sk]"
  from assms(13) have parse: "loads env (dumps (mock_round_record nar sk dlg pd ed
           (max 0 (ph - ed), max 0 (eh - pd), max 0 (pc - 20), max 0 (ec - 25)))) = Some ?rd"
    by (simp add: assms(5-8))
  have f: "fetch_round env (asc ''attack'') (offline_state H S r p (ph, eh, pc, ec) used) =
      (Inr ?rd, offline_state H S (r + 1) p (ph, eh, pc, ec) ?used)"
    by (rule offline_fetch [OF assms(1,2,3) parse])
  have nn: "0 \<le> a" "0 \<le> b" "0 \<le> c" "0 \<le> d"
    by (simp_all add: assms(5-8))
  have ap: "apply_status ?rd (offline_state H S (r + 1) p (ph, eh, pc, ec) ?used) =
      (Inr ?rd, offline_state H S (r + 1) p (a, b, c, d) ?used)"
    by (rule apply_status_mock [OF nn(1) assms(9) nn(2) assms(10) nn(3) assms(11) nn(4) assms(12)])
  have u: "(if sk = [] \<or> JStr sk \<in> set ?used then ?used else ?used @ [JStr sk]) = ?used"
    by simp
  show ?thesis
    unfolding play_round_def f prod.case sum.case ap record_round_mock u
    by blast
qed

lemma update_summary_skip:
  "length H < 2 \<or> length H mod 3 \<noteq> 0 \<Longrightarrow>
   update_summary env (offline_state H S r p (ph, eh, pc, ec) used) =
     offline_state H S r p (ph, eh, pc, ec) used"
  by (auto simp: update_summary_def)

lemma stage1_of:
  "r \<le> 3 \<Longrightarrow> mock_stage env (offline_state H S r' p (ph, eh, pc, ec) used) r =
     Inr (nar_pre @ str_int r @ nar1_mid @ mock_player_name @ nar1_attack @ mock_enemy_name @
            nar1_end,
          skill_whip, mock_enemy_name @ dlg1_mid @ skill_whip @ dlg_bang, 120, 100)"
  by (simp add: mock_stage_def py_str_def)

lemma stage2_of:
  "3 < r \<Longrightarrow> r \<le> 6 \<Longrightarrow> mock_stage env (offline_state H S r' p (ph, eh, pc, ec) used) r =
     Inr (nar_pre @ str_int r @ nar2_end, skill_oil,
          mock_enemy_name @ dlg2_mid @ skill_oil @ dlg_bang, 180, 150)"
  by (simp add: mock_stage_def py_str_def)

lemma skills_ne [simp]:
  "skill_whip \<noteq> []" "skill_oil \<noteq> []" "skill_whip \<noteq> skill_oil" "skill_oil \<noteq> skill_whip"
  by (simp_all add: skill_whip_def skill_oil_def)

lemma offline_play1:
  assumes "loads env (dumps offline_round1) = Some offline_round1"
  shows "\<exists>e. play_round env (asc ''attack'')
           (offline_state [i] summary_start 0 (asc ''battle'') (1200, 1500, 100, 100) []) =
         (Inr offline_round1,
          offline_state [i, e] summary_start 1 (asc ''battle'') (1100, 1380, 80, 75)
            [JStr skill_whip])"
proof -
  have st: "mock_stage env (offline_state [i] summary_start (0 + 1) (asc ''battle'')
        (1200, 1500, 100, 100) []) (0 + 2) =
      Inr (nar_pre @ str_int 2 @ nar1_mid @ mock_player_name @ nar1_attack @ mock_enemy_name @
            nar1_end,
          skill_whip, mock_enemy_name @ dlg1_mid @ skill_whip @ dlg_bang, 120, 100)"
    by (simp add: stage1_of)
  from assms have parse: "loads env (dumps (mock_round_record
      (nar_pre @ str_int 2 @ nar1_mid @ mock_player_name @ nar1_attack @ mock_enemy_name @
            nar1_end) skill_whip (mock_enemy_name @ dlg1_mid @ skill_whip @ dlg_bang) 120 100
      (1100, 1380, 80, 75))) = Some (mock_round_record
      (nar_pre @ str_int 2 @ nar1_mid @ mock_player_name @ nar1_attack @ mock_enemy_name @
            nar1_end) skill_whip (mock_enemy_name @ dlg1_mid @ skill_whip @ dlg_bang) 120 100
      (1100, 1380, 80, 75))"
    by (simp add: offline_round1_def stage1_record_def)
  from offline_play [OF _ _ st _ _ _ _ _ _ _ _ _ parse]
  obtain e where "play_round env (asc ''attack'')
           (offline_state [i] summary_start 0 (asc ''battle'') (1200, 1500, 100, 100) []) =
         (Inr offline_round1,
          update_summary env (offline_state ([i] @ [e]) summary_start (0 + 1) (mock_phase 1100 1380)
            (1100, 1380, 80, 75) (if JStr skill_whip \<in> set [] then [] else [] @ [JStr skill_whip])))"
    by (auto simp: offline_round1_def stage1_record_def)
  then show ?thesis
    by (auto simp: update_summary_skip mock_phase_def)
qed



lemmas string_consts =
  mock_player_name_def mock_enemy_name_def mock_reason_def mock_opening_def mock_player_skill_def
  skill_whip_def skill_oil_def skill_pulse_def skill_recover_def
  skill_whip_fx_def skill_oil_fx_def skill_pulse_fx_def skill_recover_fx_def
  sk_draw_def sk_draw_fx_def sk_eye_def sk_eye_fx_def sk_guard_def sk_guard_fx_def
  sk_meditate_def sk_meditate_fx_def
  nar_pre_def nar1_mid_def nar1_attack_def nar1_end_def dlg1_mid_def dlg_bang_def
  nar2_end_def dlg2_mid_def dmg_pre_def dmg_mid_def dmg_end_def

lemma init_text_clean:
  "0x521D \<notin> set (dumps mock_init_record) \<and> 10 < length (dumps mock_init_record)"
  by (simp add: mock_init_record_def skill_def string_consts text_eval)

lemma summary_text_clean:
  "0x521D \<notin> set (dumps (stage1_record 3 (900, 1140, 40, 25))) \<and>
   10 < length (dumps (stage1_record 3 (900, 1140, 40, 25)))"
  by (simp add: stage1_record_def string_consts record_text_eval)

lemma offline_summary:
  "\<exists>S. 0x521D \<notin> set S \<and>
     update_summary env
       (offline_state [i, e1, e2] summary_start 2 (asc ''battle'') (1000, 1260, 60, 50)
          [JStr skill_whip]) =
     offline_state [i, e1, e2] S 2 (asc ''battle'') (1000, 1260, 60, 50) [JStr skill_whip]"
proof -
  let ?s = "offline_state [i, e1, e2] summary_start 2 (asc ''battle'') (1000, 1260, 60, 50)
          [JStr skill_whip]"
  show ?thesis
  proof (cases "has_marker (summary_prompt env ?s)")
    case True
    then have "call_ai env (summary_prompt env ?s) 3 ?s = (Inr (dumps mock_init_record), ?s)"
      by (simp add: call_ai_def call_ai_mock_def)
    with init_text_clean have "update_summary env ?s =
        offline_state [i, e1, e2] (dumps mock_init_record) 2 (asc ''battle'')
          (1000, 1260, 60, 50) [JStr skill_whip]"
      by (auto simp: update_summary_def)
    with init_text_clean show ?thesis by blast
  next
    case False
    have st: "mock_status ?s 120 100 = Inr (900, 1140, 40, 25)"
      by (simp add: mock_status_fighters [of _ 1000 1260 60 50])
    from False st
    have "call_ai env (summary_prompt env ?s) 3 ?s =
        (Inr (dumps (stage1_record 3 (900, 1140, 40, 25))), ?s)"
      by (simp add: call_ai_def call_ai_mock_def stage1_of Let_def record_skill_offline
          stage1_record_def)
    with summary_text_clean have "update_summary env ?s =
        offline_state [i, e1, e2] (dumps (stage1_record 3 (900, 1140, 40, 25))) 2 (asc ''battle'')
          (1000, 1260, 60, 50) [JStr skill_whip]"
      by (auto simp: update_summary_def)
    with summary_text_clean show ?thesis by blast
  qed
qed

lemma offline_play2:
  assumes "loads env (dumps offline_round2) = Some offline_round2"
  shows "\<exists>e S. 0x521D \<notin> set S \<and>
         play_round env (asc ''attack'')
           (offline_state [i, e1] summary_start 1 (asc ''battle'') (1100, 1380, 80, 75)
              [JStr skill_whip]) =
         (Inr offline_round2,
          offline_state [i, e1, e] S 2 (asc ''battle'') (1000, 1260, 60, 50) [JStr skill_whip])"
proof -
  have st: "mock_stage env (offline_state [i, e1] summary_start (1 + 1) (asc ''battle'')
        (1100, 1380, 80, 75) [JStr skill_whip]) (1 + 2) =
      Inr (nar_pre @ str_int 3 @ nar1_mid @ mock_player_name @ nar1_attack @ mock_enemy_name @
            nar1_end,
          skill_whip, mock_enemy_name @ dlg1_mid @ skill_whip @ dlg_bang, 120, 100)"
    by (simp add: stage1_of)
  from assms have parse: "loads env (dumps (mock_round_record
      (nar_pre @ str_int 3 @ nar1_mid @ mock_player_name @ nar1_attack @ mock_enemy_name @
            nar1_end) skill_whip (mock_enemy_name @ dlg1_mid @ skill_whip @ dlg_bang) 120 100
      (1000, 1260, 60, 50))) = Some (mock_round_record
      (nar_pre @ str_int 3 @ nar1_mid @ mock_player_name @ nar1_attack @ mock_enemy_name @
            nar1_end) skill_whip (mock_enemy_name @ dlg1_mid @ skill_whip @ dlg_bang) 120 100
      (1000, 1260, 60, 50))"
    by (simp add: offline_round2_def stage1_record_def)
  from offline_play [OF _ _ st _ _ _ _ _ _ _ _ _ parse]
  obtain e where p: "play_round env (asc ''attack'')
           (offline_state [i, e1] summary_start 1 (asc ''battle'') (1100, 1380, 80, 75)
              [JStr skill_whip]) =
         (Inr offline_round2,
          update_summary env (offline_state [i, e1, e] summary_start 2 (asc ''battle'')
            (1000, 1260, 60, 50) [JStr skill_whip]))"
    by (auto simp: offline_round2_def stage1_record_def mock_phase_def)
  from offline_summary [of env i e1 e] obtain S where
    "0x521D \<notin> set S"
    "update_summary env (offline_state [i, e1, e] summary_start 2 (asc ''battle'')
            (1000, 1260, 60, 50) [JStr skill_whip]) =
     offline_state [i, e1, e] S 2 (asc ''battle'') (1000, 1260, 60, 50) [JStr skill_whip]"
    by blast
  with p show ?thesis by auto
qed

lemma offline_play3:
  assumes "loads env (dumps offline_round3) = Some offline_round3" and "0x521D \<notin> set S"
  shows "\<exists>e. play_round env (asc ''attack'')
           (offline_state [i, e1, e2] S 2 (asc ''battle'') (1000, 1260, 60, 50)
              [JStr skill_whip]) =
         (Inr offline_round3,
          offline_state [i, e1, e2, e] S 3 (asc ''battle'') (850, 1080, 40, 25)
            [JStr skill_whip, JStr skill_oil])"
proof -
  have st: "mock_stage env (offline_state [i, e1, e2] S (2 + 1) (asc ''battle'')
        (1000, 1260, 60, 50) [JStr skill_whip]) (2 + 2) =
      Inr (nar_pre @ str_int 4 @ nar2_end, skill_oil,
          mock_enemy_name @ dlg2_mid @ skill_oil @ dlg_bang, 180, 150)"
    by (simp add: stage2_of)
  from assms(1) have parse: "loads env (dumps (mock_round_record
      (nar_pre @ str_int 4 @ nar2_end) skill_oil
      (mock_enemy_name @ dlg2_mid @ skill_oil @ dlg_bang) 180 150
      (850, 1080, 40, 25))) = Some (mock_round_record
      (nar_pre @ str_int 4 @ nar2_end) skill_oil
      (mock_enemy_name @ dlg2_mid @ skill_oil @ dlg_bang) 180 150
      (850, 1080, 40, 25))"
    by (simp add: offline_round3_def stage2_record_def)
  from offline_play [OF assms(2) _ st _ _ _ _ _ _ _ _ _ parse]
  obtain e where "play_round env (asc ''attack'')
           (offline_state [i, e1, e2] S 2 (asc ''battle'') (1000, 1260, 60, 50)
              [JStr skill_whip]) =
         (Inr offline_round3,
          update_summary env (offline_state [i, e1, e2, e] S 3 (asc ''battle'')
            (850, 1080, 40, 25) [JStr skill_whip, JStr skill_oil]))"
    by (auto simp: offline_round3_def stage2_record_def mock_phase_def)
  then show ?thesis
    by (auto simp: update_summary_skip)
qed

text \<open>
  C6. In offline mode, with a \<open>json.loads\<close> that reads back the four texts the offline
  generator writes, \<open>initialize_game\<close> followed by three \<open>play_round("attack")\<close> calls
  returns the seed and the three round records; the round counter is then 3, the history
  has 4 entries (it had 1 after the initialization, at round 0), and the first stage's
  skill \<open>skill_whip\<close> is in the used-skills list after the first, the second and the
  third round.
\<close>

theorem offline_three_rounds:
  assumes "loads env (dumps mock_init_record) = Some mock_init_record"
      and "loads env (dumps offline_round1) = Some offline_round1"
      and "loads env (dumps offline_round2) = Some offline_round2"
      and "loads env (dumps offline_round3) = Some offline_round3"
  shows "\<exists>s0 s1 s2 s3.
           initialize_game env player_name enemy_name offline_engine = (Inr mock_init_record, s0) \<and>
           play_round env (asc ''attack'') s0 = (Inr offline_round1, s1) \<and>
           play_round env (asc ''attack'') s1 = (Inr offline_round2, s2) \<and>
           play_round env (asc ''attack'') s2 = (Inr offline_round3, s3) \<and>
           round s0 = 0 \<and> length (history s0) = 1 \<and>
           round s3 = 3 \<and> length (history s3) = 4 \<and>
           JStr skill_whip \<in> set (enemy_skills_used s1) \<and>
           JStr skill_whip \<in> set (enemy_skills_used s2) \<and>
           JStr skill_whip \<in> set (enemy_skills_used s3)"
proof -
  let ?i = "offline_init_entry env"
  let ?s0 = "offline_state [?i] summary_start 0 (asc ''battle'') (1200, 1500, 100, 100) []"
  have 0: "initialize_game env player_name enemy_name offline_engine = (Inr mock_init_record, ?s0)"
    by (rule offline_init [OF assms(1)])
  from offline_play1 [OF assms(2), of ?i] obtain e1 where
    1: "play_round env (asc ''attack'') ?s0 =
         (Inr offline_round1,
          offline_state [?i, e1] summary_start 1 (asc ''battle'') (1100, 1380, 80, 75)
            [JStr skill_whip])"
    by blast
  from offline_play2 [OF assms(3), of ?i e1] obtain e2 S where
    S: "0x521D \<notin> set S" and
    2: "play_round env (asc ''attack'')
          (offline_state [?i, e1] summary_start 1 (asc ''battle'') (1100, 1380, 80, 75)
             [JStr skill_whip]) =
         (Inr offline_round2,
          offline_state [?i, e1, e2] S 2 (asc ''battle'') (1000, 1260, 60, 50) [JStr skill_whip])"
    by blast
  from offline_play3 [OF assms(4) S, of ?i e1 e2] obtain e3 where
    3: "play_round env (asc ''attack'')
          (offline_state [?i, e1, e2] S 2 (asc ''battle'') (1000, 1260, 60, 50)
             [JStr skill_whip]) =
         (Inr offline_round3,
          offline_state [?i, e1, e2, e3] S 3 (asc ''battle'') (850, 1080, 40, 25)
            [JStr skill_whip, JStr skill_oil])"
    by blast
  let ?s1 = "offline_state [?i, e1] summary_start 1 (asc ''battle'') (1100, 1380, 80, 75)
      [JStr skill_whip]"
  let ?s2 = "offline_state [?i, e1, e2] S 2 (asc ''battle'') (1000, 1260, 60, 50)
      [JStr skill_whip]"
  let ?s3 = "offline_state [?i, e1, e2, e3] S 3 (asc ''battle'') (850, 1080, 40, 25)
      [JStr skill_whip, JStr skill_oil]"
  have "initialize_game env player_name enemy_name offline_engine = (Inr mock_init_record, ?s0) \<and>
      play_round env (asc ''attack'') ?s0 = (Inr offline_round1, ?s1) \<and>
      play_round env (asc ''attack'') ?s1 = (Inr offline_round2, ?s2) \<and>
      play_round env (asc ''attack'') ?s2 = (Inr offline_round3, ?s3) \<and>
      round ?s0 = 0 \<and> length (history ?s0) = 1 \<and>
      round ?s3 = 3 \<and> length (history ?s3) = 4 \<and>
      JStr skill_whip \<in> set (enemy_skills_used ?s1) \<and>
      JStr skill_whip \<in> set (enemy_skills_used ?s2) \<and>
      JStr skill_whip \<in> set (enemy_skills_used ?s3)"
    by (simp add: 0 1 2 3)
  then show ?thesis by blast
qed



lemma offline_texts_differ:
  "dumps mock_init_record \<noteq> dumps offline_round1"
  "dumps mock_init_record \<noteq> dumps offline_round2"
  "dumps mock_init_record \<noteq> dumps offline_round3"
  "dumps offline_round1 \<noteq> dumps offline_round2"
  "dumps offline_round1 \<noteq> dumps offline_round3"
  "dumps offline_round2 \<noteq> dumps offline_round3"
  by (simp_all add: mock_init_record_def offline_round1_def offline_round2_def offline_round3_def
      stage1_record_def stage2_record_def skill_def string_consts record_text_eval)

lemma offline_env_loads:
  "loads offline_env (dumps mock_init_record) = Some mock_init_record"
  "loads offline_env (dumps offline_round1) = Some offline_round1"
  "loads offline_env (dumps offline_round2) = Some offline_round2"
  "loads offline_env (dumps offline_round3) = Some offline_round3"
  using offline_texts_differ
  by (simp_all add: offline_env_def scripted_env_def table_loads_def)

text \<open>
  C6 in surroundings whose \<open>json.loads\<close> is the table of the four texts.
\<close>

theorem offline_three_rounds_witness:
  "loads offline_env (dumps mock_init_record) = Some mock_init_record \<and>
   loads offline_env (dumps offline_round1) = Some offline_round1 \<and>
   loads offline_env (dumps offline_round2) = Some offline_round2 \<and>
   loads offline_env (dumps offline_round3) = Some offline_round3 \<and>
   (\<exists>s0 s1 s2 s3.
      initialize_game offline_env (asc ''A'') (asc ''B'') offline_engine = (Inr mock_init_record, s0) \<and>
      play_round offline_env (asc ''attack'') s0 = (Inr offline_round1, s1) \<and>
      play_round offline_env (asc ''attack'') s1 = (Inr offline_round2, s2) \<and>
      play_round offline_env (asc ''attack'') s2 = (Inr offline_round3, s3) \<and>
      round s0 = 0 \<and> length (history s0) = 1 \<and>
      round s3 = 3 \<and> length (history s3) = 4 \<and>
      JStr skill_whip \<in> set (enemy_skills_used s1) \<and>
      JStr skill_whip \<in> set (enemy_skills_used s2) \<and>
      JStr skill_whip \<in> set (enemy_skills_used s3))"
  using offline_three_rounds [OF offline_env_loads, of "asc ''A''" "asc ''B''"] offline_env_loads
  by blast


end
